theory Spec2Isabelle
  imports Main "HOL-Library.Sublist"
begin

section \<open>Data model of the Spicy plugin (plugin.cc)\<close>

text \<open>
  The plugin talks to three collaborators that are not part of its source: the host
  engine (Zeek's analyzer, file and packet managers, its reporter and event queue), the
  HILTI/Spicy runtime (parsers, libraries, string helpers) and the file system. Their
  state is kept in the same record as the plugin's members, so that every call the source
  makes into them is an explicit update of that record.
\<close>

subsection \<open>Runtime values\<close>

text \<open>\<^verbatim>\<open>hilti::rt::Protocol\<close>, \<^verbatim>\<open>hilti::rt::Port\<close>, \<^verbatim>\<open>spicy::rt::Direction\<close> and the fields of
  \<^verbatim>\<open>spicy::rt::Parser\<close> that the plugin reads.\<close>

datatype Protocol = Undef | TCP | UDP | ICMP

record Port =
  port :: nat
  protocol :: Protocol

datatype Direction = Originator | Responder | Both | Undef_direction

record ParserPort =
  pp_port :: Port
  direction :: Direction

record Parser =
  name :: string
  ports :: "ParserPort list"
  mime_types :: "string list"

datatype TransportProto = TRANSPORT_UNKNOWN | TRANSPORT_TCP | TRANSPORT_UDP | TRANSPORT_ICMP

text \<open>A host tag is represented by its numeric type (\<^verbatim>\<open>Tag::Type()\<close>); the number \<open>0\<close> is
  the empty tag, the one that converts to \<^verbatim>\<open>false\<close>. Type ids are the host's unsigned
  integers and are modelled as natural numbers.\<close>

type_synonym tag = nat

type_synonym path = string

subsection \<open>Messages\<close>

text \<open>\<^verbatim>\<open>hilti::rt::fmt(format, args...)\<close> belongs to the runtime; a formatted message is
  kept as the format string together with the arguments in the order the source passes
  them.\<close>

datatype fmt_arg = Str string | PortArg Port | ProtoArg Protocol

datatype message = Fmt string "fmt_arg list"

definition fmt :: "string \<Rightarrow> fmt_arg list \<Rightarrow> message" where
  "fmt f args = Fmt f args"

datatype error =
    FatalError message      \<comment> \<open>\<^verbatim>\<open>reporter::fatalError\<close>, \<^verbatim>\<open>hilti::rt::fatalError\<close>\<close>
  | InternalError message   \<comment> \<open>\<^verbatim>\<open>reporter::internalError\<close>\<close>
  | Exit nat                \<comment> \<open>\<^verbatim>\<open>exit(1)\<close>\<close>
  | OutOfBounds             \<comment> \<open>a \<^verbatim>\<open>std::vector\<close> read or written past its size\<close>

subsection \<open>Analyzer descriptors\<close>

text \<open>The three descriptor structs of \<^verbatim>\<open>plugin.h\<close>. Their fields carry a prefix here
  (\<open>pa_\<close>, \<open>fa_\<close>, \<open>pk_\<close>) because record fields share one name space. A resolved parser
  is a pointer in the source and an \<open>option\<close> here.\<close>

record ProtocolAnalyzerInfo =
  pa_name_analyzer :: string
  pa_name_parser_orig :: string
  pa_name_parser_resp :: string
  pa_name_replaces :: string
  pa_name_zeekygen :: string
  pa_protocol :: Protocol
  pa_ports :: "Port list"
  pa_type :: nat
  pa_replaces :: tag
  pa_parser_orig :: "Parser option"
  pa_parser_resp :: "Parser option"

record FileAnalyzerInfo =
  fa_name_analyzer :: string
  fa_name_parser :: string
  fa_name_replaces :: string
  fa_name_zeekygen :: string
  fa_mime_types :: "string list"
  fa_type :: nat
  fa_replaces :: tag
  fa_parser :: "Parser option"

record PacketAnalyzerInfo =
  pk_name_analyzer :: string
  pk_name_parser :: string
  pk_name_zeekygen :: string
  pk_type :: nat
  pk_parser :: "Parser option"

text \<open>Modelled from the spec: the struct declarations are in \<^verbatim>\<open>plugin.h\<close>, which is not
  among the sources. A fresh descriptor has empty names, the sentinel type \<open>0\<close>, no
  replacement and no resolved parser (``unset slots are distinguishable from set ones (a
  sentinel type field of zero means unset)'', ``resolved parser: absent until phase 2'').\<close>

definition ProtocolAnalyzerInfo_default :: ProtocolAnalyzerInfo where
  "ProtocolAnalyzerInfo_default =
     \<lparr>pa_name_analyzer = [], pa_name_parser_orig = [], pa_name_parser_resp = [],
      pa_name_replaces = [], pa_name_zeekygen = [], pa_protocol = Undef, pa_ports = [],
      pa_type = 0, pa_replaces = 0, pa_parser_orig = None, pa_parser_resp = None\<rparr>"

definition FileAnalyzerInfo_default :: FileAnalyzerInfo where
  "FileAnalyzerInfo_default =
     \<lparr>fa_name_analyzer = [], fa_name_parser = [], fa_name_replaces = [],
      fa_name_zeekygen = [], fa_mime_types = [], fa_type = 0, fa_replaces = 0,
      fa_parser = None\<rparr>"

definition PacketAnalyzerInfo_default :: PacketAnalyzerInfo where
  "PacketAnalyzerInfo_default =
     \<lparr>pk_name_analyzer = [], pk_name_parser = [], pk_name_zeekygen = [], pk_type = 0,
      pk_parser = None\<rparr>"

subsection \<open>Plugin and host state\<close>

datatype component_kind = TCP_Analyzer | UDP_Analyzer | FileAnalyzer | PacketAnalyzer

text \<open>The first group of fields are the plugin's members (the source writes them with a
  leading underscore). The second group is the host and runtime state the plugin reads
  and changes through calls; \<open>opened\<close> lists the libraries opened and \<open>searched\<close> the
  directories enumerated, in order. Modelled from the spec: the host's managers are not among
  the sources; each keeps the tag registered under a name and an enabled flag per tag,
  and a component is enabled when it is created.\<close>

record world =
  protocol_analyzers_by_type :: "ProtocolAnalyzerInfo list"
  file_analyzers_by_type :: "FileAnalyzerInfo list"
  packet_analyzers_by_type :: "PacketAnalyzerInfo list"
  libraries :: "path set"
  locations :: "string set"
  events :: "string set"
  components :: "(component_kind \<times> string) list"
  analyzer_names :: "string \<rightharpoonup> tag"
  analyzer_enabled :: "tag \<Rightarrow> bool"
  file_names :: "string \<rightharpoonup> tag"
  file_enabled :: "tag \<rightharpoonup> bool"
  packet_names :: "string \<rightharpoonup> tag"
  port_registrations :: "(tag \<times> TransportProto \<times> nat) list"
  event_queue :: "(string \<times> tag \<times> string) list"
  event_has_type :: "string \<Rightarrow> bool"
  zeekygen_scripts :: "string list"
  location :: string
  opened :: "path list"
  searched :: "path list"
  debug_log :: "message list"
  reported_errors :: "message list"

text \<open>Build-time configuration: the macro \<^verbatim>\<open>ZEEK_VERSION_NUMBER\<close> and the constant
  \<^verbatim>\<open>spicy::zeek::configuration::PluginModuleDirectory\<close>. Both are declared outside the
  sources and are parameters here.\<close>

record config =
  ZEEK_VERSION_NUMBER :: nat
  PluginModuleDirectory :: string

subsection \<open>Host services\<close>

text \<open>Modelled from the spec: the host's reporter and managers are outside the sources.
  \<^verbatim>\<open>ZEEK_DEBUG\<close> and \<^verbatim>\<open>reporter::error\<close> append to a log and return (``logged-and-continued'');
  a manager looks a tag up by name (the empty tag when the name is unknown) and enables
  or disables the analyzer of a tag.\<close>

definition ZEEK_DEBUG :: "message \<Rightarrow> world \<Rightarrow> world" where
  "ZEEK_DEBUG msg w = w\<lparr>debug_log := debug_log w @ [msg]\<rparr>"

definition reporter_error :: "string \<Rightarrow> world \<Rightarrow> world" where
  "reporter_error msg w = w\<lparr>reported_errors := reported_errors w @ [Fmt msg []]\<rparr>"

definition GetAnalyzerTag :: "world \<Rightarrow> string \<Rightarrow> tag" where
  "GetAnalyzerTag w n = (case analyzer_names w n of None \<Rightarrow> 0 | Some t \<Rightarrow> t)"

definition EnableAnalyzer :: "tag \<Rightarrow> world \<Rightarrow> world" where
  "EnableAnalyzer t w = w\<lparr>analyzer_enabled := (analyzer_enabled w)(t := True)\<rparr>"

definition DisableAnalyzer :: "tag \<Rightarrow> world \<Rightarrow> world" where
  "DisableAnalyzer t w = w\<lparr>analyzer_enabled := (analyzer_enabled w)(t := False)\<rparr>"

text \<open>\<^verbatim>\<open>file_mgr->Lookup\<close> by name and by tag returns a component or null; a component is
  represented by its tag.\<close>

definition file_Lookup_name :: "world \<Rightarrow> string \<Rightarrow> tag option" where
  "file_Lookup_name w n =
     (case file_names w n of None \<Rightarrow> None
      | Some t \<Rightarrow> (if t \<in> dom (file_enabled w) then Some t else None))"

definition file_Lookup_tag :: "world \<Rightarrow> tag \<Rightarrow> tag option" where
  "file_Lookup_tag w t = (if t \<in> dom (file_enabled w) then Some t else None)"

definition SetEnabled :: "tag \<Rightarrow> bool \<Rightarrow> world \<Rightarrow> world" where
  "SetEnabled t b w = w\<lparr>file_enabled := (file_enabled w)(t \<mapsto> b)\<rparr>"

definition GetComponentTag :: "world \<Rightarrow> string \<Rightarrow> tag" where
  "GetComponentTag w n = (case file_names w n of None \<Rightarrow> 0 | Some t \<Rightarrow> t)"

text \<open>\<^verbatim>\<open>AddComponent(c)\<close> appends to the plugin's components; \<^verbatim>\<open>c->Initialize()\<close> registers the
  component with its manager under the type id \<open>t\<close> that the host chooses.\<close>

definition AddComponent :: "component_kind \<Rightarrow> string \<Rightarrow> world \<Rightarrow> world" where
  "AddComponent k n w = w\<lparr>components := components w @ [(k, n)]\<rparr>"

definition Initialize_analyzer :: "string \<Rightarrow> tag \<Rightarrow> world \<Rightarrow> world" where
  "Initialize_analyzer n t w =
     w\<lparr>analyzer_names := (analyzer_names w)(n \<mapsto> t),
       analyzer_enabled := (analyzer_enabled w)(t := True)\<rparr>"

definition Initialize_file :: "string \<Rightarrow> tag \<Rightarrow> world \<Rightarrow> world" where
  "Initialize_file n t w =
     w\<lparr>file_names := (file_names w)(n \<mapsto> t),
       file_enabled := (file_enabled w)(t \<mapsto> True)\<rparr>"

definition Initialize_packet :: "string \<Rightarrow> tag \<Rightarrow> world \<Rightarrow> world" where
  "Initialize_packet n t w = w\<lparr>packet_names := (packet_names w)(n \<mapsto> t)\<rparr>"

definition zeekygen_Script :: "string \<Rightarrow> world \<Rightarrow> world" where
  "zeekygen_Script n w = w\<lparr>zeekygen_scripts := zeekygen_scripts w @ [n]\<rparr>"

definition makeLocation :: "string \<Rightarrow> world \<Rightarrow> world" where
  "makeLocation fname w = w\<lparr>locations := insert fname (locations w)\<rparr>"

definition set_location :: "string \<Rightarrow> world \<Rightarrow> world" where
  "set_location fname w = w\<lparr>location := fname\<rparr>"

subsection \<open>\<^verbatim>\<open>std::vector::resize\<close>\<close>

text \<open>\<^verbatim>\<open>v.resize(n)\<close> makes the size exactly \<open>n\<close>: it appends value-initialised elements
  when \<open>n\<close> is larger than the size and drops the elements from index \<open>n\<close> on when it is
  smaller.\<close>

definition resize :: "'a \<Rightarrow> nat \<Rightarrow> 'a list \<Rightarrow> 'a list" where
  "resize dflt n xs =
     (if n \<le> length xs then take n xs else xs @ replicate (n - length xs) dflt)"

section \<open>Phase 1: registration\<close>

text \<open>Lines 94--102 of \<^verbatim>\<open>registerProtocolAnalyzer\<close>: the \<^verbatim>\<open>replaces\<close> lookup, done before
  anything else.\<close>

definition replaces_protocol ::
    "string \<Rightarrow> string \<Rightarrow> ProtocolAnalyzerInfo \<Rightarrow> world \<Rightarrow> ProtocolAnalyzerInfo \<times> world" where
  "replaces_protocol nm replaces info w =
     (if replaces \<noteq> [] then
        (let tag = GetAnalyzerTag w replaces in
         if tag \<noteq> 0 then
           (info\<lparr>pa_replaces := tag\<rparr>,
            DisableAnalyzer tag
              (ZEEK_DEBUG (fmt ''  Replaces existing protocol analyzer %s'' [Str replaces]) w))
         else
           (info,
            ZEEK_DEBUG (fmt ''%s i supposed to replace %s, but that does not exist''
                          [Str nm, Str replaces, Str nm]) w))
      else (info, w))"

text \<open>
  The last two statements of each registration function,
  \<^verbatim>\<open>table.resize(info.type + 1); table[info.type] = info;\<close>. The type id is a value of the
  host's \<^verbatim>\<open>Tag::type_t\<close>. Modelled from the spec: that type is declared in the host's
  headers, outside the sources; it is an unsigned integer of 32 bits, so an id is a number
  below \<open>2 ^ 32\<close> and \<^verbatim>\<open>info.type + 1\<close> is computed modulo \<open>2 ^ 32\<close>. At the largest id the sum
  wraps to \<open>0\<close>, the table is emptied and the store is past its end.
\<close>

definition resize_and_store :: "'a \<Rightarrow> nat \<Rightarrow> 'a \<Rightarrow> 'a list \<Rightarrow> error + 'a list" where
  "resize_and_store dflt t x xs =
     (let ys = resize dflt ((t + 1) mod 4294967296) xs
      in if t < length ys then Inr (ys[t := x]) else Inl OutOfBounds)"

text \<open>Lines 112--126: create the component, initialise it, read back its type id and
  store the descriptor. The type id \<open>t\<close> is the host's choice (\<^verbatim>\<open>c->Tag().Type()\<close> after
  \<^verbatim>\<open>c->Initialize()\<close>) and therefore an argument of the registration functions.\<close>

definition store_protocol ::
    "component_kind \<Rightarrow> ProtocolAnalyzerInfo \<Rightarrow> nat \<Rightarrow> world \<Rightarrow> error + world" where
  "store_protocol factory info t w =
     (let w1 = AddComponent factory (pa_name_analyzer info) w;
          w2 = zeekygen_Script (pa_name_zeekygen info) w1;
          w3 = set_location (pa_name_zeekygen info) (makeLocation (pa_name_zeekygen info) w2);
          w4 = Initialize_analyzer (pa_name_analyzer info) t w3;
          info' = info\<lparr>pa_type := t\<rparr>
      in case resize_and_store ProtocolAnalyzerInfo_default t info'
                (protocol_analyzers_by_type w4) of
           Inl e \<Rightarrow> Inl e
         | Inr table \<Rightarrow> Inr (w4\<lparr>protocol_analyzers_by_type := table\<rparr>))"

definition registerProtocolAnalyzer ::
    "string \<Rightarrow> Protocol \<Rightarrow> Port list \<Rightarrow> string \<Rightarrow> string \<Rightarrow> string \<Rightarrow> nat \<Rightarrow> world
       \<Rightarrow> error + world" where
  "registerProtocolAnalyzer nm proto prts parser_orig parser_resp replaces t w =
     (let w0 = ZEEK_DEBUG (fmt ''Have Spicy protocol analyzer %s'' [Str nm]) w;
          info = ProtocolAnalyzerInfo_default
                   \<lparr>pa_name_analyzer := nm, pa_name_parser_orig := parser_orig,
                    pa_name_parser_resp := parser_resp, pa_name_replaces := replaces,
                    pa_name_zeekygen := ''<Spicy-'' @ nm @ ''>'', pa_protocol := proto,
                    pa_ports := prts\<rparr>;
          (info1, w1) = replaces_protocol nm replaces info w0
      in case proto of
           TCP \<Rightarrow> store_protocol TCP_Analyzer info1 t w1
         | UDP \<Rightarrow> store_protocol UDP_Analyzer info1 t w1
         | _ \<Rightarrow> Inr (reporter_error ''unsupported protocol in analyzer'' w1))"

text \<open>\<^verbatim>\<open>registerFileAnalyzer\<close>; the \<^verbatim>\<open>replaces\<close> lookup is compiled in only when
  \<^verbatim>\<open>ZEEK_VERSION_NUMBER >= 40100\<close>.\<close>

definition replaces_file ::
    "config \<Rightarrow> string \<Rightarrow> string \<Rightarrow> FileAnalyzerInfo \<Rightarrow> world \<Rightarrow> FileAnalyzerInfo \<times> world" where
  "replaces_file cfg nm replaces info w =
     (if ZEEK_VERSION_NUMBER cfg \<ge> 40100 then
        (if replaces \<noteq> [] then
           (case file_Lookup_name w replaces of
              Some component \<Rightarrow>
                (info\<lparr>fa_replaces := component\<rparr>,
                 SetEnabled component False
                   (ZEEK_DEBUG (fmt ''  Replaces existing file analyzer %s'' [Str replaces]) w))
            | None \<Rightarrow>
                (info,
                 ZEEK_DEBUG (fmt ''%s i supposed to replace %s, but that does not exist''
                               [Str nm, Str replaces, Str nm]) w))
         else (info, w))
      else (info, w))"

definition store_file :: "FileAnalyzerInfo \<Rightarrow> nat \<Rightarrow> world \<Rightarrow> error + world" where
  "store_file info t w =
     (let w1 = AddComponent FileAnalyzer (fa_name_analyzer info) w;
          w2 = zeekygen_Script (fa_name_zeekygen info) w1;
          w3 = set_location (fa_name_zeekygen info) (makeLocation (fa_name_zeekygen info) w2);
          w4 = Initialize_file (fa_name_analyzer info) t w3;
          info' = info\<lparr>fa_type := t\<rparr>
      in case resize_and_store FileAnalyzerInfo_default t info' (file_analyzers_by_type w4) of
           Inl e \<Rightarrow> Inl e
         | Inr table \<Rightarrow> Inr (w4\<lparr>file_analyzers_by_type := table\<rparr>))"

definition registerFileAnalyzer ::
    "config \<Rightarrow> string \<Rightarrow> string list \<Rightarrow> string \<Rightarrow> string \<Rightarrow> nat \<Rightarrow> world \<Rightarrow> error + world" where
  "registerFileAnalyzer cfg nm mts prs replaces t w =
     (let w0 = ZEEK_DEBUG (fmt ''Have Spicy file analyzer %s'' [Str nm]) w;
          info = FileAnalyzerInfo_default
                   \<lparr>fa_name_analyzer := nm, fa_name_parser := prs, fa_name_replaces := replaces,
                    fa_name_zeekygen := ''<Spicy-'' @ nm @ ''>'', fa_mime_types := mts\<rparr>;
          (info1, w1) = replaces_file cfg nm replaces info w0
      in store_file info1 t w1)"

definition registerPacketAnalyzer :: "string \<Rightarrow> string \<Rightarrow> nat \<Rightarrow> world \<Rightarrow> error + world" where
  "registerPacketAnalyzer nm prs t w =
     (let w0 = ZEEK_DEBUG (fmt ''Have Spicy packet analyzer %s'' [Str nm]) w;
          info = PacketAnalyzerInfo_default
                   \<lparr>pk_name_analyzer := nm, pk_name_parser := prs,
                    pk_name_zeekygen := ''<Spicy-'' @ nm @ ''>''\<rparr>;
          w1 = AddComponent PacketAnalyzer (pk_name_analyzer info) w0;
          w2 = zeekygen_Script (pk_name_zeekygen info) w1;
          w3 = set_location (pk_name_zeekygen info) (makeLocation (pk_name_zeekygen info) w2);
          w4 = Initialize_packet (pk_name_analyzer info) t w3;
          info' = info\<lparr>pk_type := t\<rparr>
      in case resize_and_store PacketAnalyzerInfo_default t info'
                (packet_analyzers_by_type w4) of
           Inl e \<Rightarrow> Inl e
         | Inr table \<Rightarrow> Inr (w4\<lparr>packet_analyzers_by_type := table\<rparr>))"

section \<open>Parser and tag lookup\<close>

text \<open>\<^verbatim>\<open>v[i]\<close> on a \<^verbatim>\<open>std::vector\<close> does not check the index; reading past the size has no
  defined result and is the outcome \<open>OutOfBounds\<close> here.\<close>

definition at :: "'a list \<Rightarrow> nat \<Rightarrow> error + 'a" where
  "at xs i = (if i < length xs then Inr (xs ! i) else Inl OutOfBounds)"

definition parserForProtocolAnalyzer :: "world \<Rightarrow> tag \<Rightarrow> bool \<Rightarrow> error + Parser option" where
  "parserForProtocolAnalyzer w tag is_orig =
     (if is_orig then
        (case at (protocol_analyzers_by_type w) tag of
           Inl e \<Rightarrow> Inl e | Inr a \<Rightarrow> Inr (pa_parser_orig a))
      else
        (case at (protocol_analyzers_by_type w) tag of
           Inl e \<Rightarrow> Inl e | Inr a \<Rightarrow> Inr (pa_parser_resp a)))"

definition parserForFileAnalyzer :: "world \<Rightarrow> tag \<Rightarrow> error + Parser option" where
  "parserForFileAnalyzer w tag =
     (case at (file_analyzers_by_type w) tag of Inl e \<Rightarrow> Inl e | Inr a \<Rightarrow> Inr (fa_parser a))"

definition parserForPacketAnalyzer :: "world \<Rightarrow> tag \<Rightarrow> error + Parser option" where
  "parserForPacketAnalyzer w tag =
     (case at (packet_analyzers_by_type w) tag of Inl e \<Rightarrow> Inl e | Inr a \<Rightarrow> Inr (pk_parser a))"

definition tagForProtocolAnalyzer :: "world \<Rightarrow> tag \<Rightarrow> error + tag" where
  "tagForProtocolAnalyzer w tag =
     (case at (protocol_analyzers_by_type w) tag of
        Inl e \<Rightarrow> Inl e
      | Inr a \<Rightarrow> (let r = pa_replaces a in if r \<noteq> 0 then Inr r else Inr tag))"

definition tagForFileAnalyzer :: "world \<Rightarrow> tag \<Rightarrow> error + tag" where
  "tagForFileAnalyzer w tag =
     (case at (file_analyzers_by_type w) tag of
        Inl e \<Rightarrow> Inl e
      | Inr a \<Rightarrow> (let r = fa_replaces a in if r \<noteq> 0 then Inr r else Inr tag))"

section \<open>Toggle controller\<close>

definition toggleAnalyzer_protocol :: "tag \<Rightarrow> bool \<Rightarrow> world \<Rightarrow> bool \<times> world" where
  "toggleAnalyzer_protocol tag enable w =
     (let ty = tag in
      if ty \<ge> length (protocol_analyzers_by_type w) then (False, w)
      else
        (let analyzer = protocol_analyzers_by_type w ! ty in
         if pa_type analyzer = 0 then (False, w)
         else if enable then
           (let w1 = EnableAnalyzer tag
                       (ZEEK_DEBUG (fmt ''Enabling Spicy protocol analyzer %s''
                                      [Str (pa_name_analyzer analyzer)]) w);
                w2 = (if pa_replaces analyzer \<noteq> 0 then
                        DisableAnalyzer (pa_replaces analyzer)
                          (ZEEK_DEBUG (fmt ''Disabling standard protocol analyzer %s''
                                         [Str (pa_name_analyzer analyzer)]) w1)
                      else w1)
            in (True, w2))
         else
           (let w1 = DisableAnalyzer tag
                       (ZEEK_DEBUG (fmt ''Disabling Spicy protocol analyzer %s''
                                      [Str (pa_name_analyzer analyzer)]) w);
                w2 = (if pa_replaces analyzer \<noteq> 0 then
                        EnableAnalyzer (pa_replaces analyzer)
                          (ZEEK_DEBUG (fmt ''Re-enabling standard protocol analyzer %s''
                                         [Str (pa_name_analyzer analyzer)]) w1)
                      else w1)
            in (True, w2))))"

definition toggleAnalyzer_file :: "config \<Rightarrow> tag \<Rightarrow> bool \<Rightarrow> world \<Rightarrow> error + bool \<times> world" where
  "toggleAnalyzer_file cfg tag enable w =
     (let ty = tag in
      if ty \<ge> length (file_analyzers_by_type w) then Inr (False, w)
      else
        (let analyzer = file_analyzers_by_type w ! ty in
         if fa_type analyzer = 0 then Inr (False, w)
         else if ZEEK_VERSION_NUMBER cfg \<ge> 40100 then
           (let component = file_Lookup_tag w tag;
                component_replaces =
                  (if fa_replaces analyzer \<noteq> 0 then file_Lookup_tag w (fa_replaces analyzer)
                   else None)
            in case component of
                 None \<Rightarrow> Inl (InternalError (Fmt ''failed to lookup file analyzer component'' []))
               | Some c \<Rightarrow>
                   if enable then
                     (let w1 = SetEnabled c True
                                 (ZEEK_DEBUG (fmt ''Enabling Spicy file analyzer %s''
                                                [Str (fa_name_analyzer analyzer)]) w);
                          w2 = (case component_replaces of
                                  Some cr \<Rightarrow>
                                    SetEnabled cr False
                                      (ZEEK_DEBUG (fmt ''Disabling standard file analyzer %s''
                                                     [Str (fa_name_analyzer analyzer)]) w1)
                                | None \<Rightarrow> w1)
                      in Inr (True, w2))
                   else
                     (let w1 = SetEnabled c False
                                 (ZEEK_DEBUG (fmt ''Disabling Spicy file analyzer %s''
                                                [Str (fa_name_analyzer analyzer)]) w);
                          w2 = (case component_replaces of
                                  Some cr \<Rightarrow>
                                    SetEnabled cr True
                                      (ZEEK_DEBUG (fmt ''Enabling standard file analyzer %s''
                                                     [Str (fa_name_analyzer analyzer)]) w1)
                                | None \<Rightarrow> w1)
                      in Inr (True, w2)))
         else
           Inr (False,
                ZEEK_DEBUG
                  (fmt ''supposed to toggle file analyzer %s, but that is not supported by Zeek version''
                     [Str (fa_name_analyzer analyzer)]) w)))"

text \<open>The packet overload compares the type id with the size of the packet table and then
  reads the slot of the \<^emph>\<open>protocol\<close> table, as the source does.\<close>

definition toggleAnalyzer_packet :: "tag \<Rightarrow> bool \<Rightarrow> world \<Rightarrow> error + bool \<times> world" where
  "toggleAnalyzer_packet tag enable w =
     (let ty = tag in
      if ty \<ge> length (packet_analyzers_by_type w) then Inr (False, w)
      else
        (case at (protocol_analyzers_by_type w) ty of
           Inl e \<Rightarrow> Inl e
         | Inr analyzer \<Rightarrow>
             if pa_type analyzer = 0 then Inr (False, w)
             else
               Inr (False,
                    ZEEK_DEBUG
                      (fmt ''supposed to toggle packet analyzer %s, but that is not supported by Zeek''
                         [Str (pa_name_analyzer analyzer)]) w)))"

section \<open>Phase 2: \<^verbatim>\<open>InitPostScript\<close>\<close>

definition quote :: string where
  "quote = [CHR 0x27]"

definition reporter_internalError :: "message \<Rightarrow> error + 'a" where
  "reporter_internalError msg = Inl (InternalError msg)"

definition transport_protocol :: "Port \<Rightarrow> error + TransportProto" where
  "transport_protocol p =
     (case protocol p of
        TCP \<Rightarrow> Inr TRANSPORT_TCP
      | UDP \<Rightarrow> Inr TRANSPORT_UDP
      | ICMP \<Rightarrow> Inr TRANSPORT_ICMP
      | _ \<Rightarrow> reporter_internalError
               (fmt (''unsupported transport protocol in port '' @ quote @ ''%s'' @ quote @
                     '' for Zeek conversion'') [PortArg p]))"

text \<open>The lambda \<^verbatim>\<open>find_parser\<close>; \<open>parsers\<close> is the list \<^verbatim>\<open>spicy::rt::parsers()\<close> returns.\<close>

definition find_parser :: "Parser list \<Rightarrow> string \<Rightarrow> string \<Rightarrow> error + Parser option" where
  "find_parser parsers analyzer prs =
     (if prs = [] then Inr None
      else
        (case find (\<lambda>p. name p = prs) parsers of
           Some p \<Rightarrow> Inr (Some p)
         | None \<Rightarrow>
             reporter_internalError
               (fmt (''Unknown Spicy parser '' @ quote @ ''%s'' @ quote @
                     '' requested by analyzer '' @ quote @ ''%s'' @ quote)
                  [Str prs, Str analyzer])))"

definition RegisterAnalyzerForPort :: "tag \<Rightarrow> TransportProto \<Rightarrow> nat \<Rightarrow> world \<Rightarrow> world" where
  "RegisterAnalyzerForPort tg tp n w =
     w\<lparr>port_registrations := port_registrations w @ [(tg, tp, n)]\<rparr>"

text \<open>The loop over the declared ports of a protocol analyzer.\<close>

fun register_ports :: "tag \<Rightarrow> Port list \<Rightarrow> world \<Rightarrow> error + world" where
  "register_ports tg [] w = Inr w"
| "register_ports tg (p # ps) w =
     (let w1 = ZEEK_DEBUG (fmt ''  Scheduling analyzer for port %s'' [PortArg p]) w
      in case transport_protocol p of
           Inl e \<Rightarrow> Inl e
         | Inr tp \<Rightarrow> register_ports tg ps (RegisterAnalyzerForPort tg tp (port p) w1))"

text \<open>The loop over the ports of the resolved responder-side parser.\<close>

fun register_parser_ports :: "tag \<Rightarrow> ParserPort list \<Rightarrow> world \<Rightarrow> error + world" where
  "register_parser_ports tg [] w = Inr w"
| "register_parser_ports tg (p # ps) w =
     (if direction p \<noteq> Both \<and> direction p \<noteq> Responder then register_parser_ports tg ps w
      else
        (let w1 = ZEEK_DEBUG (fmt ''  Scheduling analyzer for port %s'' [PortArg (pp_port p)]) w
         in case transport_protocol (pp_port p) of
              Inl e \<Rightarrow> Inl e
            | Inr tp \<Rightarrow>
                register_parser_ports tg ps
                  (RegisterAnalyzerForPort tg tp (port (pp_port p)) w1)))"

text \<open>The body of the loop over \<^verbatim>\<open>_protocol_analyzers_by_type\<close>: it updates the descriptor
  in place and registers ports with the host.\<close>

definition init_protocol_analyzer ::
    "Parser list \<Rightarrow> ProtocolAnalyzerInfo \<Rightarrow> world \<Rightarrow> error + ProtocolAnalyzerInfo \<times> world" where
  "init_protocol_analyzer parsers p w =
     (if pa_type p = 0 then Inr (p, w)
      else
        (let w1 = ZEEK_DEBUG (fmt ''Registering %s protocol analyzer %s with Zeek''
                                [ProtoArg (pa_protocol p), Str (pa_name_analyzer p)]) w
         in case find_parser parsers (pa_name_analyzer p) (pa_name_parser_orig p) of
              Inl e \<Rightarrow> Inl e
            | Inr po \<Rightarrow>
                (case find_parser parsers (pa_name_analyzer p) (pa_name_parser_resp p) of
                   Inl e \<Rightarrow> Inl e
                 | Inr pr \<Rightarrow>
                     (let p' = p\<lparr>pa_parser_orig := po, pa_parser_resp := pr\<rparr>;
                          tg = GetAnalyzerTag w1 (pa_name_analyzer p')
                      in if tg = 0 then
                           reporter_internalError
                             (fmt (''cannot get analyzer tag for '' @ quote @ ''%s'' @ quote)
                                [Str (pa_name_analyzer p')])
                         else
                           (case register_ports tg (pa_ports p') w1 of
                              Inl e \<Rightarrow> Inl e
                            | Inr w2 \<Rightarrow>
                                (case pr of
                                   None \<Rightarrow> Inr (p', w2)
                                 | Some rp \<Rightarrow>
                                     (case register_parser_ports tg (ports rp) w2 of
                                        Inl e \<Rightarrow> Inl e
                                      | Inr w3 \<Rightarrow> Inr (p', w3))))))))"

fun init_protocol_analyzers ::
    "Parser list \<Rightarrow> ProtocolAnalyzerInfo list \<Rightarrow> world
       \<Rightarrow> error + ProtocolAnalyzerInfo list \<times> world" where
  "init_protocol_analyzers parsers [] w = Inr ([], w)"
| "init_protocol_analyzers parsers (p # ps) w =
     (case init_protocol_analyzer parsers p w of
        Inl e \<Rightarrow> Inl e
      | Inr (p', w1) \<Rightarrow>
          (case init_protocol_analyzers parsers ps w1 of
             Inl e \<Rightarrow> Inl e
           | Inr (ps', w2) \<Rightarrow> Inr (p' # ps', w2)))"

text \<open>MIME types are registered by an event enqueued to the host.\<close>

definition register_analyzer_for_mime_type :: "tag \<Rightarrow> string \<Rightarrow> world \<Rightarrow> world" where
  "register_analyzer_for_mime_type tg mt w =
     (let w1 = ZEEK_DEBUG (fmt ''  Scheduling analyzer for MIME type %s'' [Str mt]) w
      in w1\<lparr>event_queue := event_queue w1 @ [(''spicy_analyzer_for_mime_type'', tg, mt)]\<rparr>)"

definition init_file_analyzer ::
    "Parser list \<Rightarrow> FileAnalyzerInfo \<Rightarrow> world \<Rightarrow> error + FileAnalyzerInfo \<times> world" where
  "init_file_analyzer parsers p w =
     (if fa_type p = 0 then Inr (p, w)
      else
        (let w1 = ZEEK_DEBUG (fmt ''Registering file analyzer %s with Zeek''
                                [Str (fa_name_analyzer p)]) w
         in case find_parser parsers (fa_name_analyzer p) (fa_name_parser p) of
              Inl e \<Rightarrow> Inl e
            | Inr pf \<Rightarrow>
                (let p' = p\<lparr>fa_parser := pf\<rparr>;
                     tg = GetComponentTag w1 (fa_name_analyzer p')
                 in if tg = 0 then
                      reporter_internalError
                        (fmt (''cannot get analyzer tag for '' @ quote @ ''%s'' @ quote)
                           [Str (fa_name_analyzer p')])
                    else
                      (let w2 = foldl (\<lambda>w mt. register_analyzer_for_mime_type tg mt w) w1
                                  (fa_mime_types p');
                           w3 = (case pf of
                                   None \<Rightarrow> w2
                                 | Some fp \<Rightarrow>
                                     foldl (\<lambda>w mt. register_analyzer_for_mime_type tg mt w) w2
                                       (mime_types fp))
                       in Inr (p', w3)))))"

fun init_file_analyzers ::
    "Parser list \<Rightarrow> FileAnalyzerInfo list \<Rightarrow> world \<Rightarrow> error + FileAnalyzerInfo list \<times> world" where
  "init_file_analyzers parsers [] w = Inr ([], w)"
| "init_file_analyzers parsers (p # ps) w =
     (case init_file_analyzer parsers p w of
        Inl e \<Rightarrow> Inl e
      | Inr (p', w1) \<Rightarrow>
          (case init_file_analyzers parsers ps w1 of
             Inl e \<Rightarrow> Inl e
           | Inr (ps', w2) \<Rightarrow> Inr (p' # ps', w2)))"

definition init_packet_analyzer ::
    "Parser list \<Rightarrow> PacketAnalyzerInfo \<Rightarrow> world \<Rightarrow> error + PacketAnalyzerInfo \<times> world" where
  "init_packet_analyzer parsers p w =
     (if pk_type p = 0 then Inr (p, w)
      else
        (let w1 = ZEEK_DEBUG (fmt ''Registering packet analyzer %s with Zeek''
                                [Str (pk_name_analyzer p)]) w
         in case find_parser parsers (pk_name_analyzer p) (pk_name_parser p) of
              Inl e \<Rightarrow> Inl e
            | Inr pf \<Rightarrow> Inr (p\<lparr>pk_parser := pf\<rparr>, w1)))"

fun init_packet_analyzers ::
    "Parser list \<Rightarrow> PacketAnalyzerInfo list \<Rightarrow> world
       \<Rightarrow> error + PacketAnalyzerInfo list \<times> world" where
  "init_packet_analyzers parsers [] w = Inr ([], w)"
| "init_packet_analyzers parsers (p # ps) w =
     (case init_packet_analyzer parsers p w of
        Inl e \<Rightarrow> Inl e
      | Inr (p', w1) \<Rightarrow>
          (case init_packet_analyzers parsers ps w1 of
             Inl e \<Rightarrow> Inl e
           | Inr (ps', w2) \<Rightarrow> Inr (p' # ps', w2)))"

text \<open>
  \<^verbatim>\<open>InitPostScript\<close>. The runtime is a parameter: \<open>rt_init\<close> stands for
  \<^verbatim>\<open>hilti::rt::init(); spicy::rt::init()\<close>, which runs the initialisation code of the loaded
  modules (it may change the state, the descriptor tables included) or throws, and
  \<open>parsers\<close> is what \<^verbatim>\<open>spicy::rt::parsers()\<close> returns afterwards. The driver's hook and the
  runtime configuration (\<^verbatim>\<open>Spicy::enable_print\<close> and the like) touch nothing that is modelled
  and are left out.
\<close>

definition give_events_dummy_type :: "world \<Rightarrow> world" where
  "give_events_dummy_type w =
     w\<lparr>event_has_type := (\<lambda>n. if n \<in> events w then True else event_has_type w n)\<rparr>"

text \<open>The part before the runtime is initialised.\<close>

definition before_runtime_init :: "world \<Rightarrow> world" where
  "before_runtime_init w =
     ZEEK_DEBUG (Fmt ''Initializing Spicy runtime'' [])
       (give_events_dummy_type
          (ZEEK_DEBUG (Fmt ''Beginning post-script initialization'' []) w))"

text \<open>The part after it (``Fill in the parser information''): the three loops over the
  descriptor tables.\<close>

definition fill_in_parsers :: "Parser list \<Rightarrow> world \<Rightarrow> error + world" where
  "fill_in_parsers parsers w =
     (case init_protocol_analyzers parsers (protocol_analyzers_by_type w) w of
        Inl e \<Rightarrow> Inl e
      | Inr (pas, w1) \<Rightarrow>
          (case init_file_analyzers parsers (file_analyzers_by_type w1) w1 of
             Inl e \<Rightarrow> Inl e
           | Inr (fas, w2) \<Rightarrow>
               (case init_packet_analyzers parsers (packet_analyzers_by_type w2) w2 of
                  Inl e \<Rightarrow> Inl e
                | Inr (pks, w3) \<Rightarrow>
                    Inr (ZEEK_DEBUG (Fmt ''Done with post-script initialization'' [])
                           (w3\<lparr>protocol_analyzers_by_type := pas,
                               file_analyzers_by_type := fas,
                               packet_analyzers_by_type := pks\<rparr>)))))"

definition InitPostScript ::
    "(world \<Rightarrow> string + world) \<Rightarrow> Parser list \<Rightarrow> world \<Rightarrow> error + world" where
  "InitPostScript rt_init parsers w =
     (case rt_init (before_runtime_init w) of
        Inl what \<Rightarrow> Inl (Exit 1)
      | Inr w1 \<Rightarrow> fill_in_parsers parsers w1)"

section \<open>Module loading and discovery\<close>

text \<open>
  The file system and the runtime's library and string helpers, as the plugin sees them:
  \<^verbatim>\<open>hilti::rt::filesystem::canonical\<close> (which throws an \<^verbatim>\<open>EnvironmentError\<close> with a message,
  or returns the canonical path), \<^verbatim>\<open>is_directory\<close>, the entries of a
  \<^verbatim>\<open>recursive_directory_iterator\<close> (each with \<^verbatim>\<open>is_regular_file()\<close>), \<^verbatim>\<open>path::extension\<close>,
  \<^verbatim>\<open>Library::open\<close> (an error message on failure), and \<^verbatim>\<open>hilti::rt::split(s, ":")\<close> and
  \<^verbatim>\<open>hilti::rt::trim\<close> (the fields \<open>rt_split\<close> and \<open>rt_trim\<close>). What a module's initialisers do when it is opened is outside the
  model; the opening itself is recorded in \<open>opened\<close>.
\<close>

record filesystem =
  canonical :: "path \<Rightarrow> string + path"
  is_directory :: "path \<Rightarrow> bool"
  recursive_directory_iterator :: "path \<Rightarrow> (path \<times> bool) list"
  extension :: "path \<Rightarrow> string"
  library_open :: "path \<Rightarrow> string option"
  rt_split :: "string \<Rightarrow> string list"
  rt_trim :: "string \<Rightarrow> string"

text \<open>A fatal error ends the process; the state it ends in is kept with the error.\<close>

type_synonym outcome = "error \<times> world + world"

definition loadModule :: "filesystem \<Rightarrow> path \<Rightarrow> world \<Rightarrow> outcome" where
  "loadModule fs p w =
     (case canonical fs p of
        Inl what \<Rightarrow> Inl (FatalError (Fmt what []), w)
      | Inr canonical_path \<Rightarrow>
          if canonical_path \<notin> libraries w then
            (let w1 = w\<lparr>libraries := insert canonical_path (libraries w)\<rparr>;
                 w2 = ZEEK_DEBUG (fmt ''Loading %s'' [Str canonical_path]) w1;
                 w3 = w2\<lparr>opened := opened w2 @ [canonical_path]\<rparr>
             in case library_open fs canonical_path of
                  Some err \<Rightarrow>
                    Inl (FatalError (fmt ''could not open library path %s: %s''
                                       [Str canonical_path, Str err]), w3)
                | None \<Rightarrow> Inr w3)
          else
            Inr (ZEEK_DEBUG (fmt ''Ignoring duplicate loading request for %s''
                               [Str canonical_path]) w))"

text \<open>The inner loop of \<^verbatim>\<open>searchModules\<close>, over the entries of one directory.\<close>

fun load_entries :: "filesystem \<Rightarrow> (path \<times> bool) list \<Rightarrow> world \<Rightarrow> outcome" where
  "load_entries fs [] w = Inr w"
| "load_entries fs ((p, is_regular_file) # es) w =
     (if is_regular_file \<and> extension fs p = ''.hlto'' then
        (case loadModule fs p w of
           Inl e \<Rightarrow> Inl e
         | Inr w1 \<Rightarrow> load_entries fs es w1)
      else load_entries fs es w)"

text \<open>The outer loop of \<^verbatim>\<open>searchModules\<close>, over the pieces of the path list.\<close>

fun search_dirs :: "filesystem \<Rightarrow> string list \<Rightarrow> world \<Rightarrow> outcome" where
  "search_dirs fs [] w = Inr w"
| "search_dirs fs (dir # dirs) w =
     (let trimmed_dir = rt_trim fs dir in
      if trimmed_dir = [] then search_dirs fs dirs w
      else if \<not> is_directory fs trimmed_dir then
        search_dirs fs dirs
          (ZEEK_DEBUG (fmt ''Module directory %s does not exist, skipping'' [Str trimmed_dir]) w)
      else
        (let w1 = ZEEK_DEBUG (fmt ''Searching %s for *.hlto'' [Str trimmed_dir]) w;
             w2 = w1\<lparr>searched := searched w1 @ [trimmed_dir]\<rparr>
         in case load_entries fs (recursive_directory_iterator fs trimmed_dir) w2 of
              Inl e \<Rightarrow> Inl e
            | Inr w3 \<Rightarrow> search_dirs fs dirs w3))"

definition searchModules :: "filesystem \<Rightarrow> string \<Rightarrow> world \<Rightarrow> outcome" where
  "searchModules fs paths w = search_dirs fs (rt_split fs paths) w"

text \<open>\<^verbatim>\<open>autoDiscoverModules\<close>; \<open>getenv_SPICY_MODULE_PATH\<close> is the result of
  \<^verbatim>\<open>getenv("SPICY_MODULE_PATH")\<close> (\<open>None\<close> for a null pointer) and \<open>zeek_plugin_path\<close> that of
  \<^verbatim>\<open>zeek::util::zeek_plugin_path()\<close>.\<close>

definition autoDiscoverModules ::
    "config \<Rightarrow> filesystem \<Rightarrow> string option \<Rightarrow> string \<Rightarrow> world \<Rightarrow> outcome" where
  "autoDiscoverModules cfg fs getenv_SPICY_MODULE_PATH zeek_plugin_path w =
     (case getenv_SPICY_MODULE_PATH of
        Some search_paths \<Rightarrow>
          if search_paths \<noteq> [] then searchModules fs search_paths w
          else
            (case searchModules fs (PluginModuleDirectory cfg) w of
               Inl e \<Rightarrow> Inl e
             | Inr w1 \<Rightarrow> searchModules fs zeek_plugin_path w1)
      | None \<Rightarrow>
          (case searchModules fs (PluginModuleDirectory cfg) w of
             Inl e \<Rightarrow> Inl e
           | Inr w1 \<Rightarrow> searchModules fs zeek_plugin_path w1))"

text \<open>\<^verbatim>\<open>HookLoadFile\<close> without the toolchain: \<open>1\<close> for a loaded module, \<open>-1\<close> for a file that
  is not the plugin's, a fatal error for a source file.\<close>

definition HookLoadFile :: "filesystem \<Rightarrow> string \<Rightarrow> world \<Rightarrow> error \<times> world + int \<times> world" where
  "HookLoadFile fs file w =
     (let ext = extension fs file in
      if ext = ''.hlto'' then
        (case loadModule fs file w of Inl e \<Rightarrow> Inl e | Inr w1 \<Rightarrow> Inr (1, w1))
      else if ext = ''.spicy'' \<or> ext = ''.evt'' \<or> ext = ''.hlt'' then
        Inl (FatalError
               (fmt (''cannot load '' @ quote @ ''%s'' @ quote @
                     '', Spicy plugin was not compiled with JIT support'') [Str file]), w)
      else Inr (- 1, w))"

text \<open>The state before any module has been loaded, used for concrete runs.\<close>

definition initial_world :: world where
  "initial_world =
     \<lparr>protocol_analyzers_by_type = [], file_analyzers_by_type = [],
      packet_analyzers_by_type = [], libraries = {}, locations = {}, events = {},
      components = [], analyzer_names = Map.empty, analyzer_enabled = (\<lambda>_. False),
      file_names = Map.empty, file_enabled = Map.empty, packet_names = Map.empty,
      port_registrations = [], event_queue = [], event_has_type = (\<lambda>_. False),
      zeekygen_scripts = [], location = [], opened = [], searched = [],
      debug_log = [],
      reported_errors = []\<rparr>"

section \<open>Specification predicates and concrete states\<close>

text \<open>
  The state a registration leaves when it returns, written without the failure case:
  the table resized to \<open>t + 1\<close> and the descriptor stored at \<open>t\<close>. The registration
  functions return exactly these states for every id below the largest one (lemmas
  \<open>store_protocol_eq\<close> to \<open>registerPacketAnalyzer_eq\<close>); the concrete states further down
  are built from them, and lemma \<open>concrete_registrations\<close> has each of them as the result
  of the registration functions themselves.
\<close>

definition stored_protocol :: "component_kind \<Rightarrow> ProtocolAnalyzerInfo \<Rightarrow> nat \<Rightarrow> world \<Rightarrow> world" where
  "stored_protocol factory info t w =
     (let w1 = AddComponent factory (pa_name_analyzer info) w;
          w2 = zeekygen_Script (pa_name_zeekygen info) w1;
          w3 = set_location (pa_name_zeekygen info) (makeLocation (pa_name_zeekygen info) w2);
          w4 = Initialize_analyzer (pa_name_analyzer info) t w3;
          info' = info\<lparr>pa_type := t\<rparr>
      in w4\<lparr>protocol_analyzers_by_type :=
               (resize ProtocolAnalyzerInfo_default (t + 1) (protocol_analyzers_by_type w4))
                 [t := info']\<rparr>)"

definition registered_protocol ::
    "string \<Rightarrow> Protocol \<Rightarrow> Port list \<Rightarrow> string \<Rightarrow> string \<Rightarrow> string \<Rightarrow> nat \<Rightarrow> world \<Rightarrow> world" where
  "registered_protocol nm proto prts parser_orig parser_resp replaces t w =
     (let w0 = ZEEK_DEBUG (fmt ''Have Spicy protocol analyzer %s'' [Str nm]) w;
          info = ProtocolAnalyzerInfo_default
                   \<lparr>pa_name_analyzer := nm, pa_name_parser_orig := parser_orig,
                    pa_name_parser_resp := parser_resp, pa_name_replaces := replaces,
                    pa_name_zeekygen := ''<Spicy-'' @ nm @ ''>'', pa_protocol := proto,
                    pa_ports := prts\<rparr>;
          (info1, w1) = replaces_protocol nm replaces info w0
      in case proto of
           TCP \<Rightarrow> stored_protocol TCP_Analyzer info1 t w1
         | UDP \<Rightarrow> stored_protocol UDP_Analyzer info1 t w1
         | _ \<Rightarrow> reporter_error ''unsupported protocol in analyzer'' w1)"

definition stored_file :: "FileAnalyzerInfo \<Rightarrow> nat \<Rightarrow> world \<Rightarrow> world" where
  "stored_file info t w =
     (let w1 = AddComponent FileAnalyzer (fa_name_analyzer info) w;
          w2 = zeekygen_Script (fa_name_zeekygen info) w1;
          w3 = set_location (fa_name_zeekygen info) (makeLocation (fa_name_zeekygen info) w2);
          w4 = Initialize_file (fa_name_analyzer info) t w3;
          info' = info\<lparr>fa_type := t\<rparr>
      in w4\<lparr>file_analyzers_by_type :=
               (resize FileAnalyzerInfo_default (t + 1) (file_analyzers_by_type w4))
                 [t := info']\<rparr>)"

definition registered_file ::
    "config \<Rightarrow> string \<Rightarrow> string list \<Rightarrow> string \<Rightarrow> string \<Rightarrow> nat \<Rightarrow> world \<Rightarrow> world" where
  "registered_file cfg nm mts prs replaces t w =
     (let w0 = ZEEK_DEBUG (fmt ''Have Spicy file analyzer %s'' [Str nm]) w;
          info = FileAnalyzerInfo_default
                   \<lparr>fa_name_analyzer := nm, fa_name_parser := prs, fa_name_replaces := replaces,
                    fa_name_zeekygen := ''<Spicy-'' @ nm @ ''>'', fa_mime_types := mts\<rparr>;
          (info1, w1) = replaces_file cfg nm replaces info w0
      in stored_file info1 t w1)"

definition registered_packet :: "string \<Rightarrow> string \<Rightarrow> nat \<Rightarrow> world \<Rightarrow> world" where
  "registered_packet nm prs t w =
     (let w0 = ZEEK_DEBUG (fmt ''Have Spicy packet analyzer %s'' [Str nm]) w;
          info = PacketAnalyzerInfo_default
                   \<lparr>pk_name_analyzer := nm, pk_name_parser := prs,
                    pk_name_zeekygen := ''<Spicy-'' @ nm @ ''>''\<rparr>;
          w1 = AddComponent PacketAnalyzer (pk_name_analyzer info) w0;
          w2 = zeekygen_Script (pk_name_zeekygen info) w1;
          w3 = set_location (pk_name_zeekygen info) (makeLocation (pk_name_zeekygen info) w2);
          w4 = Initialize_packet (pk_name_analyzer info) t w3;
          info' = info\<lparr>pk_type := t\<rparr>
      in w4\<lparr>packet_analyzers_by_type :=
               (resize PacketAnalyzerInfo_default (t + 1) (packet_analyzers_by_type w4))
                 [t := info']\<rparr>)"

text \<open>The descriptor that \<^verbatim>\<open>registerProtocolAnalyzer\<close> builds.\<close>

definition protocol_descriptor ::
    "world \<Rightarrow> string \<Rightarrow> Protocol \<Rightarrow> Port list \<Rightarrow> string \<Rightarrow> string \<Rightarrow> string \<Rightarrow> nat
       \<Rightarrow> ProtocolAnalyzerInfo" where
  "protocol_descriptor w nm proto prts po pr r t =
     \<lparr>pa_name_analyzer = nm, pa_name_parser_orig = po, pa_name_parser_resp = pr,
      pa_name_replaces = r, pa_name_zeekygen = ''<Spicy-'' @ nm @ ''>'',
      pa_protocol = proto, pa_ports = prts, pa_type = t,
      pa_replaces = (if r \<noteq> [] then GetAnalyzerTag w r else 0),
      pa_parser_orig = None, pa_parser_resp = None\<rparr>"

text \<open>The descriptor that \<^verbatim>\<open>registerFileAnalyzer\<close> builds.\<close>

definition file_descriptor ::
    "config \<Rightarrow> world \<Rightarrow> string \<Rightarrow> string list \<Rightarrow> string \<Rightarrow> string \<Rightarrow> nat \<Rightarrow> FileAnalyzerInfo" where
  "file_descriptor cfg w nm mts prs r t =
     \<lparr>fa_name_analyzer = nm, fa_name_parser = prs, fa_name_replaces = r,
      fa_name_zeekygen = ''<Spicy-'' @ nm @ ''>'', fa_mime_types = mts, fa_type = t,
      fa_replaces =
        (if ZEEK_VERSION_NUMBER cfg \<ge> 40100 \<and> r \<noteq> [] then
           (case file_Lookup_name w r of Some c \<Rightarrow> c | None \<Rightarrow> 0)
         else 0),
      fa_parser = None\<rparr>"

text \<open>The descriptor that \<^verbatim>\<open>registerPacketAnalyzer\<close> builds.\<close>

definition packet_descriptor :: "string \<Rightarrow> string \<Rightarrow> nat \<Rightarrow> PacketAnalyzerInfo" where
  "packet_descriptor nm prs t =
     \<lparr>pk_name_analyzer = nm, pk_name_parser = prs, pk_name_zeekygen = ''<Spicy-'' @ nm @ ''>'',
      pk_type = t, pk_parser = None\<rparr>"

text \<open>Concrete runs: one analyzer of each kind registered under id 1, and a protocol
  analyzer registered under id 2 followed by one registered under id 1.\<close>

definition config_41 :: config where
  "config_41 = \<lparr>ZEEK_VERSION_NUMBER = 40100, PluginModuleDirectory = ''/usr/lib/spicy''\<rparr>"

definition registered_one_each :: world where
  "registered_one_each =
     registered_packet ''K'' ''PK'' 1
       (registered_file config_41 ''F'' [] ''PF'' [] 1
         (registered_protocol ''A'' TCP [] ''PA'' ''PA'' [] 1 initial_world))"

definition registered_A2 :: world where
  "registered_A2 = registered_protocol ''A'' TCP [] ''PA'' ''PA'' [] 2 initial_world"

definition registered_A2_B1 :: world where
  "registered_A2_B1 = registered_protocol ''B'' UDP [] ''PB'' ''PB'' [] 1 registered_A2"

text \<open>A host that knows the built-in protocol analyzer OLD (tag 1, enabled) and the built-in
  file analyzer OLD (tag 1, enabled).\<close>

definition host_with_OLD :: world where
  "host_with_OLD =
     initial_world\<lparr>analyzer_names := [''OLD'' \<mapsto> 1], analyzer_enabled := (\<lambda>t. t = 1),
                   file_names := [''OLD'' \<mapsto> 1], file_enabled := [1 \<mapsto> True]\<rparr>"

definition registered_FOO :: world where
  "registered_FOO = registered_protocol ''FOO'' TCP [] ''P'' ''P'' ''OLD'' 2 host_with_OLD"

definition registered_file_FOO :: world where
  "registered_file_FOO = registered_file config_41 ''FOO'' [] ''P'' ''OLD'' 2 host_with_OLD"

definition config_40 :: config where
  "config_40 = \<lparr>ZEEK_VERSION_NUMBER = 40000, PluginModuleDirectory = ''/usr/lib/spicy''\<rparr>"

text \<open>The registration functions as the lookup of \<open>replaces\<close> followed by the creation of
  the component.\<close>

definition protocol_info ::
    "string \<Rightarrow> Protocol \<Rightarrow> Port list \<Rightarrow> string \<Rightarrow> string \<Rightarrow> string \<Rightarrow> ProtocolAnalyzerInfo" where
  "protocol_info nm proto prts po pr r =
     ProtocolAnalyzerInfo_default
       \<lparr>pa_name_analyzer := nm, pa_name_parser_orig := po, pa_name_parser_resp := pr,
        pa_name_replaces := r, pa_name_zeekygen := ''<Spicy-'' @ nm @ ''>'',
        pa_protocol := proto, pa_ports := prts\<rparr>"

definition file_info :: "string \<Rightarrow> string list \<Rightarrow> string \<Rightarrow> string \<Rightarrow> FileAnalyzerInfo" where
  "file_info nm mts prs r =
     FileAnalyzerInfo_default
       \<lparr>fa_name_analyzer := nm, fa_name_parser := prs, fa_name_replaces := r,
        fa_name_zeekygen := ''<Spicy-'' @ nm @ ''>'', fa_mime_types := mts\<rparr>"

definition after_replaces_protocol ::
    "string \<Rightarrow> Protocol \<Rightarrow> Port list \<Rightarrow> string \<Rightarrow> string \<Rightarrow> string \<Rightarrow> world
       \<Rightarrow> ProtocolAnalyzerInfo \<times> world" where
  "after_replaces_protocol nm proto prts po pr r w =
     replaces_protocol nm r (protocol_info nm proto prts po pr r)
       (ZEEK_DEBUG (fmt ''Have Spicy protocol analyzer %s'' [Str nm]) w)"

definition after_replaces_file ::
    "config \<Rightarrow> string \<Rightarrow> string list \<Rightarrow> string \<Rightarrow> string \<Rightarrow> world \<Rightarrow> FileAnalyzerInfo \<times> world" where
  "after_replaces_file cfg nm mts prs r w =
     replaces_file cfg nm r (file_info nm mts prs r)
       (ZEEK_DEBUG (fmt ''Have Spicy file analyzer %s'' [Str nm]) w)"

definition packet_over_A2 :: world where
  "packet_over_A2 = registered_packet ''K'' ''PK'' 1 registered_A2"

definition packet_only :: world where
  "packet_only = registered_packet ''K'' ''PK'' 1 initial_world"

text \<open>The registry and the list of opened libraries agree, and no library was opened twice.\<close>

definition registry_consistent :: "world \<Rightarrow> bool" where
  "registry_consistent w = (distinct (opened w) \<and> set (opened w) = libraries w)"

text \<open>The state a call ends in, whether it returns or ends the process.\<close>

definition final_state :: "outcome \<Rightarrow> world" where
  "final_state r = (case r of Inl (e, w) \<Rightarrow> w | Inr w \<Rightarrow> w)"

text \<open>A small file system for concrete runs: the module \<open>/lib/a.hlto\<close> under two
  spellings, a text file beside it, and colon-separated path lists trimmed of blanks.\<close>

fun split_on :: "char \<Rightarrow> string \<Rightarrow> string list" where
  "split_on c [] = [[]]"
| "split_on c (x # xs) =
     (if x = c then [] # split_on c xs
      else (case split_on c xs of y # ys \<Rightarrow> (x # y) # ys | [] \<Rightarrow> [[x]]))"

definition trim_blanks :: "string \<Rightarrow> string" where
  "trim_blanks s =
     rev (dropWhile (\<lambda>c. c = CHR '' '') (rev (dropWhile (\<lambda>c. c = CHR '' '') s)))"

definition example_fs :: filesystem where
  "example_fs =
     \<lparr>canonical =
        (\<lambda>p. if p = ''/lib/a.hlto'' \<or> p = ''/lib/./a.hlto'' then Inr ''/lib/a.hlto''
             else Inl ''No such file or directory''),
      is_directory = (\<lambda>p. p = ''/lib'' \<or> p = ''/usr/lib/spicy''),
      recursive_directory_iterator =
        (\<lambda>p. if p = ''/lib''
             then [(''/lib/a.hlto'', True), (''/lib/notes.txt'', True), (''/lib/./a.hlto'', True)]
             else []),
      extension = (\<lambda>p. if p = ''/lib/a.hlto'' \<or> p = ''/lib/./a.hlto'' then ''.hlto'' else ''.txt''),
      library_open = (\<lambda>p. None),
      rt_split = split_on CHR '':'',
      rt_trim = trim_blanks\<rparr>"

text \<open>The directories a path list names, in the spec's words: each piece trimmed, empty
  pieces skipped, pieces that are not existing directories skipped.\<close>

definition directories_of :: "filesystem \<Rightarrow> string \<Rightarrow> path list" where
  "directories_of fs paths =
     filter (is_directory fs) (filter (\<lambda>d. d \<noteq> []) (map (rt_trim fs) (rt_split fs paths)))"

text \<open>A declared parser name is resolved when an empty name has no parser and a non-empty
  name has the first runtime parser of exactly that name.\<close>

definition resolves :: "Parser list \<Rightarrow> string \<Rightarrow> Parser option \<Rightarrow> bool" where
  "resolves parsers declared resolved =
     (if declared = [] then resolved = None
      else resolved \<noteq> None \<and> resolved = find (\<lambda>q. name q = declared) parsers)"

definition unresolvable :: "Parser list \<Rightarrow> string \<Rightarrow> bool" where
  "unresolvable parsers declared =
     (declared \<noteq> [] \<and> find (\<lambda>q. name q = declared) parsers = None)"

definition protocol_resolved :: "Parser list \<Rightarrow> ProtocolAnalyzerInfo \<Rightarrow> bool" where
  "protocol_resolved parsers p =
     (resolves parsers (pa_name_parser_orig p) (pa_parser_orig p) \<and>
      resolves parsers (pa_name_parser_resp p) (pa_parser_resp p))"

definition file_resolved :: "Parser list \<Rightarrow> FileAnalyzerInfo \<Rightarrow> bool" where
  "file_resolved parsers p = resolves parsers (fa_name_parser p) (fa_parser p)"

definition packet_resolved :: "Parser list \<Rightarrow> PacketAnalyzerInfo \<Rightarrow> bool" where
  "packet_resolved parsers p = resolves parsers (pk_name_parser p) (pk_parser p)"

text \<open>The loops of phase 2 leave the tables kept in the state and the names the host
  knows alone; the updated descriptors are returned beside the state.\<close>

definition same_tables :: "world \<Rightarrow> world \<Rightarrow> bool" where
  "same_tables w w' =
     (protocol_analyzers_by_type w' = protocol_analyzers_by_type w \<and>
      file_analyzers_by_type w' = file_analyzers_by_type w \<and>
      packet_analyzers_by_type w' = packet_analyzers_by_type w \<and>
      analyzer_names w' = analyzer_names w \<and>
      file_names w' = file_names w)"

text \<open>Some set descriptor of the state declares a parser name that no runtime parser has.\<close>

definition has_unresolvable :: "Parser list \<Rightarrow> world \<Rightarrow> bool" where
  "has_unresolvable parsers w =
     ((\<exists>p \<in> set (protocol_analyzers_by_type w). pa_type p \<noteq> 0 \<and>
         (unresolvable parsers (pa_name_parser_orig p) \<or>
          unresolvable parsers (pa_name_parser_resp p))) \<or>
      (\<exists>p \<in> set (file_analyzers_by_type w). fa_type p \<noteq> 0 \<and>
         unresolvable parsers (fa_name_parser p)) \<or>
      (\<exists>p \<in> set (packet_analyzers_by_type w). pk_type p \<noteq> 0 \<and>
         unresolvable parsers (pk_name_parser p)))"

text \<open>What the lookup of a declared name gives when it does not fail: nothing for the empty
  name, the first runtime parser of exactly that name otherwise.\<close>

definition lookup_parser :: "Parser list \<Rightarrow> string \<Rightarrow> Parser option" where
  "lookup_parser parsers declared =
     (if declared = [] then None else find (\<lambda>q. name q = declared) parsers)"

text \<open>A descriptor with its declared names looked up: nothing but the resolved parsers of
  a set descriptor changes, and an unset slot is left as it is.\<close>

definition resolved_protocol :: "Parser list \<Rightarrow> ProtocolAnalyzerInfo \<Rightarrow> ProtocolAnalyzerInfo" where
  "resolved_protocol parsers p =
     (if pa_type p = 0 then p
      else p\<lparr>pa_parser_orig := lookup_parser parsers (pa_name_parser_orig p),
             pa_parser_resp := lookup_parser parsers (pa_name_parser_resp p)\<rparr>)"

definition resolved_file :: "Parser list \<Rightarrow> FileAnalyzerInfo \<Rightarrow> FileAnalyzerInfo" where
  "resolved_file parsers p =
     (if fa_type p = 0 then p
      else p\<lparr>fa_parser := lookup_parser parsers (fa_name_parser p)\<rparr>)"

definition resolved_packet :: "Parser list \<Rightarrow> PacketAnalyzerInfo \<Rightarrow> PacketAnalyzerInfo" where
  "resolved_packet parsers p =
     (if pk_type p = 0 then p
      else p\<lparr>pk_parser := lookup_parser parsers (pk_name_parser p)\<rparr>)"

text \<open>Nothing stops phase 2 at a descriptor: it is unset, or each of its declared names is
  empty or the name of a runtime parser and, for a protocol or a file analyzer, the host
  knows a tag for the analyzer's name and, for a protocol analyzer, the declared ports and
  the responder-side ports of the resolved responder parser have a transport protocol
  that the host has.\<close>

definition protocol_ready :: "Parser list \<Rightarrow> world \<Rightarrow> ProtocolAnalyzerInfo \<Rightarrow> bool" where
  "protocol_ready parsers w p =
     (pa_type p = 0 \<or>
      (\<not> unresolvable parsers (pa_name_parser_orig p) \<and>
       \<not> unresolvable parsers (pa_name_parser_resp p) \<and>
       GetAnalyzerTag w (pa_name_analyzer p) \<noteq> 0 \<and>
       (\<forall>q \<in> set (pa_ports p). protocol q \<noteq> Undef) \<and>
       (case lookup_parser parsers (pa_name_parser_resp p) of
          None \<Rightarrow> True
        | Some rp \<Rightarrow>
            (\<forall>q \<in> set (ports rp).
               direction q = Both \<or> direction q = Responder \<longrightarrow>
                 protocol (pp_port q) \<noteq> Undef))))"

definition file_ready :: "Parser list \<Rightarrow> world \<Rightarrow> FileAnalyzerInfo \<Rightarrow> bool" where
  "file_ready parsers w p =
     (fa_type p = 0 \<or>
      (\<not> unresolvable parsers (fa_name_parser p) \<and>
       GetComponentTag w (fa_name_analyzer p) \<noteq> 0))"

definition packet_ready :: "Parser list \<Rightarrow> PacketAnalyzerInfo \<Rightarrow> bool" where
  "packet_ready parsers p = (pk_type p = 0 \<or> \<not> unresolvable parsers (pk_name_parser p))"

definition phase2_ready :: "Parser list \<Rightarrow> world \<Rightarrow> bool" where
  "phase2_ready parsers w =
     ((\<forall>p \<in> set (protocol_analyzers_by_type w). protocol_ready parsers w p) \<and>
      (\<forall>p \<in> set (file_analyzers_by_type w). file_ready parsers w p) \<and>
      (\<forall>p \<in> set (packet_analyzers_by_type w). packet_ready parsers p))"

definition example_parsers :: "Parser list" where
  "example_parsers =
     [\<lparr>name = ''PA'',
       ports = [\<lparr>pp_port = \<lparr>port = 80, protocol = TCP\<rparr>, direction = Responder\<rparr>],
       mime_types = []\<rparr>,
      \<lparr>name = ''PF'', ports = [], mime_types = [''text/plain'']\<rparr>,
      \<lparr>name = ''PK'', ports = [], mime_types = []\<rparr>]"

text \<open>A protocol analyzer that declares no responder-side parser.\<close>

definition registered_B_no_resp :: world where
  "registered_B_no_resp =
     registered_protocol ''B'' UDP [] ''PA'' [] [] 2 registered_one_each"

section \<open>Descriptor tables after a registration\<close>

lemma length_resize: "length (resize d n xs) = n"
  by (simp add: resize_def)

lemma nth_resize_old: "i < n \<Longrightarrow> i < length xs \<Longrightarrow> resize d n xs ! i = xs ! i"
  by (simp add: resize_def nth_append)

lemma nth_resize_new: "length xs \<le> i \<Longrightarrow> i < n \<Longrightarrow> resize d n xs ! i = d"
  by (simp add: resize_def nth_append)

lemma table_stored_protocol:
  "protocol_analyzers_by_type (stored_protocol k info t w) =
     (resize ProtocolAnalyzerInfo_default (t + 1) (protocol_analyzers_by_type w))
       [t := info\<lparr>pa_type := t\<rparr>]"
  by (simp add: stored_protocol_def Let_def AddComponent_def zeekygen_Script_def
      set_location_def makeLocation_def Initialize_analyzer_def)

lemma table_replaces_protocol:
  "protocol_analyzers_by_type (snd (replaces_protocol nm r info w)) =
     protocol_analyzers_by_type w"
  by (simp add: replaces_protocol_def Let_def DisableAnalyzer_def ZEEK_DEBUG_def)

lemma info_replaces_protocol:
  "fst (replaces_protocol nm r info w) =
     info\<lparr>pa_replaces :=
            (if r \<noteq> [] \<and> GetAnalyzerTag w r \<noteq> 0 then GetAnalyzerTag w r
             else pa_replaces info)\<rparr>"
  by (simp add: replaces_protocol_def Let_def)

lemma table_registered_protocol:
  assumes "proto = TCP \<or> proto = UDP"
  shows "protocol_analyzers_by_type (registered_protocol nm proto prts po pr r t w) =
     (resize ProtocolAnalyzerInfo_default (t + 1) (protocol_analyzers_by_type w))
       [t := protocol_descriptor w nm proto prts po pr r t]"
  using assms
  by (auto simp add: registered_protocol_def Let_def split_def table_stored_protocol
      table_replaces_protocol info_replaces_protocol ProtocolAnalyzerInfo_default_def
      ZEEK_DEBUG_def GetAnalyzerTag_def protocol_descriptor_def)

lemma table_stored_file:
  "file_analyzers_by_type (stored_file info t w) =
     (resize FileAnalyzerInfo_default (t + 1) (file_analyzers_by_type w))
       [t := info\<lparr>fa_type := t\<rparr>]"
  by (simp add: stored_file_def Let_def AddComponent_def zeekygen_Script_def
      set_location_def makeLocation_def Initialize_file_def)

lemma table_replaces_file:
  "file_analyzers_by_type (snd (replaces_file cfg nm r info w)) = file_analyzers_by_type w"
  by (simp add: replaces_file_def Let_def SetEnabled_def ZEEK_DEBUG_def split: option.split)

lemma info_replaces_file:
  "fst (replaces_file cfg nm r info w) =
     info\<lparr>fa_replaces :=
            (if ZEEK_VERSION_NUMBER cfg \<ge> 40100 \<and> r \<noteq> [] then
               (case file_Lookup_name w r of Some c \<Rightarrow> c | None \<Rightarrow> fa_replaces info)
             else fa_replaces info)\<rparr>"
  by (simp add: replaces_file_def Let_def split: option.split)

lemma file_Lookup_name_ZEEK_DEBUG [simp]:
  "file_Lookup_name (ZEEK_DEBUG m w) r = file_Lookup_name w r"
  by (simp add: file_Lookup_name_def ZEEK_DEBUG_def split: option.split)

lemma table_registered_file:
  "file_analyzers_by_type (registered_file cfg nm mts prs r t w) =
     (resize FileAnalyzerInfo_default (t + 1) (file_analyzers_by_type w))
       [t := file_descriptor cfg w nm mts prs r t]"
  by (simp add: registered_file_def Let_def split_def table_stored_file
      table_replaces_file info_replaces_file file_descriptor_def FileAnalyzerInfo_default_def)
    (simp add: ZEEK_DEBUG_def split: option.split)

lemma table_registered_packet:
  "packet_analyzers_by_type (registered_packet nm prs t w) =
     (resize PacketAnalyzerInfo_default (t + 1) (packet_analyzers_by_type w))
       [t := packet_descriptor nm prs t]"
  by (simp add: registered_packet_def Let_def AddComponent_def zeekygen_Script_def
      set_location_def makeLocation_def Initialize_packet_def ZEEK_DEBUG_def
      packet_descriptor_def PacketAnalyzerInfo_default_def)

lemma tables_registered_one_each:
  "protocol_analyzers_by_type registered_one_each =
     [ProtocolAnalyzerInfo_default, protocol_descriptor initial_world ''A'' TCP [] ''PA'' ''PA'' [] 1]"
  "file_analyzers_by_type registered_one_each =
     [FileAnalyzerInfo_default, file_descriptor config_41 initial_world ''F'' [] ''PF'' [] 1]"
  "packet_analyzers_by_type registered_one_each =
     [PacketAnalyzerInfo_default, packet_descriptor ''K'' ''PK'' 1]"
  by (simp_all add: registered_one_each_def registered_packet_def registered_file_def
      registered_protocol_def stored_protocol_def stored_file_def replaces_file_def
      replaces_protocol_def Let_def AddComponent_def zeekygen_Script_def set_location_def
      makeLocation_def Initialize_analyzer_def Initialize_file_def Initialize_packet_def
      ZEEK_DEBUG_def initial_world_def resize_def protocol_descriptor_def file_descriptor_def
      packet_descriptor_def ProtocolAnalyzerInfo_default_def FileAnalyzerInfo_default_def
      PacketAnalyzerInfo_default_def)

lemma table_registered_A2: "protocol_analyzers_by_type registered_A2 = [ProtocolAnalyzerInfo_default, ProtocolAnalyzerInfo_default, protocol_descriptor initial_world ''A'' TCP [] ''PA'' ''PA'' [] 2]"
  by (simp add: registered_A2_def table_registered_protocol resize_def initial_world_def numeral_2_eq_2 numeral_3_eq_3)

text \<open>The registration functions return the states defined above, except that at the
  largest id the store is out of range.\<close>

lemma resize_and_store_eq:
  "resize_and_store d t x xs =
     (if t < 4294967295 then Inr ((resize d (t + 1) xs)[t := x]) else Inl OutOfBounds)"
proof (cases "t < 4294967295")
  case True
  then have "(t + 1) mod 4294967296 = t + 1" by simp
  with True show ?thesis
    by (simp add: resize_and_store_def Let_def length_resize)
next
  case False
  have "(t + 1) mod 4294967296 \<le> t"
  proof (cases "t = 4294967295")
    case True
    then show ?thesis by simp
  next
    case ne: False
    have "(t + 1) mod 4294967296 < 4294967296" by simp
    with False ne show ?thesis by linarith
  qed
  with False show ?thesis
    by (simp add: resize_and_store_def Let_def length_resize)
qed

lemma store_protocol_eq:
  "store_protocol k info t w =
     (if t < 4294967295 then Inr (stored_protocol k info t w) else Inl OutOfBounds)"
  by (simp add: store_protocol_def stored_protocol_def Let_def resize_and_store_eq)

lemma store_file_eq:
  "store_file info t w =
     (if t < 4294967295 then Inr (stored_file info t w) else Inl OutOfBounds)"
  by (simp add: store_file_def stored_file_def Let_def resize_and_store_eq)

lemma registerProtocolAnalyzer_eq:
  "registerProtocolAnalyzer nm proto prts po pr r t w =
     (if (proto = TCP \<or> proto = UDP) \<and> \<not> t < 4294967295 then Inl OutOfBounds
      else Inr (registered_protocol nm proto prts po pr r t w))"
  by (simp add: registerProtocolAnalyzer_def registered_protocol_def Let_def split_def
      store_protocol_eq split: Protocol.split)

lemma registerFileAnalyzer_eq:
  "registerFileAnalyzer cfg nm mts prs r t w =
     (if t < 4294967295 then Inr (registered_file cfg nm mts prs r t w) else Inl OutOfBounds)"
  by (simp add: registerFileAnalyzer_def registered_file_def Let_def split_def store_file_eq)

lemma registerPacketAnalyzer_eq:
  "registerPacketAnalyzer nm prs t w =
     (if t < 4294967295 then Inr (registered_packet nm prs t w) else Inl OutOfBounds)"
  by (simp add: registerPacketAnalyzer_def registered_packet_def Let_def resize_and_store_eq)

lemma registered_tables:
  "(proto = TCP \<or> proto = UDP \<longrightarrow>
      (let T = protocol_analyzers_by_type w;
           T' = protocol_analyzers_by_type (registered_protocol nm proto prts po pr r t w)
       in length T' = t + 1 \<and> T' ! t = protocol_descriptor w nm proto prts po pr r t \<and>
          pa_type (T' ! t) = t \<and>
          (\<forall>i. i < t \<and> i < length T \<longrightarrow> T' ! i = T ! i) \<and>
          (\<forall>i. length T \<le> i \<and> i < t \<longrightarrow> T' ! i = ProtocolAnalyzerInfo_default \<and> pa_type (T' ! i) = 0)))
   \<and> (let F = file_analyzers_by_type w;
           F' = file_analyzers_by_type (registered_file cfg fnm mts fprs fr ft w)
       in length F' = ft + 1 \<and> F' ! ft = file_descriptor cfg w fnm mts fprs fr ft \<and>
          fa_type (F' ! ft) = ft \<and>
          (\<forall>i. i < ft \<and> i < length F \<longrightarrow> F' ! i = F ! i) \<and>
          (\<forall>i. length F \<le> i \<and> i < ft \<longrightarrow> F' ! i = FileAnalyzerInfo_default \<and> fa_type (F' ! i) = 0))
   \<and> (let K = packet_analyzers_by_type w;
           K' = packet_analyzers_by_type (registered_packet knm kprs kt w)
       in length K' = kt + 1 \<and> K' ! kt = packet_descriptor knm kprs kt \<and>
          pk_type (K' ! kt) = kt \<and>
          (\<forall>i. i < kt \<and> i < length K \<longrightarrow> K' ! i = K ! i) \<and>
          (\<forall>i. length K \<le> i \<and> i < kt \<longrightarrow> K' ! i = PacketAnalyzerInfo_default \<and> pk_type (K' ! i) = 0))"
proof (intro conjI impI)
  assume p: "proto = TCP \<or> proto = UDP"
  show "let T = protocol_analyzers_by_type w;
           T' = protocol_analyzers_by_type (registered_protocol nm proto prts po pr r t w)
       in length T' = t + 1 \<and> T' ! t = protocol_descriptor w nm proto prts po pr r t \<and>
          pa_type (T' ! t) = t \<and>
          (\<forall>i. i < t \<and> i < length T \<longrightarrow> T' ! i = T ! i) \<and>
          (\<forall>i. length T \<le> i \<and> i < t \<longrightarrow> T' ! i = ProtocolAnalyzerInfo_default \<and> pa_type (T' ! i) = 0)"
    unfolding Let_def table_registered_protocol [OF p]
    by (auto simp: length_resize nth_resize_old nth_resize_new protocol_descriptor_def
        ProtocolAnalyzerInfo_default_def)
next
  show "let F = file_analyzers_by_type w;
           F' = file_analyzers_by_type (registered_file cfg fnm mts fprs fr ft w)
       in length F' = ft + 1 \<and> F' ! ft = file_descriptor cfg w fnm mts fprs fr ft \<and>
          fa_type (F' ! ft) = ft \<and>
          (\<forall>i. i < ft \<and> i < length F \<longrightarrow> F' ! i = F ! i) \<and>
          (\<forall>i. length F \<le> i \<and> i < ft \<longrightarrow> F' ! i = FileAnalyzerInfo_default \<and> fa_type (F' ! i) = 0)"
    unfolding Let_def table_registered_file
    by (auto simp: length_resize nth_resize_old nth_resize_new file_descriptor_def
        FileAnalyzerInfo_default_def)
next
  show "let K = packet_analyzers_by_type w;
           K' = packet_analyzers_by_type (registered_packet knm kprs kt w)
       in length K' = kt + 1 \<and> K' ! kt = packet_descriptor knm kprs kt \<and>
          pk_type (K' ! kt) = kt \<and>
          (\<forall>i. i < kt \<and> i < length K \<longrightarrow> K' ! i = K ! i) \<and>
          (\<forall>i. length K \<le> i \<and> i < kt \<longrightarrow> K' ! i = PacketAnalyzerInfo_default \<and> pk_type (K' ! i) = 0)"
    unfolding Let_def table_registered_packet
    by (auto simp: length_resize nth_resize_old nth_resize_new packet_descriptor_def
        PacketAnalyzerInfo_default_def)
qed

text \<open>
  Claim C1, as amended. After a phase-1 registration for which the host assigns a type
  id \<open>t\<close> below the largest value of the id type (\<open>t < 4294967295\<close>), the registration
  returns, the descriptor table of that kind has size exactly \<open>t + 1\<close>, the new descriptor
  (with type field \<open>t\<close>) is stored at index \<open>t\<close>, every descriptor previously stored at an
  index below \<open>t\<close> is unchanged, and every newly created slot below \<open>t\<close> is the default
  descriptor, whose type field is the sentinel zero. For protocol analyzers this is the
  case of a TCP or UDP analyzer (any other protocol stores nothing).
\<close>

theorem registration_stores_descriptor:
  "(t < 4294967295 \<and> (proto = TCP \<or> proto = UDP) \<longrightarrow>
      (\<exists>w'. registerProtocolAnalyzer nm proto prts po pr r t w = Inr w' \<and>
         (let T = protocol_analyzers_by_type w; T' = protocol_analyzers_by_type w'
          in length T' = t + 1 \<and> T' ! t = protocol_descriptor w nm proto prts po pr r t \<and>
             pa_type (T' ! t) = t \<and>
             (\<forall>i. i < t \<and> i < length T \<longrightarrow> T' ! i = T ! i) \<and>
             (\<forall>i. length T \<le> i \<and> i < t \<longrightarrow>
                  T' ! i = ProtocolAnalyzerInfo_default \<and> pa_type (T' ! i) = 0)))) \<and>
   (ft < 4294967295 \<longrightarrow>
      (\<exists>w'. registerFileAnalyzer cfg fnm mts fprs fr ft w = Inr w' \<and>
         (let F = file_analyzers_by_type w; F' = file_analyzers_by_type w'
          in length F' = ft + 1 \<and> F' ! ft = file_descriptor cfg w fnm mts fprs fr ft \<and>
             fa_type (F' ! ft) = ft \<and>
             (\<forall>i. i < ft \<and> i < length F \<longrightarrow> F' ! i = F ! i) \<and>
             (\<forall>i. length F \<le> i \<and> i < ft \<longrightarrow>
                  F' ! i = FileAnalyzerInfo_default \<and> fa_type (F' ! i) = 0)))) \<and>
   (kt < 4294967295 \<longrightarrow>
      (\<exists>w'. registerPacketAnalyzer knm kprs kt w = Inr w' \<and>
         (let K = packet_analyzers_by_type w; K' = packet_analyzers_by_type w'
          in length K' = kt + 1 \<and> K' ! kt = packet_descriptor knm kprs kt \<and>
             pk_type (K' ! kt) = kt \<and>
             (\<forall>i. i < kt \<and> i < length K \<longrightarrow> K' ! i = K ! i) \<and>
             (\<forall>i. length K \<le> i \<and> i < kt \<longrightarrow>
                  K' ! i = PacketAnalyzerInfo_default \<and> pk_type (K' ! i) = 0))))"
proof (intro conjI impI)
  assume h: "t < 4294967295 \<and> (proto = TCP \<or> proto = UDP)"
  then have "registerProtocolAnalyzer nm proto prts po pr r t w =
      Inr (registered_protocol nm proto prts po pr r t w)"
    by (simp add: registerProtocolAnalyzer_eq)
  moreover from h registered_tables [of proto w nm prts po pr r t]
  have "let T = protocol_analyzers_by_type w;
            T' = protocol_analyzers_by_type (registered_protocol nm proto prts po pr r t w)
        in length T' = t + 1 \<and> T' ! t = protocol_descriptor w nm proto prts po pr r t \<and>
           pa_type (T' ! t) = t \<and>
           (\<forall>i. i < t \<and> i < length T \<longrightarrow> T' ! i = T ! i) \<and>
           (\<forall>i. length T \<le> i \<and> i < t \<longrightarrow>
                T' ! i = ProtocolAnalyzerInfo_default \<and> pa_type (T' ! i) = 0)"
    by blast
  ultimately show "\<exists>w'. registerProtocolAnalyzer nm proto prts po pr r t w = Inr w' \<and>
         (let T = protocol_analyzers_by_type w; T' = protocol_analyzers_by_type w'
          in length T' = t + 1 \<and> T' ! t = protocol_descriptor w nm proto prts po pr r t \<and>
             pa_type (T' ! t) = t \<and>
             (\<forall>i. i < t \<and> i < length T \<longrightarrow> T' ! i = T ! i) \<and>
             (\<forall>i. length T \<le> i \<and> i < t \<longrightarrow>
                  T' ! i = ProtocolAnalyzerInfo_default \<and> pa_type (T' ! i) = 0))"
    by blast
next
  assume h: "ft < 4294967295"
  then have "registerFileAnalyzer cfg fnm mts fprs fr ft w =
      Inr (registered_file cfg fnm mts fprs fr ft w)"
    by (simp add: registerFileAnalyzer_eq)
  moreover from registered_tables [where w = w and cfg = cfg and fnm = fnm and mts = mts
      and fprs = fprs and fr = fr and ft = ft]
  have "let F = file_analyzers_by_type w;
            F' = file_analyzers_by_type (registered_file cfg fnm mts fprs fr ft w)
        in length F' = ft + 1 \<and> F' ! ft = file_descriptor cfg w fnm mts fprs fr ft \<and>
           fa_type (F' ! ft) = ft \<and>
           (\<forall>i. i < ft \<and> i < length F \<longrightarrow> F' ! i = F ! i) \<and>
           (\<forall>i. length F \<le> i \<and> i < ft \<longrightarrow>
                F' ! i = FileAnalyzerInfo_default \<and> fa_type (F' ! i) = 0)"
    by blast
  ultimately show "\<exists>w'. registerFileAnalyzer cfg fnm mts fprs fr ft w = Inr w' \<and>
         (let F = file_analyzers_by_type w; F' = file_analyzers_by_type w'
          in length F' = ft + 1 \<and> F' ! ft = file_descriptor cfg w fnm mts fprs fr ft \<and>
             fa_type (F' ! ft) = ft \<and>
             (\<forall>i. i < ft \<and> i < length F \<longrightarrow> F' ! i = F ! i) \<and>
             (\<forall>i. length F \<le> i \<and> i < ft \<longrightarrow>
                  F' ! i = FileAnalyzerInfo_default \<and> fa_type (F' ! i) = 0))"
    by blast
next
  assume h: "kt < 4294967295"
  then have "registerPacketAnalyzer knm kprs kt w = Inr (registered_packet knm kprs kt w)"
    by (simp add: registerPacketAnalyzer_eq)
  moreover from registered_tables [where w = w and knm = knm and kprs = kprs and kt = kt]
  have "let K = packet_analyzers_by_type w;
            K' = packet_analyzers_by_type (registered_packet knm kprs kt w)
        in length K' = kt + 1 \<and> K' ! kt = packet_descriptor knm kprs kt \<and>
           pk_type (K' ! kt) = kt \<and>
           (\<forall>i. i < kt \<and> i < length K \<longrightarrow> K' ! i = K ! i) \<and>
           (\<forall>i. length K \<le> i \<and> i < kt \<longrightarrow>
                K' ! i = PacketAnalyzerInfo_default \<and> pk_type (K' ! i) = 0)"
    by blast
  ultimately show "\<exists>w'. registerPacketAnalyzer knm kprs kt w = Inr w' \<and>
         (let K = packet_analyzers_by_type w; K' = packet_analyzers_by_type w'
          in length K' = kt + 1 \<and> K' ! kt = packet_descriptor knm kprs kt \<and>
             pk_type (K' ! kt) = kt \<and>
             (\<forall>i. i < kt \<and> i < length K \<longrightarrow> K' ! i = K ! i) \<and>
             (\<forall>i. length K \<le> i \<and> i < kt \<longrightarrow>
                  K' ! i = PacketAnalyzerInfo_default \<and> pk_type (K' ! i) = 0))"
    by blast
qed

lemma concrete_registrations:
  "\<exists>w1 w2. registerProtocolAnalyzer ''A'' TCP [] ''PA'' ''PA'' [] 1 initial_world = Inr w1 \<and>
     registerFileAnalyzer config_41 ''F'' [] ''PF'' [] 1 w1 = Inr w2 \<and>
     registerPacketAnalyzer ''K'' ''PK'' 1 w2 = Inr registered_one_each"
  "registerProtocolAnalyzer ''A'' TCP [] ''PA'' ''PA'' [] 2 initial_world = Inr registered_A2"
  "registerProtocolAnalyzer ''B'' UDP [] ''PB'' ''PB'' [] 1 registered_A2 = Inr registered_A2_B1"
  "registerProtocolAnalyzer ''FOO'' TCP [] ''P'' ''P'' ''OLD'' 2 host_with_OLD = Inr registered_FOO"
  "registerFileAnalyzer config_41 ''FOO'' [] ''P'' ''OLD'' 2 host_with_OLD =
     Inr registered_file_FOO"
  "registerPacketAnalyzer ''K'' ''PK'' 1 registered_A2 = Inr packet_over_A2"
  "registerPacketAnalyzer ''K'' ''PK'' 1 initial_world = Inr packet_only"
  "registerProtocolAnalyzer ''B'' UDP [] ''PA'' [] [] 2 registered_one_each =
     Inr registered_B_no_resp"
  by (simp_all add: registerProtocolAnalyzer_eq registerFileAnalyzer_eq
      registerPacketAnalyzer_eq registered_one_each_def registered_A2_def registered_A2_B1_def
      registered_FOO_def registered_file_FOO_def packet_over_A2_def packet_only_def
      registered_B_no_resp_def)

theorem registration_stores_descriptor_witness:
  "(\<exists>w'. registerProtocolAnalyzer ''B'' UDP [] ''PB'' [] [] 3 registered_one_each = Inr w' \<and>
      length (protocol_analyzers_by_type w') = 4 \<and>
      protocol_analyzers_by_type w' ! 1 = protocol_analyzers_by_type registered_one_each ! 1 \<and>
      pa_type (protocol_analyzers_by_type w' ! 2) = 0 \<and>
      pa_type (protocol_analyzers_by_type w' ! 3) = 3) \<and>
   (\<exists>w'. registerFileAnalyzer config_41 ''G'' [] ''PG'' [] 3 registered_one_each = Inr w' \<and>
      length (file_analyzers_by_type w') = 4 \<and>
      file_analyzers_by_type w' ! 1 = file_analyzers_by_type registered_one_each ! 1 \<and>
      fa_type (file_analyzers_by_type w' ! 2) = 0) \<and>
   (\<exists>w'. registerPacketAnalyzer ''L'' ''PL'' 3 registered_one_each = Inr w' \<and>
      length (packet_analyzers_by_type w') = 4 \<and>
      packet_analyzers_by_type w' ! 1 = packet_analyzers_by_type registered_one_each ! 1 \<and>
      pk_type (packet_analyzers_by_type w' ! 2) = 0)"
proof -
  have len: "length (protocol_analyzers_by_type registered_one_each) = 2"
    "length (file_analyzers_by_type registered_one_each) = 2"
    "length (packet_analyzers_by_type registered_one_each) = 2"
    by (simp_all add: tables_registered_one_each)
  have h: "(3::nat) < 4294967295 \<and> (UDP = TCP \<or> UDP = UDP)" "(3::nat) < 4294967295"
    by simp_all
  note T = registration_stores_descriptor [where proto = UDP and w = registered_one_each
      and nm = "''B''" and prts = "[]" and po = "''PB''" and pr = "[]" and r = "[]" and t = 3
      and cfg = config_41 and fnm = "''G''" and mts = "[]" and fprs = "''PG''" and fr = "[]"
      and ft = 3 and knm = "''L''" and kprs = "''PL''" and kt = 3, unfolded Let_def]
  from T [THEN conjunct1, rule_format, OF h(1)] len
  have "\<exists>w'. registerProtocolAnalyzer ''B'' UDP [] ''PB'' [] [] 3 registered_one_each = Inr w' \<and>
      length (protocol_analyzers_by_type w') = 4 \<and>
      protocol_analyzers_by_type w' ! 1 = protocol_analyzers_by_type registered_one_each ! 1 \<and>
      pa_type (protocol_analyzers_by_type w' ! 2) = 0 \<and>
      pa_type (protocol_analyzers_by_type w' ! 3) = 3"
    by (auto simp: ProtocolAnalyzerInfo_default_def)
  moreover from T [THEN conjunct2, THEN conjunct1, rule_format, OF h(2)] len
  have "\<exists>w'. registerFileAnalyzer config_41 ''G'' [] ''PG'' [] 3 registered_one_each = Inr w' \<and>
      length (file_analyzers_by_type w') = 4 \<and>
      file_analyzers_by_type w' ! 1 = file_analyzers_by_type registered_one_each ! 1 \<and>
      fa_type (file_analyzers_by_type w' ! 2) = 0"
    by (auto simp: FileAnalyzerInfo_default_def)
  moreover from T [THEN conjunct2, THEN conjunct2, rule_format, OF h(2)] len
  have "\<exists>w'. registerPacketAnalyzer ''L'' ''PL'' 3 registered_one_each = Inr w' \<and>
      length (packet_analyzers_by_type w') = 4 \<and>
      packet_analyzers_by_type w' ! 1 = packet_analyzers_by_type registered_one_each ! 1 \<and>
      pk_type (packet_analyzers_by_type w' ! 2) = 0"
    by (auto simp: PacketAnalyzerInfo_default_def)
  ultimately show ?thesis by blast
qed

text \<open>
  Claim C1 as stated (``every descriptor previously stored at any other index is
  unchanged, regardless of the order of the assigned ids'') fails when a later
  registration is assigned a smaller id: after registering \<open>A\<close> under id 2 and then \<open>B\<close>
  under id 1 the table has two slots, so the descriptor of \<open>A\<close> at index 2 is gone.
\<close>

theorem registration_lower_id_drops_descriptor:
  "registerProtocolAnalyzer ''A'' TCP [] ''PA'' ''PA'' [] 2 initial_world = Inr registered_A2 \<and>
   length (protocol_analyzers_by_type registered_A2) = 3 \<and>
   pa_name_analyzer (protocol_analyzers_by_type registered_A2 ! 2) = ''A'' \<and>
   pa_type (protocol_analyzers_by_type registered_A2 ! 2) = 2 \<and>
   registerProtocolAnalyzer ''B'' UDP [] ''PB'' ''PB'' [] 1 registered_A2 = Inr registered_A2_B1 \<and>
   length (protocol_analyzers_by_type registered_A2_B1) = 2 \<and>
   \<not> (2 < length (protocol_analyzers_by_type registered_A2_B1))"
proof -
  have "length (protocol_analyzers_by_type registered_A2) = 3 \<and>
      pa_name_analyzer (protocol_analyzers_by_type registered_A2 ! 2) = ''A'' \<and>
      pa_type (protocol_analyzers_by_type registered_A2 ! 2) = 2 \<and>
      length (protocol_analyzers_by_type registered_A2_B1) = 2 \<and>
      \<not> (2 < length (protocol_analyzers_by_type registered_A2_B1))"
    by (simp add: registered_A2_B1_def table_registered_protocol table_registered_A2
        resize_def protocol_descriptor_def)
  with concrete_registrations(2,3) show ?thesis by blast
qed

text \<open>At the largest id the sum \<^verbatim>\<open>info.type + 1\<close> wraps to zero, the table is emptied and
  the store is past its end.\<close>

lemma registration_at_largest_id:
  "proto = TCP \<or> proto = UDP \<Longrightarrow>
     registerProtocolAnalyzer nm proto prts po pr r 4294967295 w = Inl OutOfBounds"
  "registerFileAnalyzer cfg nm mts prs r 4294967295 w = Inl OutOfBounds"
  "registerPacketAnalyzer nm prs 4294967295 w = Inl OutOfBounds"
  by (simp_all add: registerProtocolAnalyzer_eq registerFileAnalyzer_eq
      registerPacketAnalyzer_eq)

section \<open>Toggling unknown tags\<close>

text \<open>
  For every tag and both values of \<open>enable\<close>, the protocol and the file overload of
  \<^verbatim>\<open>toggleAnalyzer\<close> return \<^verbatim>\<open>false\<close> and leave the whole state (host included) as it was
  whenever the tag's numeric id is at or beyond the size of the descriptor table or the
  slot at that id has the sentinel type zero. The file overload returns normally in these
  cases, under every host version.
\<close>

lemma toggle_unknown_protocol_file_tag:
  "(length (protocol_analyzers_by_type w) \<le> tag \<or>
      pa_type (protocol_analyzers_by_type w ! tag) = 0 \<longrightarrow>
        toggleAnalyzer_protocol tag enable w = (False, w)) \<and>
   (length (file_analyzers_by_type w) \<le> tag \<or>
      fa_type (file_analyzers_by_type w ! tag) = 0 \<longrightarrow>
        toggleAnalyzer_file cfg tag enable w = Inr (False, w))"
  by (auto simp: toggleAnalyzer_protocol_def toggleAnalyzer_file_def Let_def)

text \<open>
  The packet overload: an id at or beyond the size of the packet table gives \<^verbatim>\<open>false\<close>
  and no change. An id within the packet table is looked up in the protocol table,
  whatever the packet slot holds: the read is past the end when the protocol table is
  shorter, and the answer is \<^verbatim>\<open>false\<close> with no change when the protocol slot is unset.
\<close>

lemma toggle_packet_cases:
  "length (packet_analyzers_by_type w) \<le> tag \<Longrightarrow>
     toggleAnalyzer_packet tag enable w = Inr (False, w)"
  "tag < length (packet_analyzers_by_type w) \<Longrightarrow> length (protocol_analyzers_by_type w) \<le> tag \<Longrightarrow>
     toggleAnalyzer_packet tag enable w = Inl OutOfBounds"
  "tag < length (packet_analyzers_by_type w) \<Longrightarrow> tag < length (protocol_analyzers_by_type w) \<Longrightarrow>
     pa_type (protocol_analyzers_by_type w ! tag) = 0 \<Longrightarrow>
     toggleAnalyzer_packet tag enable w = Inr (False, w)"
  by (simp_all add: toggleAnalyzer_packet_def Let_def at_def)

section \<open>Unsupported protocols\<close>

lemma unsupported_protocol_registered:
  "proto \<noteq> TCP \<and> proto \<noteq> UDP \<longrightarrow>
     (let w' = registered_protocol nm proto prts po pr r t w
      in protocol_analyzers_by_type w' = protocol_analyzers_by_type w \<and>
         components w' = components w \<and>
         analyzer_names w' = analyzer_names w \<and>
         reported_errors w' =
           reported_errors w @ [Fmt ''unsupported protocol in analyzer'' []])"
  by (cases proto)
    (auto simp: registered_protocol_def Let_def split_def reporter_error_def
      replaces_protocol_def DisableAnalyzer_def ZEEK_DEBUG_def)

text \<open>
  Claim C6. A call of \<^verbatim>\<open>registerProtocolAnalyzer\<close> whose protocol is neither TCP nor UDP
  adds no component, registers no name with the host, leaves the protocol descriptor
  table as it was, reports the (non-fatal) error ``unsupported protocol in analyzer'' and
  returns, whatever type id the host would have assigned.
\<close>

theorem unsupported_protocol_registers_nothing:
  "proto \<noteq> TCP \<and> proto \<noteq> UDP \<longrightarrow>
     (\<exists>w'. registerProtocolAnalyzer nm proto prts po pr r t w = Inr w' \<and>
        protocol_analyzers_by_type w' = protocol_analyzers_by_type w \<and>
        components w' = components w \<and>
        analyzer_names w' = analyzer_names w \<and>
        reported_errors w' =
          reported_errors w @ [Fmt ''unsupported protocol in analyzer'' []])"
proof
  assume h: "proto \<noteq> TCP \<and> proto \<noteq> UDP"
  then have "registerProtocolAnalyzer nm proto prts po pr r t w =
      Inr (registered_protocol nm proto prts po pr r t w)"
    by (simp add: registerProtocolAnalyzer_eq)
  with h unsupported_protocol_registered [of proto nm prts po pr r t w]
  show "\<exists>w'. registerProtocolAnalyzer nm proto prts po pr r t w = Inr w' \<and>
        protocol_analyzers_by_type w' = protocol_analyzers_by_type w \<and>
        components w' = components w \<and>
        analyzer_names w' = analyzer_names w \<and>
        reported_errors w' =
          reported_errors w @ [Fmt ''unsupported protocol in analyzer'' []]"
    by (simp add: Let_def)
qed

theorem unsupported_protocol_registers_nothing_witness:
  "\<exists>w'. registerProtocolAnalyzer ''X'' ICMP [] ''PX'' ''PX'' [] 3 registered_one_each = Inr w' \<and>
     protocol_analyzers_by_type w' = protocol_analyzers_by_type registered_one_each \<and>
     components w' = components registered_one_each \<and>
     analyzer_names w' = analyzer_names registered_one_each \<and>
     reported_errors w' =
       reported_errors registered_one_each @ [Fmt ''unsupported protocol in analyzer'' []]"
proof -
  have "ICMP \<noteq> TCP \<and> ICMP \<noteq> UDP" by simp
  from unsupported_protocol_registers_nothing [where proto = ICMP and nm = "''X''"
      and prts = "[]" and po = "''PX''" and pr = "''PX''" and r = "[]" and t = 3
      and w = registered_one_each, rule_format, OF this]
  show ?thesis .
qed

section \<open>Replacement inversion\<close>

lemma toggle_protocol_set:
  assumes "tag < length (protocol_analyzers_by_type w)"
    and "pa_type (protocol_analyzers_by_type w ! tag) \<noteq> 0"
    and "pa_replaces (protocol_analyzers_by_type w ! tag) = r" and "r \<noteq> 0"
  shows "fst (toggleAnalyzer_protocol tag enable w) = True"
    and "protocol_analyzers_by_type (snd (toggleAnalyzer_protocol tag enable w)) =
           protocol_analyzers_by_type w"
    and "analyzer_enabled (snd (toggleAnalyzer_protocol tag enable w)) =
           (analyzer_enabled w)(tag := enable, r := \<not> enable)"
  using assms
  by (auto simp: toggleAnalyzer_protocol_def Let_def EnableAnalyzer_def DisableAnalyzer_def
      ZEEK_DEBUG_def)

lemma toggle_file_set:
  assumes "ZEEK_VERSION_NUMBER cfg \<ge> 40100"
    and "tag < length (file_analyzers_by_type w)"
    and "fa_type (file_analyzers_by_type w ! tag) \<noteq> 0"
    and "fa_replaces (file_analyzers_by_type w ! tag) = r" and "r \<noteq> 0"
    and "tag \<in> dom (file_enabled w)" and "r \<in> dom (file_enabled w)"
  shows "\<exists>w'. toggleAnalyzer_file cfg tag enable w = Inr (True, w') \<and>
           file_analyzers_by_type w' = file_analyzers_by_type w \<and>
           file_enabled w' = (file_enabled w)(tag \<mapsto> enable, r \<mapsto> \<not> enable)"
  using assms
  by (auto simp: toggleAnalyzer_file_def Let_def file_Lookup_tag_def SetEnabled_def
      ZEEK_DEBUG_def)

lemma GetAnalyzerTag_debug_log [simp]:
  "GetAnalyzerTag (w\<lparr>debug_log := l\<rparr>) r = GetAnalyzerTag w r"
  by (simp add: GetAnalyzerTag_def)

lemma file_Lookup_name_debug_log [simp]:
  "file_Lookup_name (w\<lparr>debug_log := l\<rparr>) r = file_Lookup_name w r"
  by (simp add: file_Lookup_name_def split: option.split)

lemma enabled_stored_protocol:
  "analyzer_enabled (stored_protocol k info t w) = (analyzer_enabled w)(t := True)"
  by (simp add: stored_protocol_def Let_def AddComponent_def zeekygen_Script_def
      set_location_def makeLocation_def Initialize_analyzer_def)

lemma enabled_replaces_protocol:
  "analyzer_enabled (snd (replaces_protocol nm r info w)) =
     (if r \<noteq> [] \<and> GetAnalyzerTag w r \<noteq> 0
      then (analyzer_enabled w)(GetAnalyzerTag w r := False) else analyzer_enabled w)"
  by (simp add: replaces_protocol_def Let_def DisableAnalyzer_def ZEEK_DEBUG_def)

lemma enabled_registered_protocol:
  assumes "proto = TCP \<or> proto = UDP"
  shows "analyzer_enabled (registered_protocol nm proto prts po pr r t w) =
     (if r \<noteq> [] \<and> GetAnalyzerTag w r \<noteq> 0
      then (analyzer_enabled w)(GetAnalyzerTag w r := False, t := True)
      else (analyzer_enabled w)(t := True))"
proof -
  let ?w0 = "ZEEK_DEBUG (fmt ''Have Spicy protocol analyzer %s'' [Str nm]) w"
  have "analyzer_enabled ?w0 = analyzer_enabled w" "GetAnalyzerTag ?w0 r = GetAnalyzerTag w r"
    by (simp_all add: ZEEK_DEBUG_def)
  with assms show ?thesis
    unfolding registered_protocol_def Let_def split_def
    by (elim disjE) (simp_all add: enabled_stored_protocol enabled_replaces_protocol)
qed

lemma enabled_stored_file:
  "file_enabled (stored_file info t w) = (file_enabled w)(t \<mapsto> True)"
  by (simp add: stored_file_def Let_def AddComponent_def zeekygen_Script_def
      set_location_def makeLocation_def Initialize_file_def)

lemma enabled_replaces_file:
  "file_enabled (snd (replaces_file cfg nm r info w)) =
     (if ZEEK_VERSION_NUMBER cfg \<ge> 40100 \<and> r \<noteq> [] then
        (case file_Lookup_name w r of
           Some c \<Rightarrow> (file_enabled w)(c \<mapsto> False)
         | None \<Rightarrow> file_enabled w)
      else file_enabled w)"
  by (simp add: replaces_file_def SetEnabled_def ZEEK_DEBUG_def split: option.split)

lemma enabled_registered_file:
  "file_enabled (registered_file cfg nm mts prs r t w) =
     (if ZEEK_VERSION_NUMBER cfg \<ge> 40100 \<and> r \<noteq> [] then
        (case file_Lookup_name w r of
           Some c \<Rightarrow> (file_enabled w)(c \<mapsto> False, t \<mapsto> True)
         | None \<Rightarrow> (file_enabled w)(t \<mapsto> True))
      else (file_enabled w)(t \<mapsto> True))"
proof -
  let ?w0 = "ZEEK_DEBUG (fmt ''Have Spicy file analyzer %s'' [Str nm]) w"
  have "file_enabled ?w0 = file_enabled w" "file_Lookup_name ?w0 r = file_Lookup_name w r"
    by (simp_all add: ZEEK_DEBUG_def)
  then show ?thesis
    unfolding registered_file_def Let_def split_def
    by (simp add: enabled_stored_file enabled_replaces_file split: option.split)
qed

lemma host_with_OLD_facts:
  "GetAnalyzerTag host_with_OLD ''OLD'' = 1"
  "file_Lookup_name host_with_OLD ''OLD'' = Some 1"
  "analyzer_enabled host_with_OLD = (\<lambda>t. t = 1)"
  "file_enabled host_with_OLD = [1 \<mapsto> True]"
  "protocol_analyzers_by_type host_with_OLD = []"
  "file_analyzers_by_type host_with_OLD = []"
  by (simp_all add: host_with_OLD_def GetAnalyzerTag_def file_Lookup_name_def initial_world_def)

lemma registered_FOO_facts:
  "protocol_analyzers_by_type registered_FOO =
     [ProtocolAnalyzerInfo_default, ProtocolAnalyzerInfo_default,
      protocol_descriptor host_with_OLD ''FOO'' TCP [] ''P'' ''P'' ''OLD'' 2]"
  "analyzer_enabled registered_FOO = (\<lambda>t. t = 1)(1 := False, 2 := True)"
  by (simp_all add: registered_FOO_def table_registered_protocol
      enabled_registered_protocol host_with_OLD_facts resize_def numeral_2_eq_2 numeral_3_eq_3)

lemma registered_file_FOO_facts:
  "file_analyzers_by_type registered_file_FOO =
     [FileAnalyzerInfo_default, FileAnalyzerInfo_default,
      file_descriptor config_41 host_with_OLD ''FOO'' [] ''P'' ''OLD'' 2]"
  "file_enabled registered_file_FOO = [1 \<mapsto> False, 2 \<mapsto> True]"
  by (simp_all add: registered_file_FOO_def table_registered_file
      enabled_registered_file host_with_OLD_facts resize_def numeral_2_eq_2 numeral_3_eq_3
      config_41_def)

text \<open>
  Claim C4, as amended. For a set descriptor whose replacement reference \<open>r\<close> is a tag other
  than the analyzer's own, \<^verbatim>\<open>toggleAnalyzer(tag, enable)\<close> succeeds, sets the Spicy
  analyzer's enabled state to \<open>enable\<close> and the replaced analyzer's to the opposite. So
  \<^verbatim>\<open>toggle(d, true)\<close> followed by \<^verbatim>\<open>toggle(d, false)\<close> leaves the Spicy analyzer disabled and
  the replaced analyzer enabled, whatever their states were before. For file analyzers
  this needs a host of version 4.1 or later that has a component for both tags.
\<close>

theorem toggle_inverts_replaced:
  "(tag < length (protocol_analyzers_by_type w) \<and>
    pa_type (protocol_analyzers_by_type w ! tag) \<noteq> 0 \<and>
    pa_replaces (protocol_analyzers_by_type w ! tag) = r \<and> r \<noteq> 0 \<and> r \<noteq> tag \<longrightarrow>
      (let w' = snd (toggleAnalyzer_protocol tag enable w);
           w'' = snd (toggleAnalyzer_protocol tag False (snd (toggleAnalyzer_protocol tag True w)))
       in fst (toggleAnalyzer_protocol tag enable w) = True \<and>
          analyzer_enabled w' tag = enable \<and> analyzer_enabled w' r = (\<not> enable) \<and>
          analyzer_enabled w'' tag = False \<and> analyzer_enabled w'' r = True)) \<and>
   (ZEEK_VERSION_NUMBER cfg \<ge> 40100 \<and> ftag < length (file_analyzers_by_type w) \<and>
    fa_type (file_analyzers_by_type w ! ftag) \<noteq> 0 \<and>
    fa_replaces (file_analyzers_by_type w ! ftag) = fr \<and> fr \<noteq> 0 \<and> fr \<noteq> ftag \<and>
    ftag \<in> dom (file_enabled w) \<and> fr \<in> dom (file_enabled w) \<longrightarrow>
      (\<exists>w' w1 w''. toggleAnalyzer_file cfg ftag enable w = Inr (True, w') \<and>
          file_enabled w' ftag = Some enable \<and> file_enabled w' fr = Some (\<not> enable) \<and>
          toggleAnalyzer_file cfg ftag True w = Inr (True, w1) \<and>
          toggleAnalyzer_file cfg ftag False w1 = Inr (True, w'') \<and>
          file_enabled w'' ftag = Some False \<and> file_enabled w'' fr = Some True))"
proof (intro conjI impI)
  assume a: "tag < length (protocol_analyzers_by_type w) \<and>
    pa_type (protocol_analyzers_by_type w ! tag) \<noteq> 0 \<and>
    pa_replaces (protocol_analyzers_by_type w ! tag) = r \<and> r \<noteq> 0 \<and> r \<noteq> tag"
  let ?w1 = "snd (toggleAnalyzer_protocol tag True w)"
  from a have one: "fst (toggleAnalyzer_protocol tag enable w) = True"
    "analyzer_enabled (snd (toggleAnalyzer_protocol tag enable w)) =
       (analyzer_enabled w)(tag := enable, r := \<not> enable)"
    by (simp_all add: toggle_protocol_set)
  from a have t1: "protocol_analyzers_by_type ?w1 = protocol_analyzers_by_type w"
    by (simp add: toggle_protocol_set)
  with a have two: "analyzer_enabled (snd (toggleAnalyzer_protocol tag False ?w1)) =
       (analyzer_enabled ?w1)(tag := False, r := True)"
    by (simp add: toggle_protocol_set)
  from a one two
  show "let w' = snd (toggleAnalyzer_protocol tag enable w);
           w'' = snd (toggleAnalyzer_protocol tag False (snd (toggleAnalyzer_protocol tag True w)))
       in fst (toggleAnalyzer_protocol tag enable w) = True \<and>
          analyzer_enabled w' tag = enable \<and> analyzer_enabled w' r = (\<not> enable) \<and>
          analyzer_enabled w'' tag = False \<and> analyzer_enabled w'' r = True"
    by (simp add: Let_def)
next
  assume a: "ZEEK_VERSION_NUMBER cfg \<ge> 40100 \<and> ftag < length (file_analyzers_by_type w) \<and>
    fa_type (file_analyzers_by_type w ! ftag) \<noteq> 0 \<and>
    fa_replaces (file_analyzers_by_type w ! ftag) = fr \<and> fr \<noteq> 0 \<and> fr \<noteq> ftag \<and>
    ftag \<in> dom (file_enabled w) \<and> fr \<in> dom (file_enabled w)"
  from a toggle_file_set [of cfg ftag w fr enable]
  obtain w' where w': "toggleAnalyzer_file cfg ftag enable w = Inr (True, w')"
    "file_enabled w' = (file_enabled w)(ftag \<mapsto> enable, fr \<mapsto> \<not> enable)"
    by blast
  from a toggle_file_set [of cfg ftag w fr True]
  obtain w1 where w1: "toggleAnalyzer_file cfg ftag True w = Inr (True, w1)"
    "file_analyzers_by_type w1 = file_analyzers_by_type w"
    "file_enabled w1 = (file_enabled w)(ftag \<mapsto> True, fr \<mapsto> \<not> True)"
    by blast
  from a w1 have "ftag \<in> dom (file_enabled w1)" "fr \<in> dom (file_enabled w1)"
    by auto
  with a w1 toggle_file_set [of cfg ftag w1 fr False]
  obtain w'' where w'': "toggleAnalyzer_file cfg ftag False w1 = Inr (True, w'')"
    "file_enabled w'' = (file_enabled w1)(ftag \<mapsto> False, fr \<mapsto> \<not> False)"
    by auto
  from a w' w1 w''
  show "\<exists>w' w1 w''. toggleAnalyzer_file cfg ftag enable w = Inr (True, w') \<and>
          file_enabled w' ftag = Some enable \<and> file_enabled w' fr = Some (\<not> enable) \<and>
          toggleAnalyzer_file cfg ftag True w = Inr (True, w1) \<and>
          toggleAnalyzer_file cfg ftag False w1 = Inr (True, w'') \<and>
          file_enabled w'' ftag = Some False \<and> file_enabled w'' fr = Some True"
    by auto
qed

theorem toggle_inverts_replaced_witness:
  "(fst (toggleAnalyzer_protocol 2 True registered_FOO) = True \<and>
    analyzer_enabled (snd (toggleAnalyzer_protocol 2 True registered_FOO)) 2 = True \<and>
    analyzer_enabled (snd (toggleAnalyzer_protocol 2 True registered_FOO)) 1 = (\<not> True) \<and>
    analyzer_enabled
      (snd (toggleAnalyzer_protocol 2 False (snd (toggleAnalyzer_protocol 2 True registered_FOO)))) 2
      = False \<and>
    analyzer_enabled
      (snd (toggleAnalyzer_protocol 2 False (snd (toggleAnalyzer_protocol 2 True registered_FOO)))) 1
      = True) \<and>
   (\<exists>w' w1 w''. toggleAnalyzer_file config_41 2 False registered_file_FOO = Inr (True, w') \<and>
      file_enabled w' 2 = Some False \<and> file_enabled w' 1 = Some (\<not> False) \<and>
      toggleAnalyzer_file config_41 2 True registered_file_FOO = Inr (True, w1) \<and>
      toggleAnalyzer_file config_41 2 False w1 = Inr (True, w'') \<and>
      file_enabled w'' 2 = Some False \<and> file_enabled w'' 1 = Some True)"
proof -
  have p: "2 < length (protocol_analyzers_by_type registered_FOO) \<and>
    pa_type (protocol_analyzers_by_type registered_FOO ! 2) \<noteq> 0 \<and>
    pa_replaces (protocol_analyzers_by_type registered_FOO ! 2) = 1 \<and> (1::nat) \<noteq> 0 \<and>
    (1::nat) \<noteq> 2"
    by (simp add: registered_FOO_facts protocol_descriptor_def host_with_OLD_facts)
  have f: "40100 \<le> ZEEK_VERSION_NUMBER config_41 \<and>
    2 < length (file_analyzers_by_type registered_file_FOO) \<and>
    fa_type (file_analyzers_by_type registered_file_FOO ! 2) \<noteq> 0 \<and>
    fa_replaces (file_analyzers_by_type registered_file_FOO ! 2) = 1 \<and> (1::nat) \<noteq> 0 \<and>
    (1::nat) \<noteq> 2 \<and>
    2 \<in> dom (file_enabled registered_file_FOO) \<and> 1 \<in> dom (file_enabled registered_file_FOO)"
    by (simp add: registered_file_FOO_facts file_descriptor_def host_with_OLD_facts
        config_41_def)
  note P = toggle_inverts_replaced [where w = registered_FOO and tag = 2 and r = 1
        and enable = True, THEN conjunct1, rule_format, OF p, unfolded Let_def]
  note F = toggle_inverts_replaced [where w = registered_file_FOO and cfg = config_41
        and ftag = 2 and fr = 1 and enable = False, THEN conjunct2, rule_format, OF f]
  from P F show ?thesis by (rule conjI)
qed

text \<open>
  Claim C4 as stated (the pair of calls ``leaves the replaced analyzer's enabled state
  equal to its state before the pair'') fails in the state that registration itself
  produces: \<open>FOO\<close> replaces \<open>OLD\<close> (tag 1), so \<open>OLD\<close> is disabled after phase 1, and it is
  enabled after enabling and then disabling \<open>FOO\<close>.
\<close>

theorem toggle_pair_enables_replaced:
  "registerProtocolAnalyzer ''FOO'' TCP [] ''P'' ''P'' ''OLD'' 2 host_with_OLD = Inr registered_FOO \<and>
   analyzer_enabled registered_FOO 1 = False \<and>
   analyzer_enabled
     (snd (toggleAnalyzer_protocol 2 False (snd (toggleAnalyzer_protocol 2 True registered_FOO)))) 1
     = True"
proof (intro conjI)
  show "registerProtocolAnalyzer ''FOO'' TCP [] ''P'' ''P'' ''OLD'' 2 host_with_OLD =
      Inr registered_FOO"
    by (rule concrete_registrations(4))
  have p: "2 < length (protocol_analyzers_by_type registered_FOO)"
    "pa_type (protocol_analyzers_by_type registered_FOO ! 2) \<noteq> 0"
    "pa_replaces (protocol_analyzers_by_type registered_FOO ! 2) = 1" "(1::nat) \<noteq> 0"
    by (simp_all add: registered_FOO_facts protocol_descriptor_def host_with_OLD_facts)
  have q: "2 < length (protocol_analyzers_by_type (snd (toggleAnalyzer_protocol 2 True registered_FOO)))"
    "pa_type (protocol_analyzers_by_type (snd (toggleAnalyzer_protocol 2 True registered_FOO)) ! 2) \<noteq> 0"
    "pa_replaces (protocol_analyzers_by_type (snd (toggleAnalyzer_protocol 2 True registered_FOO)) ! 2) = 1"
    using p by (simp_all add: toggle_protocol_set(2) [OF p])
  show "analyzer_enabled registered_FOO 1 = False"
    by (simp add: registered_FOO_facts)
  show "analyzer_enabled
     (snd (toggleAnalyzer_protocol 2 False (snd (toggleAnalyzer_protocol 2 True registered_FOO)))) 1
     = True"
    by (simp add: toggle_protocol_set(3) [OF q p(4)])
qed

section \<open>The \<open>replaces\<close> relation at registration\<close>

lemma stored_protocol_frame:
  "debug_log (stored_protocol k info t w) = debug_log w"
  "reported_errors (stored_protocol k info t w) = reported_errors w"
  "components (stored_protocol k info t w) = components w @ [(k, pa_name_analyzer info)]"
  by (simp_all add: stored_protocol_def Let_def AddComponent_def zeekygen_Script_def
      set_location_def makeLocation_def Initialize_analyzer_def)

lemma stored_file_frame:
  "debug_log (stored_file info t w) = debug_log w"
  "reported_errors (stored_file info t w) = reported_errors w"
  "components (stored_file info t w) = components w @ [(FileAnalyzer, fa_name_analyzer info)]"
  by (simp_all add: stored_file_def Let_def AddComponent_def zeekygen_Script_def
      set_location_def makeLocation_def Initialize_file_def)

lemma replaces_protocol_frame:
  "components (snd (replaces_protocol nm r info w)) = components w"
  "analyzer_names (snd (replaces_protocol nm r info w)) = analyzer_names w"
  "reported_errors (snd (replaces_protocol nm r info w)) = reported_errors w"
  by (simp_all add: replaces_protocol_def Let_def DisableAnalyzer_def ZEEK_DEBUG_def)

lemma replaces_protocol_log:
  "debug_log (snd (replaces_protocol nm r info w)) =
     (if r = [] then debug_log w
      else if GetAnalyzerTag w r \<noteq> 0
      then debug_log w @ [Fmt ''  Replaces existing protocol analyzer %s'' [Str r]]
      else debug_log w @ [Fmt ''%s i supposed to replace %s, but that does not exist''
                            [Str nm, Str r, Str nm]])"
  by (simp add: replaces_protocol_def Let_def DisableAnalyzer_def ZEEK_DEBUG_def fmt_def)

lemma replaces_file_frame:
  "components (snd (replaces_file cfg nm r info w)) = components w"
  "file_names (snd (replaces_file cfg nm r info w)) = file_names w"
  "reported_errors (snd (replaces_file cfg nm r info w)) = reported_errors w"
  by (simp_all add: replaces_file_def SetEnabled_def ZEEK_DEBUG_def split: option.split)

lemma replaces_file_log:
  "debug_log (snd (replaces_file cfg nm r info w)) =
     (if ZEEK_VERSION_NUMBER cfg \<ge> 40100 \<and> r \<noteq> [] then
        (case file_Lookup_name w r of
           Some c \<Rightarrow> debug_log w @ [Fmt ''  Replaces existing file analyzer %s'' [Str r]]
         | None \<Rightarrow> debug_log w @ [Fmt ''%s i supposed to replace %s, but that does not exist''
                                   [Str nm, Str r, Str nm]])
      else debug_log w)"
  by (simp add: replaces_file_def SetEnabled_def ZEEK_DEBUG_def fmt_def split: option.split)

lemma registered_protocol_stages:
  "registered_protocol nm proto prts po pr r t w =
     (case proto of
        TCP \<Rightarrow> stored_protocol TCP_Analyzer
                 (fst (after_replaces_protocol nm proto prts po pr r w)) t
                 (snd (after_replaces_protocol nm proto prts po pr r w))
      | UDP \<Rightarrow> stored_protocol UDP_Analyzer
                 (fst (after_replaces_protocol nm proto prts po pr r w)) t
                 (snd (after_replaces_protocol nm proto prts po pr r w))
      | _ \<Rightarrow> reporter_error ''unsupported protocol in analyzer''
                 (snd (after_replaces_protocol nm proto prts po pr r w)))"
  by (simp add: registered_protocol_def after_replaces_protocol_def protocol_info_def
      Let_def split_def split: Protocol.split)

lemma registered_file_stages:
  "registered_file cfg nm mts prs r t w =
     stored_file (fst (after_replaces_file cfg nm mts prs r w)) t
       (snd (after_replaces_file cfg nm mts prs r w))"
  by (simp add: registered_file_def after_replaces_file_def file_info_def Let_def split_def)

lemma after_replaces_protocol_state:
  "components (snd (after_replaces_protocol nm proto prts po pr r w)) = components w"
  "analyzer_names (snd (after_replaces_protocol nm proto prts po pr r w)) = analyzer_names w"
  "reported_errors (snd (after_replaces_protocol nm proto prts po pr r w)) = reported_errors w"
  "analyzer_enabled (snd (after_replaces_protocol nm proto prts po pr r w)) =
     (if r \<noteq> [] \<and> GetAnalyzerTag w r \<noteq> 0
      then (analyzer_enabled w)(GetAnalyzerTag w r := False) else analyzer_enabled w)"
  "debug_log (snd (after_replaces_protocol nm proto prts po pr r w)) =
     debug_log w @ [Fmt ''Have Spicy protocol analyzer %s'' [Str nm]] @
     (if r = [] then []
      else if GetAnalyzerTag w r \<noteq> 0
      then [Fmt ''  Replaces existing protocol analyzer %s'' [Str r]]
      else [Fmt ''%s i supposed to replace %s, but that does not exist''
              [Str nm, Str r, Str nm]])"
  "pa_replaces (fst (after_replaces_protocol nm proto prts po pr r w)) =
     (if r \<noteq> [] then GetAnalyzerTag w r else 0)"
  unfolding after_replaces_protocol_def
  by (simp_all add: replaces_protocol_frame replaces_protocol_log enabled_replaces_protocol
      info_replaces_protocol)
    (simp_all add: ZEEK_DEBUG_def fmt_def protocol_info_def ProtocolAnalyzerInfo_default_def)

lemma after_replaces_file_state:
  "components (snd (after_replaces_file cfg nm mts prs r w)) = components w"
  "file_names (snd (after_replaces_file cfg nm mts prs r w)) = file_names w"
  "reported_errors (snd (after_replaces_file cfg nm mts prs r w)) = reported_errors w"
  "file_enabled (snd (after_replaces_file cfg nm mts prs r w)) =
     (if ZEEK_VERSION_NUMBER cfg \<ge> 40100 \<and> r \<noteq> [] then
        (case file_Lookup_name w r of
           Some c \<Rightarrow> (file_enabled w)(c \<mapsto> False)
         | None \<Rightarrow> file_enabled w)
      else file_enabled w)"
  "debug_log (snd (after_replaces_file cfg nm mts prs r w)) =
     debug_log w @ [Fmt ''Have Spicy file analyzer %s'' [Str nm]] @
     (if ZEEK_VERSION_NUMBER cfg \<ge> 40100 \<and> r \<noteq> [] then
        (case file_Lookup_name w r of
           Some c \<Rightarrow> [Fmt ''  Replaces existing file analyzer %s'' [Str r]]
         | None \<Rightarrow> [Fmt ''%s i supposed to replace %s, but that does not exist''
                      [Str nm, Str r, Str nm]])
      else [])"
  "fa_replaces (fst (after_replaces_file cfg nm mts prs r w)) =
     (if ZEEK_VERSION_NUMBER cfg \<ge> 40100 \<and> r \<noteq> [] then
        (case file_Lookup_name w r of Some c \<Rightarrow> c | None \<Rightarrow> 0)
      else 0)"
  unfolding after_replaces_file_def
  by (simp_all add: replaces_file_frame replaces_file_log enabled_replaces_file
      info_replaces_file)
    (simp_all add: ZEEK_DEBUG_def fmt_def file_info_def FileAnalyzerInfo_default_def
      split: option.split)

lemma replaces_registered:
  "r \<noteq> [] \<longrightarrow>
     ((proto = TCP \<or> proto = UDP) \<longrightarrow>
        (let w1 = snd (after_replaces_protocol nm proto prts po pr r w);
             w' = registered_protocol nm proto prts po pr r t w;
             tg = GetAnalyzerTag w r
         in w' = stored_protocol (if proto = TCP then TCP_Analyzer else UDP_Analyzer)
                   (fst (after_replaces_protocol nm proto prts po pr r w)) t w1 \<and>
            components w1 = components w \<and> analyzer_names w1 = analyzer_names w \<and>
            pa_replaces (protocol_analyzers_by_type w' ! t) = tg \<and>
            reported_errors w' = reported_errors w \<and>
            (tg \<noteq> 0 \<longrightarrow>
               \<not> analyzer_enabled w1 tg \<and> (tg \<noteq> t \<longrightarrow> \<not> analyzer_enabled w' tg) \<and>
               Fmt ''  Replaces existing protocol analyzer %s'' [Str r] \<in> set (debug_log w')) \<and>
            (tg = 0 \<longrightarrow>
               analyzer_enabled w' = (analyzer_enabled w)(t := True) \<and>
               Fmt ''%s i supposed to replace %s, but that does not exist''
                 [Str nm, Str r, Str nm] \<in> set (debug_log w')))) \<and>
     (ZEEK_VERSION_NUMBER cfg \<ge> 40100 \<longrightarrow>
        (let w1 = snd (after_replaces_file cfg nm mts prs r w);
             w' = registered_file cfg nm mts prs r t w
         in w' = stored_file (fst (after_replaces_file cfg nm mts prs r w)) t w1 \<and>
            components w1 = components w \<and> file_names w1 = file_names w \<and>
            reported_errors w' = reported_errors w \<and>
            (case file_Lookup_name w r of
               Some c \<Rightarrow>
                 fa_replaces (file_analyzers_by_type w' ! t) = c \<and>
                 file_enabled w1 c = Some False \<and>
                 (c \<noteq> t \<longrightarrow> file_enabled w' c = Some False) \<and>
                 Fmt ''  Replaces existing file analyzer %s'' [Str r] \<in> set (debug_log w')
             | None \<Rightarrow>
                 fa_replaces (file_analyzers_by_type w' ! t) = 0 \<and>
                 file_enabled w' = (file_enabled w)(t \<mapsto> True) \<and>
                 Fmt ''%s i supposed to replace %s, but that does not exist''
                   [Str nm, Str r, Str nm] \<in> set (debug_log w'))))"
proof (intro impI conjI)
  assume r: "r \<noteq> []" and p: "proto = TCP \<or> proto = UDP"
  let ?a = "after_replaces_protocol nm proto prts po pr r w"
  have st: "registered_protocol nm proto prts po pr r t w =
      stored_protocol (if proto = TCP then TCP_Analyzer else UDP_Analyzer) (fst ?a) t (snd ?a)"
    using p by (auto simp: registered_protocol_stages)
  show "let w1 = snd ?a;
             w' = registered_protocol nm proto prts po pr r t w;
             tg = GetAnalyzerTag w r
         in w' = stored_protocol (if proto = TCP then TCP_Analyzer else UDP_Analyzer)
                   (fst ?a) t w1 \<and>
            components w1 = components w \<and> analyzer_names w1 = analyzer_names w \<and>
            pa_replaces (protocol_analyzers_by_type w' ! t) = tg \<and>
            reported_errors w' = reported_errors w \<and>
            (tg \<noteq> 0 \<longrightarrow>
               \<not> analyzer_enabled w1 tg \<and> (tg \<noteq> t \<longrightarrow> \<not> analyzer_enabled w' tg) \<and>
               Fmt ''  Replaces existing protocol analyzer %s'' [Str r] \<in> set (debug_log w')) \<and>
            (tg = 0 \<longrightarrow>
               analyzer_enabled w' = (analyzer_enabled w)(t := True) \<and>
               Fmt ''%s i supposed to replace %s, but that does not exist''
                 [Str nm, Str r, Str nm] \<in> set (debug_log w'))"
    unfolding Let_def st
    using r
    by (simp add: table_stored_protocol length_resize enabled_stored_protocol
        stored_protocol_frame after_replaces_protocol_state)
next
  assume r: "r \<noteq> []" and v: "40100 \<le> ZEEK_VERSION_NUMBER cfg"
  let ?a = "after_replaces_file cfg nm mts prs r w"
  show "let w1 = snd ?a;
             w' = registered_file cfg nm mts prs r t w
         in w' = stored_file (fst ?a) t w1 \<and>
            components w1 = components w \<and> file_names w1 = file_names w \<and>
            reported_errors w' = reported_errors w \<and>
            (case file_Lookup_name w r of
               Some c \<Rightarrow>
                 fa_replaces (file_analyzers_by_type w' ! t) = c \<and>
                 file_enabled w1 c = Some False \<and>
                 (c \<noteq> t \<longrightarrow> file_enabled w' c = Some False) \<and>
                 Fmt ''  Replaces existing file analyzer %s'' [Str r] \<in> set (debug_log w')
             | None \<Rightarrow>
                 fa_replaces (file_analyzers_by_type w' ! t) = 0 \<and>
                 file_enabled w' = (file_enabled w)(t \<mapsto> True) \<and>
                 Fmt ''%s i supposed to replace %s, but that does not exist''
                   [Str nm, Str r, Str nm] \<in> set (debug_log w'))"
    unfolding Let_def registered_file_stages
    using r v
    by (simp add: table_stored_file length_resize enabled_stored_file
        stored_file_frame after_replaces_file_state split: option.split)
qed

lemma host_with_OLD_NOPE: "GetAnalyzerTag host_with_OLD ''NOPE'' = 0"
  by (simp add: host_with_OLD_def GetAnalyzerTag_def)

lemma registerProtocolAnalyzer_stages:
  assumes "proto = TCP \<or> proto = UDP"
  shows "registerProtocolAnalyzer nm proto prts po pr r t w =
     store_protocol (if proto = TCP then TCP_Analyzer else UDP_Analyzer)
       (fst (after_replaces_protocol nm proto prts po pr r w)) t
       (snd (after_replaces_protocol nm proto prts po pr r w))"
  using assms
  by (auto simp: registerProtocolAnalyzer_def after_replaces_protocol_def protocol_info_def
      Let_def split_def)

lemma registerFileAnalyzer_stages:
  "registerFileAnalyzer cfg nm mts prs r t w =
     store_file (fst (after_replaces_file cfg nm mts prs r w)) t
       (snd (after_replaces_file cfg nm mts prs r w))"
  by (simp add: registerFileAnalyzer_def after_replaces_file_def file_info_def Let_def split_def)

lemma old_host_after_replaces_file:
  assumes "ZEEK_VERSION_NUMBER cfg < 40100"
  shows "after_replaces_file cfg nm mts prs r w =
     (file_info nm mts prs r, ZEEK_DEBUG (fmt ''Have Spicy file analyzer %s'' [Str nm]) w)"
  using assms by (simp add: after_replaces_file_def replaces_file_def)

lemma stored_file_analyzer_enabled:
  "analyzer_enabled (stored_file info t w) = analyzer_enabled w"
  by (simp add: stored_file_def Let_def AddComponent_def zeekygen_Script_def
      set_location_def makeLocation_def Initialize_file_def)

lemma old_host_registered_file:
  assumes "ZEEK_VERSION_NUMBER cfg < 40100"
  shows "fa_replaces (file_analyzers_by_type (registered_file cfg nm mts prs r t w) ! t) = 0"
    "file_enabled (registered_file cfg nm mts prs r t w) = (file_enabled w)(t \<mapsto> True)"
    "analyzer_enabled (registered_file cfg nm mts prs r t w) = analyzer_enabled w"
    "debug_log (registered_file cfg nm mts prs r t w) =
       debug_log w @ [Fmt ''Have Spicy file analyzer %s'' [Str nm]]"
    "reported_errors (registered_file cfg nm mts prs r t w) = reported_errors w"
  using assms
  by (simp_all add: registered_file_stages old_host_after_replaces_file table_stored_file
      length_resize enabled_stored_file stored_file_frame stored_file_analyzer_enabled)
    (simp_all add: ZEEK_DEBUG_def fmt_def file_info_def FileAnalyzerInfo_default_def)

text \<open>
  Claim C7, as amended. In a phase-1 registration with a non-empty \<open>replaces\<close> name, of a
  TCP or UDP protocol analyzer, or of a file analyzer on a host of version 4.1 or later:
  the registration is the creation of the component run from a state in which the lookup
  has been done and no component has been added yet. If the host knows an analyzer of that
  name, that analyzer is disabled in this intermediate state and, when the registration
  returns (the type id is below the largest one), it is still disabled unless the host
  handed its very tag to the new component, its tag is stored in the descriptor's
  replacement field and the replacement is logged. If it knows none, the diagnostic is
  logged, the replacement field stays empty, nothing is disabled, no error is reported and
  the descriptor is stored as usual. For a file analyzer on an older host, whatever the
  \<open>replaces\<close> name and whatever the host knows: the state before the component is created
  is the initial one with the message announcing the analyzer, and the registration
  leaves the replacement field empty, enables the new component and changes no other
  enabled flag, logs nothing but the announcement and reports no error.
\<close>

theorem replaces_at_registration:
  "(r \<noteq> [] \<longrightarrow>
     ((proto = TCP \<or> proto = UDP) \<longrightarrow>
        (let a = after_replaces_protocol nm proto prts po pr r w;
             w1 = snd a;
             tg = GetAnalyzerTag w r
         in registerProtocolAnalyzer nm proto prts po pr r t w =
              store_protocol (if proto = TCP then TCP_Analyzer else UDP_Analyzer) (fst a) t w1 \<and>
            components w1 = components w \<and> analyzer_names w1 = analyzer_names w \<and>
            (tg \<noteq> 0 \<longrightarrow> \<not> analyzer_enabled w1 tg) \<and>
            (t < 4294967295 \<longrightarrow>
               (\<exists>w'. registerProtocolAnalyzer nm proto prts po pr r t w = Inr w' \<and>
                  pa_replaces (protocol_analyzers_by_type w' ! t) = tg \<and>
                  reported_errors w' = reported_errors w \<and>
                  (tg \<noteq> 0 \<longrightarrow>
                     (tg \<noteq> t \<longrightarrow> \<not> analyzer_enabled w' tg) \<and>
                     Fmt ''  Replaces existing protocol analyzer %s'' [Str r]
                       \<in> set (debug_log w')) \<and>
                  (tg = 0 \<longrightarrow>
                     analyzer_enabled w' = (analyzer_enabled w)(t := True) \<and>
                     Fmt ''%s i supposed to replace %s, but that does not exist''
                       [Str nm, Str r, Str nm] \<in> set (debug_log w')))))) \<and>
     (ZEEK_VERSION_NUMBER cfg \<ge> 40100 \<longrightarrow>
        (let a = after_replaces_file cfg nm mts prs r w;
             w1 = snd a
         in registerFileAnalyzer cfg nm mts prs r t w = store_file (fst a) t w1 \<and>
            components w1 = components w \<and> file_names w1 = file_names w \<and>
            (case file_Lookup_name w r of
               Some c \<Rightarrow> file_enabled w1 c = Some False
             | None \<Rightarrow> file_enabled w1 = file_enabled w) \<and>
            (t < 4294967295 \<longrightarrow>
               (\<exists>w'. registerFileAnalyzer cfg nm mts prs r t w = Inr w' \<and>
                  reported_errors w' = reported_errors w \<and>
                  (case file_Lookup_name w r of
                     Some c \<Rightarrow>
                       fa_replaces (file_analyzers_by_type w' ! t) = c \<and>
                       (c \<noteq> t \<longrightarrow> file_enabled w' c = Some False) \<and>
                       Fmt ''  Replaces existing file analyzer %s'' [Str r]
                         \<in> set (debug_log w')
                   | None \<Rightarrow>
                       fa_replaces (file_analyzers_by_type w' ! t) = 0 \<and>
                       file_enabled w' = (file_enabled w)(t \<mapsto> True) \<and>
                       Fmt ''%s i supposed to replace %s, but that does not exist''
                         [Str nm, Str r, Str nm] \<in> set (debug_log w'))))))) \<and>
   (ZEEK_VERSION_NUMBER cfg < 40100 \<longrightarrow>
      (let a = after_replaces_file cfg nm mts prs r w
       in registerFileAnalyzer cfg nm mts prs r t w = store_file (fst a) t (snd a) \<and>
          a = (file_info nm mts prs r,
               ZEEK_DEBUG (fmt ''Have Spicy file analyzer %s'' [Str nm]) w) \<and>
          (t < 4294967295 \<longrightarrow>
             (\<exists>w'. registerFileAnalyzer cfg nm mts prs r t w = Inr w' \<and>
                fa_replaces (file_analyzers_by_type w' ! t) = 0 \<and>
                file_enabled w' = (file_enabled w)(t \<mapsto> True) \<and>
                analyzer_enabled w' = analyzer_enabled w \<and>
                debug_log w' = debug_log w @ [Fmt ''Have Spicy file analyzer %s'' [Str nm]] \<and>
                reported_errors w' = reported_errors w))))"
proof (intro conjI impI)
  assume r: "r \<noteq> []" and p: "proto = TCP \<or> proto = UDP"
  note old = replaces_registered [where nm = nm and proto = proto and prts = prts and po = po
      and pr = pr and r = r and t = t and w = w, rule_format, OF r, THEN conjunct1,
      rule_format, OF p, unfolded Let_def, THEN conjunct2]
  show "let a = after_replaces_protocol nm proto prts po pr r w;
             w1 = snd a;
             tg = GetAnalyzerTag w r
         in registerProtocolAnalyzer nm proto prts po pr r t w =
              store_protocol (if proto = TCP then TCP_Analyzer else UDP_Analyzer) (fst a) t w1 \<and>
            components w1 = components w \<and> analyzer_names w1 = analyzer_names w \<and>
            (tg \<noteq> 0 \<longrightarrow> \<not> analyzer_enabled w1 tg) \<and>
            (t < 4294967295 \<longrightarrow>
               (\<exists>w'. registerProtocolAnalyzer nm proto prts po pr r t w = Inr w' \<and>
                  pa_replaces (protocol_analyzers_by_type w' ! t) = tg \<and>
                  reported_errors w' = reported_errors w \<and>
                  (tg \<noteq> 0 \<longrightarrow>
                     (tg \<noteq> t \<longrightarrow> \<not> analyzer_enabled w' tg) \<and>
                     Fmt ''  Replaces existing protocol analyzer %s'' [Str r]
                       \<in> set (debug_log w')) \<and>
                  (tg = 0 \<longrightarrow>
                     analyzer_enabled w' = (analyzer_enabled w)(t := True) \<and>
                     Fmt ''%s i supposed to replace %s, but that does not exist''
                       [Str nm, Str r, Str nm] \<in> set (debug_log w'))))"
    unfolding Let_def
  proof (intro conjI impI)
    show "registerProtocolAnalyzer nm proto prts po pr r t w =
        store_protocol (if proto = TCP then TCP_Analyzer else UDP_Analyzer)
          (fst (after_replaces_protocol nm proto prts po pr r w)) t
          (snd (after_replaces_protocol nm proto prts po pr r w))"
      by (rule registerProtocolAnalyzer_stages [OF p])
  next
    assume t: "t < 4294967295"
    have e: "registerProtocolAnalyzer nm proto prts po pr r t w =
        Inr (registered_protocol nm proto prts po pr r t w)"
      using t by (simp add: registerProtocolAnalyzer_eq)
    from old show "\<exists>w'. registerProtocolAnalyzer nm proto prts po pr r t w = Inr w' \<and>
        pa_replaces (protocol_analyzers_by_type w' ! t) = GetAnalyzerTag w r \<and>
        reported_errors w' = reported_errors w \<and>
        (GetAnalyzerTag w r \<noteq> 0 \<longrightarrow>
           (GetAnalyzerTag w r \<noteq> t \<longrightarrow> \<not> analyzer_enabled w' (GetAnalyzerTag w r)) \<and>
           Fmt ''  Replaces existing protocol analyzer %s'' [Str r] \<in> set (debug_log w')) \<and>
        (GetAnalyzerTag w r = 0 \<longrightarrow>
           analyzer_enabled w' = (analyzer_enabled w)(t := True) \<and>
           Fmt ''%s i supposed to replace %s, but that does not exist''
             [Str nm, Str r, Str nm] \<in> set (debug_log w'))"
      by (simp add: e)
  qed (use r in \<open>simp_all add: after_replaces_protocol_state\<close>)
next
  assume r: "r \<noteq> []" and v: "40100 \<le> ZEEK_VERSION_NUMBER cfg"
  note old = replaces_registered [where cfg = cfg and nm = nm and mts = mts and prs = prs
      and r = r and t = t and w = w, rule_format, OF r, THEN conjunct2,
      rule_format, OF v, unfolded Let_def, THEN conjunct2]
  have en: "case file_Lookup_name w r of
       Some c \<Rightarrow> file_enabled (snd (after_replaces_file cfg nm mts prs r w)) c = Some False
     | None \<Rightarrow> file_enabled (snd (after_replaces_file cfg nm mts prs r w)) = file_enabled w"
    using r v by (simp add: after_replaces_file_state split: option.split)
  show "let a = after_replaces_file cfg nm mts prs r w;
             w1 = snd a
         in registerFileAnalyzer cfg nm mts prs r t w = store_file (fst a) t w1 \<and>
            components w1 = components w \<and> file_names w1 = file_names w \<and>
            (case file_Lookup_name w r of
               Some c \<Rightarrow> file_enabled w1 c = Some False
             | None \<Rightarrow> file_enabled w1 = file_enabled w) \<and>
            (t < 4294967295 \<longrightarrow>
               (\<exists>w'. registerFileAnalyzer cfg nm mts prs r t w = Inr w' \<and>
                  reported_errors w' = reported_errors w \<and>
                  (case file_Lookup_name w r of
                     Some c \<Rightarrow>
                       fa_replaces (file_analyzers_by_type w' ! t) = c \<and>
                       (c \<noteq> t \<longrightarrow> file_enabled w' c = Some False) \<and>
                       Fmt ''  Replaces existing file analyzer %s'' [Str r]
                         \<in> set (debug_log w')
                   | None \<Rightarrow>
                       fa_replaces (file_analyzers_by_type w' ! t) = 0 \<and>
                       file_enabled w' = (file_enabled w)(t \<mapsto> True) \<and>
                       Fmt ''%s i supposed to replace %s, but that does not exist''
                         [Str nm, Str r, Str nm] \<in> set (debug_log w'))))"
    unfolding Let_def
  proof (intro conjI impI)
    show "registerFileAnalyzer cfg nm mts prs r t w =
        store_file (fst (after_replaces_file cfg nm mts prs r w)) t
          (snd (after_replaces_file cfg nm mts prs r w))"
      by (rule registerFileAnalyzer_stages)
  next
    show "case file_Lookup_name w r of
       Some c \<Rightarrow> file_enabled (snd (after_replaces_file cfg nm mts prs r w)) c = Some False
     | None \<Rightarrow> file_enabled (snd (after_replaces_file cfg nm mts prs r w)) = file_enabled w"
      by (rule en)
  next
    assume t: "t < 4294967295"
    have e: "registerFileAnalyzer cfg nm mts prs r t w =
        Inr (registered_file cfg nm mts prs r t w)"
      using t by (simp add: registerFileAnalyzer_eq)
    from old show "\<exists>w'. registerFileAnalyzer cfg nm mts prs r t w = Inr w' \<and>
        reported_errors w' = reported_errors w \<and>
        (case file_Lookup_name w r of
           Some c \<Rightarrow>
             fa_replaces (file_analyzers_by_type w' ! t) = c \<and>
             (c \<noteq> t \<longrightarrow> file_enabled w' c = Some False) \<and>
             Fmt ''  Replaces existing file analyzer %s'' [Str r] \<in> set (debug_log w')
         | None \<Rightarrow>
             fa_replaces (file_analyzers_by_type w' ! t) = 0 \<and>
             file_enabled w' = (file_enabled w)(t \<mapsto> True) \<and>
             Fmt ''%s i supposed to replace %s, but that does not exist''
               [Str nm, Str r, Str nm] \<in> set (debug_log w'))"
      by (simp add: e split: option.splits)
  qed (simp_all add: after_replaces_file_state)
next
  assume v: "ZEEK_VERSION_NUMBER cfg < 40100"
  show "let a = after_replaces_file cfg nm mts prs r w
       in registerFileAnalyzer cfg nm mts prs r t w = store_file (fst a) t (snd a) \<and>
          a = (file_info nm mts prs r,
               ZEEK_DEBUG (fmt ''Have Spicy file analyzer %s'' [Str nm]) w) \<and>
          (t < 4294967295 \<longrightarrow>
             (\<exists>w'. registerFileAnalyzer cfg nm mts prs r t w = Inr w' \<and>
                fa_replaces (file_analyzers_by_type w' ! t) = 0 \<and>
                file_enabled w' = (file_enabled w)(t \<mapsto> True) \<and>
                analyzer_enabled w' = analyzer_enabled w \<and>
                debug_log w' = debug_log w @ [Fmt ''Have Spicy file analyzer %s'' [Str nm]] \<and>
                reported_errors w' = reported_errors w))"
    unfolding Let_def
  proof (intro conjI impI)
    show "registerFileAnalyzer cfg nm mts prs r t w =
        store_file (fst (after_replaces_file cfg nm mts prs r w)) t
          (snd (after_replaces_file cfg nm mts prs r w))"
      by (rule registerFileAnalyzer_stages)
  next
    show "after_replaces_file cfg nm mts prs r w =
        (file_info nm mts prs r, ZEEK_DEBUG (fmt ''Have Spicy file analyzer %s'' [Str nm]) w)"
      by (rule old_host_after_replaces_file [OF v])
  next
    assume t: "t < 4294967295"
    have e: "registerFileAnalyzer cfg nm mts prs r t w =
        Inr (registered_file cfg nm mts prs r t w)"
      using t by (simp add: registerFileAnalyzer_eq)
    show "\<exists>w'. registerFileAnalyzer cfg nm mts prs r t w = Inr w' \<and>
        fa_replaces (file_analyzers_by_type w' ! t) = 0 \<and>
        file_enabled w' = (file_enabled w)(t \<mapsto> True) \<and>
        analyzer_enabled w' = analyzer_enabled w \<and>
        debug_log w' = debug_log w @ [Fmt ''Have Spicy file analyzer %s'' [Str nm]] \<and>
        reported_errors w' = reported_errors w"
      by (simp add: e old_host_registered_file [OF v])
  qed
qed

theorem replaces_at_registration_witness:
  "(\<exists>w'. registerProtocolAnalyzer ''FOO'' TCP [] ''P'' ''P'' ''OLD'' 2 host_with_OLD = Inr w' \<and>
      pa_replaces (protocol_analyzers_by_type w' ! 2) = 1 \<and>
      \<not> analyzer_enabled w' 1 \<and>
      Fmt ''  Replaces existing protocol analyzer %s'' [Str ''OLD''] \<in> set (debug_log w')) \<and>
   (\<exists>w'. registerProtocolAnalyzer ''FOO'' UDP [] ''P'' ''P'' ''NOPE'' 2 host_with_OLD = Inr w' \<and>
      pa_replaces (protocol_analyzers_by_type w' ! 2) = 0 \<and>
      reported_errors w' = reported_errors host_with_OLD \<and>
      analyzer_enabled w' = (analyzer_enabled host_with_OLD)(2 := True) \<and>
      Fmt ''%s i supposed to replace %s, but that does not exist''
        [Str ''FOO'', Str ''NOPE'', Str ''FOO''] \<in> set (debug_log w')) \<and>
   (\<exists>w'. registerFileAnalyzer config_41 ''FOO'' [] ''P'' ''OLD'' 2 host_with_OLD = Inr w' \<and>
      fa_replaces (file_analyzers_by_type w' ! 2) = 1 \<and>
      file_enabled w' 1 = Some False \<and>
      Fmt ''  Replaces existing file analyzer %s'' [Str ''OLD''] \<in> set (debug_log w')) \<and>
   (\<exists>w'. registerFileAnalyzer config_40 ''FOO'' [] ''P'' ''OLD'' 2 host_with_OLD = Inr w' \<and>
      fa_replaces (file_analyzers_by_type w' ! 2) = 0 \<and>
      file_enabled w' = (file_enabled host_with_OLD)(2 \<mapsto> True) \<and>
      debug_log w' =
        debug_log host_with_OLD @ [Fmt ''Have Spicy file analyzer %s'' [Str ''FOO'']])"
proof -
  have v: "40100 \<le> ZEEK_VERSION_NUMBER config_41" and v': "ZEEK_VERSION_NUMBER config_40 < 40100"
    by (simp_all add: config_41_def config_40_def)
  have old: "''OLD'' \<noteq> []" and nope: "''NOPE'' \<noteq> []" and tcp: "TCP = TCP \<or> TCP = UDP"
    and udp: "UDP = TCP \<or> UDP = UDP" and t: "(2::nat) < 4294967295"
    by simp_all
  note P = replaces_at_registration [where w = host_with_OLD and nm = "''FOO''" and proto = TCP
      and prts = "[]" and po = "''P''" and pr = "''P''" and r = "''OLD''" and t = 2,
      THEN conjunct1, rule_format, OF old, THEN conjunct1, rule_format, OF tcp,
      unfolded Let_def, THEN conjunct2, THEN conjunct2, THEN conjunct2, THEN conjunct2,
      THEN mp, OF t]
  note N = replaces_at_registration [where w = host_with_OLD and nm = "''FOO''" and proto = UDP
      and prts = "[]" and po = "''P''" and pr = "''P''" and r = "''NOPE''" and t = 2,
      THEN conjunct1, rule_format, OF nope, THEN conjunct1, rule_format, OF udp,
      unfolded Let_def, THEN conjunct2, THEN conjunct2, THEN conjunct2, THEN conjunct2,
      THEN mp, OF t]
  note F = replaces_at_registration [where w = host_with_OLD and nm = "''FOO''"
      and cfg = config_41 and mts = "[]" and prs = "''P''" and r = "''OLD''" and t = 2,
      THEN conjunct1, rule_format, OF old, THEN conjunct2, rule_format, OF v,
      unfolded Let_def, THEN conjunct2, THEN conjunct2, THEN conjunct2, THEN conjunct2,
      THEN mp, OF t]
  note G = replaces_at_registration [where w = host_with_OLD and nm = "''FOO''"
      and cfg = config_40 and mts = "[]" and prs = "''P''" and r = "''OLD''" and t = 2,
      THEN conjunct2, rule_format, OF v', unfolded Let_def, THEN conjunct2, THEN conjunct2,
      THEN mp, OF t]
  from P have "\<exists>w'. registerProtocolAnalyzer ''FOO'' TCP [] ''P'' ''P'' ''OLD'' 2 host_with_OLD =
        Inr w' \<and>
      pa_replaces (protocol_analyzers_by_type w' ! 2) = 1 \<and>
      \<not> analyzer_enabled w' 1 \<and>
      Fmt ''  Replaces existing protocol analyzer %s'' [Str ''OLD''] \<in> set (debug_log w')"
    by (auto simp: host_with_OLD_facts)
  moreover from N have
    "\<exists>w'. registerProtocolAnalyzer ''FOO'' UDP [] ''P'' ''P'' ''NOPE'' 2 host_with_OLD = Inr w' \<and>
      pa_replaces (protocol_analyzers_by_type w' ! 2) = 0 \<and>
      reported_errors w' = reported_errors host_with_OLD \<and>
      analyzer_enabled w' = (analyzer_enabled host_with_OLD)(2 := True) \<and>
      Fmt ''%s i supposed to replace %s, but that does not exist''
        [Str ''FOO'', Str ''NOPE'', Str ''FOO''] \<in> set (debug_log w')"
    by (auto simp: host_with_OLD_NOPE)
  moreover from F have
    "\<exists>w'. registerFileAnalyzer config_41 ''FOO'' [] ''P'' ''OLD'' 2 host_with_OLD = Inr w' \<and>
      fa_replaces (file_analyzers_by_type w' ! 2) = 1 \<and>
      file_enabled w' 1 = Some False \<and>
      Fmt ''  Replaces existing file analyzer %s'' [Str ''OLD''] \<in> set (debug_log w')"
    by (auto simp: host_with_OLD_facts)
  moreover from G have
    "\<exists>w'. registerFileAnalyzer config_40 ''FOO'' [] ''P'' ''OLD'' 2 host_with_OLD = Inr w' \<and>
      fa_replaces (file_analyzers_by_type w' ! 2) = 0 \<and>
      file_enabled w' = (file_enabled host_with_OLD)(2 \<mapsto> True) \<and>
      debug_log w' =
        debug_log host_with_OLD @ [Fmt ''Have Spicy file analyzer %s'' [Str ''FOO'']]"
    by blast
  ultimately show ?thesis by blast
qed

text \<open>
  Claim C7 as stated fails for a file analyzer on a host older than 4.1, where the lookup
  is compiled out: the host knows the file analyzer \<open>OLD\<close> and has it enabled, and the
  registration of \<open>FOO\<close> with \<open>replaces = OLD\<close> returns with the replacement field empty,
  \<open>OLD\<close> still enabled and nothing logged but the announcement of \<open>FOO\<close>.
\<close>

theorem old_host_ignores_file_replaces:
  "file_Lookup_name host_with_OLD ''OLD'' = Some 1 \<and>
   file_enabled host_with_OLD 1 = Some True \<and>
   (\<exists>w'. registerFileAnalyzer config_40 ''FOO'' [] ''P'' ''OLD'' 2 host_with_OLD = Inr w' \<and>
      fa_replaces (file_analyzers_by_type w' ! 2) = 0 \<and>
      file_enabled w' 1 = Some True \<and>
      debug_log w' =
        debug_log host_with_OLD @ [Fmt ''Have Spicy file analyzer %s'' [Str ''FOO'']])"
proof -
  have v: "ZEEK_VERSION_NUMBER config_40 < 40100"
    by (simp add: config_40_def)
  show ?thesis
    by (simp add: registerFileAnalyzer_eq old_host_registered_file [OF v] host_with_OLD_facts)
qed

section \<open>Toggling packet analyzers\<close>

lemma registered_packet_other_tables:
  "protocol_analyzers_by_type (registered_packet nm prs t w) = protocol_analyzers_by_type w"
  "file_analyzers_by_type (registered_packet nm prs t w) = file_analyzers_by_type w"
  by (simp_all add: registered_packet_def Let_def AddComponent_def zeekygen_Script_def
      set_location_def makeLocation_def Initialize_packet_def ZEEK_DEBUG_def)

lemma stored_protocol_other_tables:
  "file_analyzers_by_type (stored_protocol k info t w) = file_analyzers_by_type w"
  "packet_analyzers_by_type (stored_protocol k info t w) = packet_analyzers_by_type w"
  by (simp_all add: stored_protocol_def Let_def AddComponent_def zeekygen_Script_def
      set_location_def makeLocation_def Initialize_analyzer_def)

lemma replaces_protocol_other_tables:
  "file_analyzers_by_type (snd (replaces_protocol nm r info w)) = file_analyzers_by_type w"
  "packet_analyzers_by_type (snd (replaces_protocol nm r info w)) = packet_analyzers_by_type w"
  by (simp_all add: replaces_protocol_def Let_def DisableAnalyzer_def ZEEK_DEBUG_def)

lemma registered_protocol_other_tables:
  "file_analyzers_by_type (registered_protocol nm proto prts po pr r t w) =
     file_analyzers_by_type w"
  "packet_analyzers_by_type (registered_protocol nm proto prts po pr r t w) =
     packet_analyzers_by_type w"
  by (simp_all add: registered_protocol_stages after_replaces_protocol_def
      stored_protocol_other_tables replaces_protocol_other_tables reporter_error_def
      ZEEK_DEBUG_def split: Protocol.split)

lemma stored_file_other_tables:
  "protocol_analyzers_by_type (stored_file info t w) = protocol_analyzers_by_type w"
  "packet_analyzers_by_type (stored_file info t w) = packet_analyzers_by_type w"
  by (simp_all add: stored_file_def Let_def AddComponent_def zeekygen_Script_def
      set_location_def makeLocation_def Initialize_file_def)

lemma replaces_file_other_tables:
  "protocol_analyzers_by_type (snd (replaces_file cfg nm r info w)) = protocol_analyzers_by_type w"
  "packet_analyzers_by_type (snd (replaces_file cfg nm r info w)) = packet_analyzers_by_type w"
  by (simp_all add: replaces_file_def SetEnabled_def ZEEK_DEBUG_def split: option.split)

lemma registered_file_other_tables:
  "protocol_analyzers_by_type (registered_file cfg nm mts prs r t w) =
     protocol_analyzers_by_type w"
  "packet_analyzers_by_type (registered_file cfg nm mts prs r t w) =
     packet_analyzers_by_type w"
  by (simp_all add: registered_file_stages after_replaces_file_def
      stored_file_other_tables replaces_file_other_tables ZEEK_DEBUG_def)

lemma initial_world_tables:
  "protocol_analyzers_by_type initial_world = []"
  "file_analyzers_by_type initial_world = []"
  "packet_analyzers_by_type initial_world = []"
  by (simp_all add: initial_world_def)

lemma packet_example_tables:
  "packet_analyzers_by_type packet_over_A2 =
     [PacketAnalyzerInfo_default, packet_descriptor ''K'' ''PK'' 1]"
  "protocol_analyzers_by_type packet_over_A2 = protocol_analyzers_by_type registered_A2"
  "packet_analyzers_by_type packet_only =
     [PacketAnalyzerInfo_default, packet_descriptor ''K'' ''PK'' 1]"
  "protocol_analyzers_by_type packet_only = []"
  by (simp_all add: packet_over_A2_def packet_only_def table_registered_packet
      registered_packet_other_tables registered_protocol_other_tables resize_def
      numeral_2_eq_2 initial_world_tables registered_A2_def)

text \<open>
  Claim C5 (every toggle of a set packet-analyzer slot logs that toggling is unsupported
  and returns \<^verbatim>\<open>false\<close>) does not hold of the code, which reads the slot of the protocol
  table instead of the packet table. With the packet analyzer \<open>K\<close> registered under id 1
  and the only protocol analyzer under id 2, the protocol slot 1 is unset and the call
  returns \<^verbatim>\<open>false\<close> without logging anything; with no protocol analyzer registered at
  all, the call reads past the end of the empty protocol table.
\<close>

theorem packet_toggle_reads_protocol_table:
  "registerProtocolAnalyzer ''A'' TCP [] ''PA'' ''PA'' [] 2 initial_world = Inr registered_A2 \<and>
   registerPacketAnalyzer ''K'' ''PK'' 1 registered_A2 = Inr packet_over_A2 \<and>
   registerPacketAnalyzer ''K'' ''PK'' 1 initial_world = Inr packet_only \<and>
   pk_type (packet_analyzers_by_type packet_over_A2 ! 1) = 1 \<and>
   toggleAnalyzer_packet 1 True packet_over_A2 = Inr (False, packet_over_A2) \<and>
   toggleAnalyzer_packet 1 False packet_over_A2 = Inr (False, packet_over_A2) \<and>
   pk_type (packet_analyzers_by_type packet_only ! 1) = 1 \<and>
   toggleAnalyzer_packet 1 True packet_only = Inl OutOfBounds \<and>
   toggleAnalyzer_packet 1 False packet_only = Inl OutOfBounds"
proof -
  have "pk_type (packet_analyzers_by_type packet_over_A2 ! 1) = 1 \<and>
   toggleAnalyzer_packet 1 True packet_over_A2 = Inr (False, packet_over_A2) \<and>
   toggleAnalyzer_packet 1 False packet_over_A2 = Inr (False, packet_over_A2) \<and>
   pk_type (packet_analyzers_by_type packet_only ! 1) = 1 \<and>
   toggleAnalyzer_packet 1 True packet_only = Inl OutOfBounds \<and>
   toggleAnalyzer_packet 1 False packet_only = Inl OutOfBounds"
    by (simp add: toggleAnalyzer_packet_def Let_def at_def packet_example_tables
        table_registered_A2 packet_descriptor_def ProtocolAnalyzerInfo_default_def)
  with concrete_registrations(2,6,7) show ?thesis by blast
qed

text \<open>
  Claim C3 fails for the packet overload, by the same read of the protocol table. One
  packet analyzer \<open>K\<close> is registered under type id 2 and nothing else, so the packet table
  has three slots, slot 1 has the sentinel type zero and the protocol table is empty.
  Toggling the packet tag 1, a tag that is not ours, reads slot 1 of the empty protocol
  table: the read is past the end of the vector and has no defined result, for both values
  of \<open>enable\<close>, where the claim promises \<^verbatim>\<open>false\<close>. The protocol and the file overload
  return \<^verbatim>\<open>false\<close> for the same tag in the same state.
\<close>

theorem packet_toggle_unset_slot_out_of_bounds:
  "\<exists>w. registerPacketAnalyzer ''K'' ''PK'' 2 initial_world = Inr w \<and>
      length (packet_analyzers_by_type w) = 3 \<and>
      pk_type (packet_analyzers_by_type w ! 1) = 0 \<and>
      pk_type (packet_analyzers_by_type w ! 2) = 2 \<and>
      protocol_analyzers_by_type w = [] \<and>
      toggleAnalyzer_packet 1 True w = Inl OutOfBounds \<and>
      toggleAnalyzer_packet 1 False w = Inl OutOfBounds \<and>
      toggleAnalyzer_packet 3 True w = Inr (False, w) \<and>
      toggleAnalyzer_protocol 1 True w = (False, w) \<and>
      toggleAnalyzer_file config_41 1 True w = Inr (False, w)"
proof -
  let ?w = "registered_packet ''K'' ''PK'' 2 initial_world"
  have r: "registerPacketAnalyzer ''K'' ''PK'' 2 initial_world = Inr ?w"
    by (simp add: registerPacketAnalyzer_eq)
  have pk: "packet_analyzers_by_type ?w =
      [PacketAnalyzerInfo_default, PacketAnalyzerInfo_default, packet_descriptor ''K'' ''PK'' 2]"
    by (simp add: table_registered_packet initial_world_tables resize_def numeral_3_eq_3)
  have pa: "protocol_analyzers_by_type ?w = []" and fa: "file_analyzers_by_type ?w = []"
    by (simp_all add: registered_packet_other_tables initial_world_tables)
  have t: "toggleAnalyzer_packet 1 True ?w = Inl OutOfBounds"
    "toggleAnalyzer_packet 1 False ?w = Inl OutOfBounds"
    "toggleAnalyzer_packet 3 True ?w = Inr (False, ?w)"
    by (simp_all add: toggle_packet_cases pk pa)
  have o: "toggleAnalyzer_protocol 1 True ?w = (False, ?w)"
    "toggleAnalyzer_file config_41 1 True ?w = Inr (False, ?w)"
    by (simp_all add: toggleAnalyzer_protocol_def toggleAnalyzer_file_def Let_def pa fa)
  have s: "length (packet_analyzers_by_type ?w) = 3"
    "pk_type (packet_analyzers_by_type ?w ! 1) = 0"
    "pk_type (packet_analyzers_by_type ?w ! 2) = 2"
    by (simp_all add: pk PacketAnalyzerInfo_default_def packet_descriptor_def)
  from r s pa t o show ?thesis by blast
qed

section \<open>Loading a module once\<close>

lemma count_list_distinct: "distinct xs \<Longrightarrow> x \<in> set xs \<Longrightarrow> count_list xs x = 1"
  by (induction xs) auto

lemma loadModule_present:
  assumes "canonical fs p = Inr cp" and "cp \<in> libraries w"
  shows "loadModule fs p w =
     Inr (w\<lparr>debug_log := debug_log w @
              [Fmt ''Ignoring duplicate loading request for %s'' [Str cp]]\<rparr>)"
  using assms by (simp add: loadModule_def ZEEK_DEBUG_def fmt_def)

lemma loadModule_absent:
  assumes "canonical fs p = Inr cp" and "cp \<notin> libraries w"
  shows "\<exists>w'. w' = w\<lparr>libraries := insert cp (libraries w),
                      debug_log := debug_log w @ [Fmt ''Loading %s'' [Str cp]],
                      opened := opened w @ [cp]\<rparr> \<and>
              loadModule fs p w =
                (case library_open fs cp of
                   None \<Rightarrow> Inr w'
                 | Some err \<Rightarrow>
                     Inl (FatalError (Fmt ''could not open library path %s: %s''
                                        [Str cp, Str err]), w'))"
  using assms by (simp add: loadModule_def Let_def ZEEK_DEBUG_def fmt_def split: option.split)

lemma loadModule_fatal_canonical:
  assumes "canonical fs p = Inl what"
  shows "loadModule fs p w = Inl (FatalError (Fmt what []), w)"
  using assms by (simp add: loadModule_def)

lemma loadModule_consistent:
  assumes "registry_consistent w"
  shows "registry_consistent (final_state (loadModule fs p w))"
proof (cases "canonical fs p")
  case (Inl what)
  with assms show ?thesis
    by (simp add: loadModule_fatal_canonical final_state_def)
next
  case (Inr cp)
  show ?thesis
  proof (cases "cp \<in> libraries w")
    case True
    with Inr assms show ?thesis
      by (simp add: loadModule_present final_state_def registry_consistent_def)
  next
    case False
    from loadModule_absent [OF Inr False] assms False show ?thesis
      by (auto simp: final_state_def registry_consistent_def split: option.splits)
  qed
qed

lemma example_fs_canonical:
  "canonical example_fs ''/lib/./a.hlto'' = Inr ''/lib/a.hlto''"
  "canonical example_fs ''/lib/a.hlto'' = Inr ''/lib/a.hlto''"
  "library_open example_fs ''/lib/a.hlto'' = None"
  by (simp_all add: example_fs_def)

lemma initial_world_registry:
  "registry_consistent initial_world" "''/lib/a.hlto'' \<notin> libraries initial_world"
  "opened initial_world = []" "searched initial_world = []"
  by (simp_all add: registry_consistent_def initial_world_def)

text \<open>
  Claim C2. For a path whose canonicalization succeeds with \<open>cp\<close>: if \<open>cp\<close> is in the module
  registry, \<^verbatim>\<open>loadModule\<close> returns and changes nothing but the debug log (no entry is added,
  no library is opened); otherwise it inserts \<open>cp\<close> and opens that library once, returning
  if the library opens and ending fatally if it does not. A registry that agrees with the
  list of opened libraries, none opened twice, stays so. Two spellings \<open>p\<close> and \<open>q\<close> of \<open>cp\<close>
  loaded one after the other open the library once: the second call changes neither the
  registry nor the list of opened libraries.
\<close>

theorem loadModule_idempotent:
  "canonical fs p = Inr cp \<longrightarrow>
     (cp \<in> libraries w \<longrightarrow>
        (\<exists>w'. loadModule fs p w = Inr w' \<and> libraries w' = libraries w \<and>
              opened w' = opened w \<and>
              w' = w\<lparr>debug_log := debug_log w @
                        [Fmt ''Ignoring duplicate loading request for %s'' [Str cp]]\<rparr>)) \<and>
     (cp \<notin> libraries w \<longrightarrow>
        libraries (final_state (loadModule fs p w)) = insert cp (libraries w) \<and>
        opened (final_state (loadModule fs p w)) = opened w @ [cp] \<and>
        (library_open fs cp = None \<longrightarrow> (\<exists>w'. loadModule fs p w = Inr w')) \<and>
        (library_open fs cp \<noteq> None \<longrightarrow> (\<exists>m w'. loadModule fs p w = Inl (FatalError m, w')))) \<and>
     (registry_consistent w \<longrightarrow> registry_consistent (final_state (loadModule fs p w))) \<and>
     (canonical fs q = Inr cp \<and> library_open fs cp = None \<longrightarrow>
        (\<exists>w1 w2. loadModule fs p w = Inr w1 \<and> loadModule fs q w1 = Inr w2 \<and>
           libraries w2 = libraries w1 \<and> opened w2 = opened w1 \<and>
           (registry_consistent w \<longrightarrow> count_list (opened w2) cp = 1)))"
proof (intro impI conjI)
  assume c: "canonical fs p = Inr cp" and m: "cp \<in> libraries w"
  then show "\<exists>w'. loadModule fs p w = Inr w' \<and> libraries w' = libraries w \<and>
              opened w' = opened w \<and>
              w' = w\<lparr>debug_log := debug_log w @
                        [Fmt ''Ignoring duplicate loading request for %s'' [Str cp]]\<rparr>"
    by (simp add: loadModule_present)
next
  assume c: "canonical fs p = Inr cp" and m: "cp \<notin> libraries w"
  from loadModule_absent [OF c m]
  show "libraries (final_state (loadModule fs p w)) = insert cp (libraries w)"
    and "opened (final_state (loadModule fs p w)) = opened w @ [cp]"
    by (auto simp: final_state_def split: option.splits)
next
  assume c: "canonical fs p = Inr cp" and m: "cp \<notin> libraries w"
    and o: "library_open fs cp = None"
  from loadModule_absent [OF c m] o show "\<exists>w'. loadModule fs p w = Inr w'"
    by auto
next
  assume c: "canonical fs p = Inr cp" and m: "cp \<notin> libraries w"
    and o: "library_open fs cp \<noteq> None"
  from loadModule_absent [OF c m] o show "\<exists>m w'. loadModule fs p w = Inl (FatalError m, w')"
    by auto
next
  assume "registry_consistent w"
  then show "registry_consistent (final_state (loadModule fs p w))"
    by (rule loadModule_consistent)
next
  assume c: "canonical fs p = Inr cp"
    and q: "canonical fs q = Inr cp \<and> library_open fs cp = None"
  have first: "\<exists>w1. loadModule fs p w = Inr w1 \<and> cp \<in> libraries w1 \<and>
      (registry_consistent w \<longrightarrow> registry_consistent w1)"
  proof (cases "cp \<in> libraries w")
    case True
    with c show ?thesis
      by (simp add: loadModule_present registry_consistent_def)
  next
    case False
    from loadModule_absent [OF c False] q False show ?thesis
      by (auto simp: registry_consistent_def)
  qed
  then obtain w1 where w1: "loadModule fs p w = Inr w1" "cp \<in> libraries w1"
    "registry_consistent w \<longrightarrow> registry_consistent w1"
    by blast
  let ?w2 = "w1\<lparr>debug_log := debug_log w1 @
      [Fmt ''Ignoring duplicate loading request for %s'' [Str cp]]\<rparr>"
  from q w1 have w2: "loadModule fs q w1 = Inr ?w2"
    by (simp add: loadModule_present)
  have "registry_consistent w \<longrightarrow> count_list (opened ?w2) cp = 1"
  proof
    assume "registry_consistent w"
    with w1 have "distinct (opened w1)" "cp \<in> set (opened w1)"
      by (simp_all add: registry_consistent_def)
    then show "count_list (opened ?w2) cp = 1"
      by (simp add: count_list_distinct)
  qed
  with w1 w2 show "\<exists>w1 w2. loadModule fs p w = Inr w1 \<and> loadModule fs q w1 = Inr w2 \<and>
           libraries w2 = libraries w1 \<and> opened w2 = opened w1 \<and>
           (registry_consistent w \<longrightarrow> count_list (opened w2) cp = 1)"
    by simp
qed

theorem loadModule_idempotent_witness:
  "opened (final_state (loadModule example_fs ''/lib/./a.hlto'' initial_world)) = [''/lib/a.hlto''] \<and>
   (\<exists>w1 w2. loadModule example_fs ''/lib/./a.hlto'' initial_world = Inr w1 \<and>
      loadModule example_fs ''/lib/a.hlto'' w1 = Inr w2 \<and>
      libraries w2 = libraries w1 \<and> opened w2 = opened w1 \<and>
      count_list (opened w2) ''/lib/a.hlto'' = 1)"
proof -
  note T = loadModule_idempotent [where fs = example_fs and p = "''/lib/./a.hlto''"
      and q = "''/lib/a.hlto''" and cp = "''/lib/a.hlto''" and w = initial_world,
      rule_format, OF example_fs_canonical(1)]
  have q: "canonical example_fs ''/lib/a.hlto'' = Inr ''/lib/a.hlto'' \<and>
      library_open example_fs ''/lib/a.hlto'' = None"
    by (simp add: example_fs_canonical)
  from T have "opened (final_state (loadModule example_fs ''/lib/./a.hlto'' initial_world)) =
      opened initial_world @ [''/lib/a.hlto'']"
    using initial_world_registry(2) by blast
  moreover from T q initial_world_registry(1)
  have "\<exists>w1 w2. loadModule example_fs ''/lib/./a.hlto'' initial_world = Inr w1 \<and>
      loadModule example_fs ''/lib/a.hlto'' w1 = Inr w2 \<and>
      libraries w2 = libraries w1 \<and> opened w2 = opened w1 \<and>
      count_list (opened w2) ''/lib/a.hlto'' = 1"
    by blast
  ultimately show ?thesis
    by (simp add: initial_world_registry)
qed

section \<open>Discovery\<close>

lemma loadModule_searched:
  "searched (final_state (loadModule fs p w)) = searched w"
  by (simp add: loadModule_def final_state_def Let_def ZEEK_DEBUG_def
      split: sum.split option.split)

lemma load_entries_searched:
  "searched (final_state (load_entries fs es w)) = searched w"
proof (induction es arbitrary: w)
  case Nil
  show ?case by (simp add: final_state_def)
next
  case (Cons e es)
  obtain p reg where e: "e = (p, reg)" by (cases e)
  show ?case
  proof (cases "reg \<and> extension fs p = ''.hlto''")
    case False
    with e Cons show ?thesis by auto
  next
    case True
    show ?thesis
    proof (cases "loadModule fs p w")
      case (Inl x)
      with True e loadModule_searched [of fs p w] show ?thesis
        by (simp add: final_state_def)
    next
      case (Inr w1)
      with True e loadModule_searched [of fs p w] Cons [of w1] show ?thesis
        by (simp add: final_state_def)
    qed
  qed
qed

lemma search_dirs_searched:
  "(\<forall>w'. search_dirs fs ds w = Inr w' \<longrightarrow>
      searched w' =
        searched w @ filter (is_directory fs) (filter (\<lambda>d. d \<noteq> []) (map (rt_trim fs) ds))) \<and>
   (\<forall>e w'. search_dirs fs ds w = Inl (e, w') \<longrightarrow>
      prefix (searched w') 
        (searched w @ filter (is_directory fs) (filter (\<lambda>d. d \<noteq> []) (map (rt_trim fs) ds))))"
proof (induction ds arbitrary: w)
  case Nil
  show ?case by simp
next
  case (Cons d ds)
  let ?t = "rt_trim fs d"
  show ?case
  proof (cases "?t = []")
    case True
    with Cons [of w] show ?thesis by (simp add: Let_def)
  next
    case ne: False
    show ?thesis
    proof (cases "is_directory fs ?t")
      case False
      let ?w = "ZEEK_DEBUG (fmt ''Module directory %s does not exist, skipping'' [Str ?t]) w"
      have "searched ?w = searched w" by (simp add: ZEEK_DEBUG_def)
      with ne False Cons [of ?w] show ?thesis by (simp add: Let_def)
    next
      case True
      let ?w1 = "ZEEK_DEBUG (fmt ''Searching %s for *.hlto'' [Str ?t]) w"
      let ?w2 = "?w1\<lparr>searched := searched ?w1 @ [?t]\<rparr>"
      let ?r = "load_entries fs (recursive_directory_iterator fs ?t) ?w2"
      have s2: "searched ?w2 = searched w @ [?t]" by (simp add: ZEEK_DEBUG_def)
      have step: "search_dirs fs (d # ds) w =
          (case ?r of Inl e \<Rightarrow> Inl e | Inr w3 \<Rightarrow> search_dirs fs ds w3)"
        using ne True by (simp add: Let_def)
      show ?thesis
      proof (cases ?r)
        case (Inl x)
        obtain e w' where x: "x = (e, w')" by (cases x)
        from load_entries_searched [of fs "recursive_directory_iterator fs ?t" ?w2] Inl x s2
        have "searched w' = searched w @ [?t]" by (simp add: final_state_def)
        with step Inl x ne True show ?thesis by simp
      next
        case (Inr w3)
        from load_entries_searched [of fs "recursive_directory_iterator fs ?t" ?w2] Inr s2
        have "searched w3 = searched w @ [?t]" by (simp add: final_state_def)
        with step Inr ne True Cons [of w3] show ?thesis by simp
      qed
    qed
  qed
qed

lemma searchModules_searched:
  "searchModules fs paths w = Inr w' \<Longrightarrow> searched w' = searched w @ directories_of fs paths"
  "searchModules fs paths w = Inl (e, w') \<Longrightarrow>
     prefix (searched w') (searched w @ directories_of fs paths)"
  using search_dirs_searched [of fs "rt_split fs paths" w]
  by (simp_all add: searchModules_def directories_of_def)

text \<open>
  Claim C9. If \<^verbatim>\<open>SPICY_MODULE_PATH\<close> is set and not empty, the directories enumerated by
  \<^verbatim>\<open>autoDiscoverModules\<close> are exactly the directories that variable lists (when discovery
  returns; a prefix of them when a module fails to load and the process ends). Otherwise
  they are exactly those of the configured plugin module directory followed by those of
  the host's plugin path.
\<close>

theorem autoDiscoverModules_override_is_exclusive:
  "(getenv_SPICY_MODULE_PATH = Some sp \<and> sp \<noteq> [] \<longrightarrow>
      (\<forall>w'. autoDiscoverModules cfg fs getenv_SPICY_MODULE_PATH zpp w = Inr w' \<longrightarrow>
         searched w' = searched w @ directories_of fs sp) \<and>
      (\<forall>e w'. autoDiscoverModules cfg fs getenv_SPICY_MODULE_PATH zpp w = Inl (e, w') \<longrightarrow>
         prefix (searched w') (searched w @ directories_of fs sp))) \<and>
   (getenv_SPICY_MODULE_PATH = None \<or> getenv_SPICY_MODULE_PATH = Some [] \<longrightarrow>
      (\<forall>w'. autoDiscoverModules cfg fs getenv_SPICY_MODULE_PATH zpp w = Inr w' \<longrightarrow>
         searched w' =
           searched w @ directories_of fs (PluginModuleDirectory cfg) @ directories_of fs zpp) \<and>
      (\<forall>e w'. autoDiscoverModules cfg fs getenv_SPICY_MODULE_PATH zpp w = Inl (e, w') \<longrightarrow>
         prefix (searched w')
           (searched w @ directories_of fs (PluginModuleDirectory cfg) @ directories_of fs zpp)))"
proof (intro conjI impI allI)
  fix w'
  assume "getenv_SPICY_MODULE_PATH = Some sp \<and> sp \<noteq> []"
    and "autoDiscoverModules cfg fs getenv_SPICY_MODULE_PATH zpp w = Inr w'"
  then show "searched w' = searched w @ directories_of fs sp"
    by (auto simp: autoDiscoverModules_def dest: searchModules_searched(1))
next
  fix e w'
  assume "getenv_SPICY_MODULE_PATH = Some sp \<and> sp \<noteq> []"
    and "autoDiscoverModules cfg fs getenv_SPICY_MODULE_PATH zpp w = Inl (e, w')"
  then show "prefix (searched w') (searched w @ directories_of fs sp)"
    by (auto simp: autoDiscoverModules_def dest: searchModules_searched(2))
next
  fix w'
  assume env: "getenv_SPICY_MODULE_PATH = None \<or> getenv_SPICY_MODULE_PATH = Some []"
    and r: "autoDiscoverModules cfg fs getenv_SPICY_MODULE_PATH zpp w = Inr w'"
  from env have d: "autoDiscoverModules cfg fs getenv_SPICY_MODULE_PATH zpp w =
      (case searchModules fs (PluginModuleDirectory cfg) w of
         Inl e \<Rightarrow> Inl e | Inr w1 \<Rightarrow> searchModules fs zpp w1)"
    by (auto simp: autoDiscoverModules_def)
  from r d obtain w1 where w1: "searchModules fs (PluginModuleDirectory cfg) w = Inr w1"
    "searchModules fs zpp w1 = Inr w'"
    by (auto split: sum.splits)
  from searchModules_searched(1) [OF w1(1)] searchModules_searched(1) [OF w1(2)]
  show "searched w' =
      searched w @ directories_of fs (PluginModuleDirectory cfg) @ directories_of fs zpp"
    by simp
next
  fix e w'
  assume env: "getenv_SPICY_MODULE_PATH = None \<or> getenv_SPICY_MODULE_PATH = Some []"
    and r: "autoDiscoverModules cfg fs getenv_SPICY_MODULE_PATH zpp w = Inl (e, w')"
  from env have d: "autoDiscoverModules cfg fs getenv_SPICY_MODULE_PATH zpp w =
      (case searchModules fs (PluginModuleDirectory cfg) w of
         Inl e \<Rightarrow> Inl e | Inr w1 \<Rightarrow> searchModules fs zpp w1)"
    by (auto simp: autoDiscoverModules_def)
  show "prefix (searched w')
      (searched w @ directories_of fs (PluginModuleDirectory cfg) @ directories_of fs zpp)"
  proof (cases "searchModules fs (PluginModuleDirectory cfg) w")
    case (Inl x)
    with r d have "searchModules fs (PluginModuleDirectory cfg) w = Inl (e, w')" by simp
    from searchModules_searched(2) [OF this]
    have "prefix (searched w') (searched w @ directories_of fs (PluginModuleDirectory cfg))" .
    then show ?thesis
      by (metis append_assoc prefix_order.trans prefixI)
  next
    case (Inr w1)
    with r d have "searchModules fs zpp w1 = Inl (e, w')" by simp
    from searchModules_searched(2) [OF this] searchModules_searched(1) [OF Inr]
    show ?thesis by simp
  qed
qed

lemma example_directories:
  "directories_of example_fs '' /lib : /none'' = [''/lib'']"
  "directories_of example_fs ''/usr/lib/spicy'' = [''/usr/lib/spicy'']"
  "directories_of example_fs ''/lib'' = [''/lib'']"
  by (simp_all add: directories_of_def example_fs_def trim_blanks_def)

lemma example_search_returns:
  "\<exists>w'. searchModules example_fs '' /lib : /none'' w = Inr w'"
  "\<exists>w'. searchModules example_fs ''/usr/lib/spicy'' w = Inr w'"
  "\<exists>w'. searchModules example_fs ''/lib'' w = Inr w'"
  by (simp_all add: searchModules_def example_fs_def trim_blanks_def loadModule_def Let_def)

theorem autoDiscoverModules_override_is_exclusive_witness:
  "(\<exists>w'. autoDiscoverModules config_41 example_fs (Some '' /lib : /none'') ''/lib'' initial_world
           = Inr w' \<and> searched w' = [''/lib'']) \<and>
   (\<exists>w'. autoDiscoverModules config_41 example_fs None ''/lib'' initial_world = Inr w' \<and>
         searched w' = [''/usr/lib/spicy'', ''/lib''])"
proof -
  obtain w1 where w1: "autoDiscoverModules config_41 example_fs (Some '' /lib : /none'') ''/lib''
      initial_world = Inr w1"
    using example_search_returns(1) [of initial_world] by (auto simp: autoDiscoverModules_def)
  obtain v where v: "searchModules example_fs ''/usr/lib/spicy'' initial_world = Inr v"
    using example_search_returns(2) by blast
  obtain w2 where "searchModules example_fs ''/lib'' v = Inr w2"
    using example_search_returns(3) by blast
  with v have w2: "autoDiscoverModules config_41 example_fs None ''/lib'' initial_world = Inr w2"
    by (simp add: autoDiscoverModules_def config_41_def)
  have e1: "Some '' /lib : /none'' = Some '' /lib : /none'' \<and> '' /lib : /none'' \<noteq> []"
    by simp
  have e2: "(None :: string option) = None \<or> (None :: string option) = Some []"
    by simp
  from autoDiscoverModules_override_is_exclusive [where cfg = config_41 and fs = example_fs
      and getenv_SPICY_MODULE_PATH = "Some '' /lib : /none''" and sp = "'' /lib : /none''"
      and zpp = "''/lib''" and w = initial_world, THEN conjunct1, rule_format, OF e1,
      THEN conjunct1, rule_format, OF w1]
  have "searched w1 = [''/lib'']"
    by (simp add: example_directories initial_world_registry)
  moreover
  from autoDiscoverModules_override_is_exclusive [where cfg = config_41 and fs = example_fs
      and getenv_SPICY_MODULE_PATH = None and zpp = "''/lib''" and w = initial_world,
      THEN conjunct2, rule_format, OF e2, THEN conjunct1, rule_format, OF w2]
  have "searched w2 = [''/usr/lib/spicy'', ''/lib'']"
    by (simp add: example_directories initial_world_registry config_41_def)
  ultimately show ?thesis
    using w1 w2 by blast
qed

section \<open>Phase 2 resolves the declared parsers\<close>

lemma find_parser_Inr:
  assumes "find_parser parsers a d = Inr x"
  shows "resolves parsers d x"
proof (cases "d = []")
  case True
  with assms show ?thesis by (simp add: find_parser_def resolves_def)
next
  case False
  show ?thesis
  proof (cases "find (\<lambda>q. name q = d) parsers")
    case None
    with False assms show ?thesis
      by (simp add: find_parser_def reporter_internalError_def)
  next
    case (Some q)
    with False assms have "x = Some q" by (simp add: find_parser_def)
    with False Some show ?thesis by (simp add: resolves_def)
  qed
qed

lemma find_parser_unresolvable:
  "unresolvable parsers d \<Longrightarrow> \<exists>m. find_parser parsers a d = Inl (InternalError m)"
  by (simp add: find_parser_def unresolvable_def reporter_internalError_def)

lemma find_parser_Inl:
  "find_parser parsers a d = Inl e \<Longrightarrow> unresolvable parsers d \<and> (\<exists>m. e = InternalError m)"
  by (auto simp: find_parser_def unresolvable_def reporter_internalError_def
      split: if_splits option.splits)

lemma resolves_present: "resolves parsers d x \<Longrightarrow> d \<noteq> [] \<Longrightarrow> x \<noteq> None"
  by (auto simp: resolves_def split: if_splits)

lemma resolves_not_unresolvable:
  "resolves parsers d x \<Longrightarrow> \<not> unresolvable parsers d"
  by (auto simp: resolves_def unresolvable_def split: if_splits)

lemma transport_protocol_Inl:
  "transport_protocol p = Inl e \<Longrightarrow> \<exists>m. e = InternalError m"
  by (auto simp: transport_protocol_def reporter_internalError_def split: Protocol.splits)

lemma register_ports_Inl:
  "register_ports tg ps w = Inl e \<Longrightarrow> \<exists>m. e = InternalError m"
  by (induction ps arbitrary: w)
    (auto simp: Let_def split: sum.splits dest: transport_protocol_Inl)

lemma register_parser_ports_Inl:
  "register_parser_ports tg ps w = Inl e \<Longrightarrow> \<exists>m. e = InternalError m"
  by (induction ps arbitrary: w)
    (auto simp: Let_def split: sum.splits if_splits dest: transport_protocol_Inl)

lemma init_protocol_analyzer_Inr:
  assumes "init_protocol_analyzer parsers p w = Inr (p', w')"
  shows "pa_type p' = pa_type p"
    and "pa_name_parser_orig p' = pa_name_parser_orig p"
    and "pa_name_parser_resp p' = pa_name_parser_resp p"
    and "pa_type p \<noteq> 0 \<Longrightarrow> protocol_resolved parsers p'"
    and "pa_type p = 0 \<Longrightarrow> p' = p"
  using assms
  by (auto simp: init_protocol_analyzer_def Let_def protocol_resolved_def
      reporter_internalError_def
      split: if_splits sum.splits option.splits dest: find_parser_Inr)

lemma init_protocol_analyzer_Inl:
  "init_protocol_analyzer parsers p w = Inl e \<Longrightarrow> \<exists>m. e = InternalError m"
  by (auto simp: init_protocol_analyzer_def Let_def reporter_internalError_def
      split: if_splits sum.splits option.splits
      dest: find_parser_Inl register_ports_Inl register_parser_ports_Inl)

lemma init_protocol_analyzer_unresolvable:
  assumes "pa_type p \<noteq> 0"
    and "unresolvable parsers (pa_name_parser_orig p) \<or>
         unresolvable parsers (pa_name_parser_resp p)"
  shows "\<exists>m. init_protocol_analyzer parsers p w = Inl (InternalError m)"
proof (cases "init_protocol_analyzer parsers p w")
  case (Inl e)
  then show ?thesis by (auto dest: init_protocol_analyzer_Inl)
next
  case (Inr r)
  obtain p' w' where "r = (p', w')" by (cases r)
  with Inr assms(1) have "protocol_resolved parsers p'"
    "pa_name_parser_orig p' = pa_name_parser_orig p"
    "pa_name_parser_resp p' = pa_name_parser_resp p"
    by (auto dest: init_protocol_analyzer_Inr)
  with assms(2) show ?thesis
    by (auto simp: protocol_resolved_def dest: resolves_not_unresolvable)
qed

lemma same_tables_refl [simp]: "same_tables w w"
  by (simp add: same_tables_def)

lemma same_tables_trans: "same_tables w w1 \<Longrightarrow> same_tables w1 w2 \<Longrightarrow> same_tables w w2"
  by (simp add: same_tables_def)

lemma same_tables_ZEEK_DEBUG [simp]: "same_tables w (ZEEK_DEBUG m w)"
  by (simp add: same_tables_def ZEEK_DEBUG_def)

lemma same_tables_RegisterAnalyzerForPort [simp]:
  "same_tables w (RegisterAnalyzerForPort tg tp n w)"
  by (simp add: same_tables_def RegisterAnalyzerForPort_def)

lemma same_tables_mime [simp]: "same_tables w (register_analyzer_for_mime_type tg mt w)"
  by (simp add: same_tables_def register_analyzer_for_mime_type_def Let_def ZEEK_DEBUG_def)

lemma same_tables_mimes:
  "same_tables w (foldl (\<lambda>w mt. register_analyzer_for_mime_type tg mt w) w mts)"
proof (induction mts arbitrary: w)
  case Nil
  show ?case by simp
next
  case (Cons mt mts)
  from same_tables_trans [OF same_tables_mime Cons] show ?case by simp
qed

lemma register_ports_same:
  "register_ports tg ps w = Inr w' \<Longrightarrow> same_tables w w'"
proof (induction ps arbitrary: w)
  case Nil
  then show ?case by simp
next
  case (Cons p ps)
  let ?w1 = "ZEEK_DEBUG (fmt ''  Scheduling analyzer for port %s'' [PortArg p]) w"
  from Cons.prems obtain tp where tp: "transport_protocol p = Inr tp"
    and r: "register_ports tg ps (RegisterAnalyzerForPort tg tp (port p) ?w1) = Inr w'"
    by (auto simp: Let_def split: sum.splits)
  have "same_tables w (RegisterAnalyzerForPort tg tp (port p) ?w1)"
    by (rule same_tables_trans [OF same_tables_ZEEK_DEBUG same_tables_RegisterAnalyzerForPort])
  with Cons.IH [OF r] show ?case by (rule same_tables_trans [rotated])
qed

lemma register_parser_ports_same:
  "register_parser_ports tg ps w = Inr w' \<Longrightarrow> same_tables w w'"
proof (induction ps arbitrary: w)
  case Nil
  then show ?case by simp
next
  case (Cons p ps)
  show ?case
  proof (cases "direction p \<noteq> Both \<and> direction p \<noteq> Responder")
    case True
    with Cons show ?thesis by simp
  next
    case False
    let ?w1 = "ZEEK_DEBUG (fmt ''  Scheduling analyzer for port %s'' [PortArg (pp_port p)]) w"
    from False Cons.prems obtain tp where tp: "transport_protocol (pp_port p) = Inr tp"
      and r: "register_parser_ports tg ps
                (RegisterAnalyzerForPort tg tp (port (pp_port p)) ?w1) = Inr w'"
      by (auto simp: Let_def split: sum.splits)
    have "same_tables w (RegisterAnalyzerForPort tg tp (port (pp_port p)) ?w1)"
      by (rule same_tables_trans [OF same_tables_ZEEK_DEBUG same_tables_RegisterAnalyzerForPort])
    with Cons.IH [OF r] show ?thesis by (rule same_tables_trans [rotated])
  qed
qed

lemma init_protocol_analyzer_same:
  "init_protocol_analyzer parsers p w = Inr (p', w') \<Longrightarrow> same_tables w w'"
  by (auto simp: init_protocol_analyzer_def Let_def reporter_internalError_def
      same_tables_def ZEEK_DEBUG_def
      split: if_splits sum.splits option.splits
      dest!: register_ports_same register_parser_ports_same)

lemma init_protocol_analyzers_Inr:
  assumes "init_protocol_analyzers parsers ps w = Inr (ps', w')"
  shows "same_tables w w'"
    and "\<forall>p' \<in> set ps'. pa_type p' \<noteq> 0 \<longrightarrow> protocol_resolved parsers p'"
  using assms
proof (induction ps arbitrary: w ps')
  case Nil
  case 1 then show ?case by simp
  case 2 then show ?case by simp
next
  case (Cons p ps)
  case 1
  then obtain p' w1 qs where h: "init_protocol_analyzer parsers p w = Inr (p', w1)"
    and t: "init_protocol_analyzers parsers ps w1 = Inr (qs, w')" and e: "ps' = p' # qs"
    by (auto split: sum.splits prod.splits)
  from init_protocol_analyzer_same [OF h] Cons.IH(1) [OF t]
  show ?case by (rule same_tables_trans)
next
  case (Cons p ps)
  case 2
  then obtain p' w1 qs where h: "init_protocol_analyzer parsers p w = Inr (p', w1)"
    and t: "init_protocol_analyzers parsers ps w1 = Inr (qs, w')" and e: "ps' = p' # qs"
    by (auto split: sum.splits prod.splits)
  from init_protocol_analyzer_Inr(1,4) [OF h] Cons.IH(2) [OF t] e
  show ?case by auto
qed

lemma init_protocol_analyzers_unresolvable:
  assumes "\<exists>p \<in> set ps. pa_type p \<noteq> 0 \<and>
             (unresolvable parsers (pa_name_parser_orig p) \<or>
              unresolvable parsers (pa_name_parser_resp p))"
  shows "\<exists>m. init_protocol_analyzers parsers ps w = Inl (InternalError m)"
  using assms
proof (induction ps arbitrary: w)
  case Nil
  then show ?case by simp
next
  case (Cons p ps)
  show ?case
  proof (cases "init_protocol_analyzer parsers p w")
    case (Inl e)
    then show ?thesis by (auto dest: init_protocol_analyzer_Inl)
  next
    case (Inr r)
    obtain p' w1 where r: "r = (p', w1)" by (cases r)
    from Inr init_protocol_analyzer_unresolvable [of p parsers w]
    have "\<not> (pa_type p \<noteq> 0 \<and>
             (unresolvable parsers (pa_name_parser_orig p) \<or>
              unresolvable parsers (pa_name_parser_resp p)))"
      by auto
    with Cons.prems have "\<exists>p \<in> set ps. pa_type p \<noteq> 0 \<and>
             (unresolvable parsers (pa_name_parser_orig p) \<or>
              unresolvable parsers (pa_name_parser_resp p))"
      by auto
    from Cons.IH [OF this, of w1] Inr r show ?thesis by auto
  qed
qed

lemma init_file_analyzer_Inr:
  assumes "init_file_analyzer parsers p w = Inr (p', w')"
  shows "fa_type p' = fa_type p"
    and "fa_name_parser p' = fa_name_parser p"
    and "fa_type p \<noteq> 0 \<Longrightarrow> file_resolved parsers p'"
    and "fa_type p = 0 \<Longrightarrow> p' = p"
  using assms
  by (auto simp: init_file_analyzer_def Let_def file_resolved_def reporter_internalError_def
      split: if_splits sum.splits dest: find_parser_Inr)

lemma init_file_analyzer_same:
  assumes "init_file_analyzer parsers p w = Inr (p', w')"
  shows "same_tables w w'"
proof (cases "fa_type p = 0")
  case True
  with assms show ?thesis by (simp add: init_file_analyzer_def)
next
  case False
  let ?w1 = "ZEEK_DEBUG (fmt ''Registering file analyzer %s with Zeek''
                           [Str (fa_name_analyzer p)]) w"
  let ?tg = "GetComponentTag ?w1 (fa_name_analyzer p)"
  let ?w2 = "foldl (\<lambda>w mt. register_analyzer_for_mime_type ?tg mt w) ?w1 (fa_mime_types p)"
  from False assms obtain pf where
    pf: "find_parser parsers (fa_name_analyzer p) (fa_name_parser p) = Inr pf"
    by (cases "find_parser parsers (fa_name_analyzer p) (fa_name_parser p)")
      (auto simp: init_file_analyzer_def Let_def)
  with False assms have
    w': "(case pf of None \<Rightarrow> ?w2
          | Some fp \<Rightarrow> foldl (\<lambda>w mt. register_analyzer_for_mime_type ?tg mt w) ?w2
                         (mime_types fp)) = w'"
    by (auto simp: init_file_analyzer_def Let_def reporter_internalError_def
        split: if_splits option.splits)
  have "same_tables w ?w2"
    by (rule same_tables_trans [OF same_tables_ZEEK_DEBUG same_tables_mimes])
  moreover have "same_tables ?w2 w'"
    unfolding w' [symmetric] by (cases pf) (simp_all add: same_tables_mimes)
  ultimately show ?thesis by (rule same_tables_trans)
qed

lemma init_file_analyzer_Inl:
  "init_file_analyzer parsers p w = Inl e \<Longrightarrow> \<exists>m. e = InternalError m"
  by (auto simp: init_file_analyzer_def Let_def reporter_internalError_def
      split: if_splits sum.splits dest: find_parser_Inl)

lemma init_file_analyzer_unresolvable:
  assumes "fa_type p \<noteq> 0" and "unresolvable parsers (fa_name_parser p)"
  shows "\<exists>m. init_file_analyzer parsers p w = Inl (InternalError m)"
  using assms find_parser_unresolvable [of parsers "fa_name_parser p" "fa_name_analyzer p"]
  by (auto simp: init_file_analyzer_def Let_def)

lemma init_file_analyzers_Inr:
  assumes "init_file_analyzers parsers ps w = Inr (ps', w')"
  shows "same_tables w w'"
    and "\<forall>p' \<in> set ps'. fa_type p' \<noteq> 0 \<longrightarrow> file_resolved parsers p'"
  using assms
proof (induction ps arbitrary: w ps')
  case Nil
  case 1 then show ?case by simp
  case 2 then show ?case by simp
next
  case (Cons p ps)
  case 1
  then obtain p' w1 qs where h: "init_file_analyzer parsers p w = Inr (p', w1)"
    and t: "init_file_analyzers parsers ps w1 = Inr (qs, w')" and e: "ps' = p' # qs"
    by (auto split: sum.splits prod.splits)
  from init_file_analyzer_same [OF h] Cons.IH(1) [OF t]
  show ?case by (rule same_tables_trans)
next
  case (Cons p ps)
  case 2
  then obtain p' w1 qs where h: "init_file_analyzer parsers p w = Inr (p', w1)"
    and t: "init_file_analyzers parsers ps w1 = Inr (qs, w')" and e: "ps' = p' # qs"
    by (auto split: sum.splits prod.splits)
  from init_file_analyzer_Inr(1,3) [OF h] Cons.IH(2) [OF t] e
  show ?case by auto
qed

lemma init_file_analyzers_unresolvable:
  assumes "\<exists>p \<in> set ps. fa_type p \<noteq> 0 \<and> unresolvable parsers (fa_name_parser p)"
  shows "\<exists>m. init_file_analyzers parsers ps w = Inl (InternalError m)"
  using assms
proof (induction ps arbitrary: w)
  case Nil
  then show ?case by simp
next
  case (Cons p ps)
  show ?case
  proof (cases "init_file_analyzer parsers p w")
    case (Inl e)
    then show ?thesis by (auto dest: init_file_analyzer_Inl)
  next
    case (Inr r)
    obtain p' w1 where r: "r = (p', w1)" by (cases r)
    from Inr init_file_analyzer_unresolvable [of p parsers w]
    have "\<not> (fa_type p \<noteq> 0 \<and> unresolvable parsers (fa_name_parser p))"
      by auto
    with Cons.prems
    have "\<exists>p \<in> set ps. fa_type p \<noteq> 0 \<and> unresolvable parsers (fa_name_parser p)"
      by auto
    from Cons.IH [OF this, of w1] Inr r show ?thesis by auto
  qed
qed

lemma init_packet_analyzer_Inr:
  assumes "init_packet_analyzer parsers p w = Inr (p', w')"
  shows "pk_type p' = pk_type p"
    and "pk_type p \<noteq> 0 \<Longrightarrow> packet_resolved parsers p'"
    and "pk_type p = 0 \<Longrightarrow> p' = p"
    and "same_tables w w'"
  using assms
  by (auto simp: init_packet_analyzer_def Let_def packet_resolved_def
      split: if_splits sum.splits dest: find_parser_Inr)

lemma init_packet_analyzer_Inl:
  "init_packet_analyzer parsers p w = Inl e \<Longrightarrow> \<exists>m. e = InternalError m"
  by (auto simp: init_packet_analyzer_def Let_def split: if_splits sum.splits
      dest: find_parser_Inl)

lemma init_packet_analyzer_unresolvable:
  assumes "pk_type p \<noteq> 0" and "unresolvable parsers (pk_name_parser p)"
  shows "\<exists>m. init_packet_analyzer parsers p w = Inl (InternalError m)"
  using assms find_parser_unresolvable [of parsers "pk_name_parser p" "pk_name_analyzer p"]
  by (auto simp: init_packet_analyzer_def Let_def)

lemma init_packet_analyzers_Inr:
  assumes "init_packet_analyzers parsers ps w = Inr (ps', w')"
  shows "same_tables w w'"
    and "\<forall>p' \<in> set ps'. pk_type p' \<noteq> 0 \<longrightarrow> packet_resolved parsers p'"
  using assms
proof (induction ps arbitrary: w ps')
  case Nil
  case 1 then show ?case by simp
  case 2 then show ?case by simp
next
  case (Cons p ps)
  case 1
  then obtain p' w1 qs where h: "init_packet_analyzer parsers p w = Inr (p', w1)"
    and t: "init_packet_analyzers parsers ps w1 = Inr (qs, w')" and e: "ps' = p' # qs"
    by (auto split: sum.splits prod.splits)
  from init_packet_analyzer_Inr(4) [OF h] Cons.IH(1) [OF t]
  show ?case by (rule same_tables_trans)
next
  case (Cons p ps)
  case 2
  then obtain p' w1 qs where h: "init_packet_analyzer parsers p w = Inr (p', w1)"
    and t: "init_packet_analyzers parsers ps w1 = Inr (qs, w')" and e: "ps' = p' # qs"
    by (auto split: sum.splits prod.splits)
  from init_packet_analyzer_Inr(1,2) [OF h] Cons.IH(2) [OF t] e
  show ?case by auto
qed

lemma init_packet_analyzers_unresolvable:
  assumes "\<exists>p \<in> set ps. pk_type p \<noteq> 0 \<and> unresolvable parsers (pk_name_parser p)"
  shows "\<exists>m. init_packet_analyzers parsers ps w = Inl (InternalError m)"
  using assms
proof (induction ps arbitrary: w)
  case Nil
  then show ?case by simp
next
  case (Cons p ps)
  show ?case
  proof (cases "init_packet_analyzer parsers p w")
    case (Inl e)
    then show ?thesis by (auto dest: init_packet_analyzer_Inl)
  next
    case (Inr r)
    obtain p' w1 where r: "r = (p', w1)" by (cases r)
    from Inr init_packet_analyzer_unresolvable [of p parsers w]
    have "\<not> (pk_type p \<noteq> 0 \<and> unresolvable parsers (pk_name_parser p))"
      by auto
    with Cons.prems
    have "\<exists>p \<in> set ps. pk_type p \<noteq> 0 \<and> unresolvable parsers (pk_name_parser p)"
      by auto
    from Cons.IH [OF this, of w1] Inr r show ?thesis by auto
  qed
qed

lemma init_protocol_analyzers_Inl:
  "init_protocol_analyzers parsers ps w = Inl e \<Longrightarrow> \<exists>m. e = InternalError m"
  by (induction ps arbitrary: w)
    (auto split: sum.splits prod.splits dest: init_protocol_analyzer_Inl)

lemma init_file_analyzers_Inl:
  "init_file_analyzers parsers ps w = Inl e \<Longrightarrow> \<exists>m. e = InternalError m"
  by (induction ps arbitrary: w)
    (auto split: sum.splits prod.splits dest: init_file_analyzer_Inl)

lemma init_packet_analyzers_Inl:
  "init_packet_analyzers parsers ps w = Inl e \<Longrightarrow> \<exists>m. e = InternalError m"
  by (induction ps arbitrary: w)
    (auto split: sum.splits prod.splits dest: init_packet_analyzer_Inl)

lemma fill_in_parsers_Inr:
  assumes "fill_in_parsers parsers w = Inr w'"
  shows "\<forall>p \<in> set (protocol_analyzers_by_type w'). pa_type p \<noteq> 0 \<longrightarrow> protocol_resolved parsers p"
    and "\<forall>p \<in> set (file_analyzers_by_type w'). fa_type p \<noteq> 0 \<longrightarrow> file_resolved parsers p"
    and "\<forall>p \<in> set (packet_analyzers_by_type w'). pk_type p \<noteq> 0 \<longrightarrow> packet_resolved parsers p"
proof -
  from assms obtain pas w1 fas w2 pks w3 where
    a: "init_protocol_analyzers parsers (protocol_analyzers_by_type w) w = Inr (pas, w1)"
    and b: "init_file_analyzers parsers (file_analyzers_by_type w1) w1 = Inr (fas, w2)"
    and c: "init_packet_analyzers parsers (packet_analyzers_by_type w2) w2 = Inr (pks, w3)"
    and w': "w' = ZEEK_DEBUG (Fmt ''Done with post-script initialization'' [])
               (w3\<lparr>protocol_analyzers_by_type := pas, file_analyzers_by_type := fas,
                   packet_analyzers_by_type := pks\<rparr>)"
    by (auto simp: fill_in_parsers_def split: sum.splits prod.splits)
  from w' have t: "protocol_analyzers_by_type w' = pas" "file_analyzers_by_type w' = fas"
    "packet_analyzers_by_type w' = pks"
    by (simp_all add: ZEEK_DEBUG_def)
  from init_protocol_analyzers_Inr(2) [OF a] t(1)
  show "\<forall>p \<in> set (protocol_analyzers_by_type w'). pa_type p \<noteq> 0 \<longrightarrow> protocol_resolved parsers p"
    by simp
  from init_file_analyzers_Inr(2) [OF b] t(2)
  show "\<forall>p \<in> set (file_analyzers_by_type w'). fa_type p \<noteq> 0 \<longrightarrow> file_resolved parsers p"
    by simp
  from init_packet_analyzers_Inr(2) [OF c] t(3)
  show "\<forall>p \<in> set (packet_analyzers_by_type w'). pk_type p \<noteq> 0 \<longrightarrow> packet_resolved parsers p"
    by simp
qed

lemma fill_in_parsers_unresolvable:
  assumes "has_unresolvable parsers w"
  shows "\<exists>m. fill_in_parsers parsers w = Inl (InternalError m)"
proof (cases "init_protocol_analyzers parsers (protocol_analyzers_by_type w) w")
  case (Inl e)
  then show ?thesis
    by (auto simp: fill_in_parsers_def dest: init_protocol_analyzers_Inl)
next
  case a: (Inr r1)
  obtain pas w1 where r1: "r1 = (pas, w1)" by (cases r1)
  from a r1 init_protocol_analyzers_unresolvable [of "protocol_analyzers_by_type w" parsers w]
  have np: "\<not> (\<exists>p \<in> set (protocol_analyzers_by_type w). pa_type p \<noteq> 0 \<and>
         (unresolvable parsers (pa_name_parser_orig p) \<or>
          unresolvable parsers (pa_name_parser_resp p)))"
    by auto
  from a r1 have s1: "same_tables w w1"
    by (auto dest: init_protocol_analyzers_Inr(1))
  show ?thesis
  proof (cases "init_file_analyzers parsers (file_analyzers_by_type w1) w1")
    case (Inl e)
    with a r1 show ?thesis
      by (auto simp: fill_in_parsers_def dest: init_file_analyzers_Inl)
  next
    case b: (Inr r2)
    obtain fas w2 where r2: "r2 = (fas, w2)" by (cases r2)
    from b r2 init_file_analyzers_unresolvable [of "file_analyzers_by_type w1" parsers w1] s1
    have nf: "\<not> (\<exists>p \<in> set (file_analyzers_by_type w). fa_type p \<noteq> 0 \<and>
         unresolvable parsers (fa_name_parser p))"
      by (auto simp: same_tables_def)
    from b r2 have s2: "same_tables w1 w2"
      by (auto dest: init_file_analyzers_Inr(1))
    from assms np nf s1 s2
    have "\<exists>p \<in> set (packet_analyzers_by_type w2). pk_type p \<noteq> 0 \<and>
         unresolvable parsers (pk_name_parser p)"
      by (auto simp: has_unresolvable_def same_tables_def)
    from init_packet_analyzers_unresolvable [OF this, of w2] a r1 b r2
    show ?thesis
      by (auto simp: fill_in_parsers_def)
  qed
qed

lemma find_parser_lookup:
  "find_parser parsers a d = Inr x \<Longrightarrow> x = lookup_parser parsers d"
  by (auto simp: find_parser_def lookup_parser_def reporter_internalError_def
      split: if_splits option.splits)

lemma find_parser_ok:
  "(\<exists>x. find_parser parsers a d = Inr x) = (\<not> unresolvable parsers d)"
  by (auto simp: find_parser_def unresolvable_def reporter_internalError_def
      split: option.splits)

lemma find_parser_resolvable:
  "\<not> unresolvable parsers d \<Longrightarrow> find_parser parsers a d = Inr (lookup_parser parsers d)"
  by (auto simp: find_parser_def unresolvable_def lookup_parser_def)

lemma find_parser_complete:
  assumes "q \<in> set parsers" and "name q = d" and "d \<noteq> []"
  shows "\<exists>p. find_parser parsers a d = Inr (Some p) \<and> name p = d \<and> p \<in> set parsers"
proof (cases "find (\<lambda>q. name q = d) parsers")
  case None
  with assms show ?thesis by (auto simp: find_None_iff)
next
  case (Some p)
  then have "name p = d \<and> p \<in> set parsers"
    by (auto simp: find_Some_iff)
  with Some assms(3) show ?thesis
    by (simp add: find_parser_def)
qed

lemma transport_protocol_ok:
  "(\<exists>tp. transport_protocol p = Inr tp) = (protocol p \<noteq> Undef)"
  by (cases "protocol p") (simp_all add: transport_protocol_def reporter_internalError_def)

lemma register_ports_ok:
  "(\<exists>w'. register_ports tg ps w = Inr w') = (\<forall>q \<in> set ps. protocol q \<noteq> Undef)"
proof (induction ps arbitrary: w)
  case Nil
  show ?case by simp
next
  case (Cons p ps)
  show ?case
  proof (cases "transport_protocol p")
    case (Inl e)
    with transport_protocol_ok [of p] have "protocol p = Undef" by auto
    with Inl show ?thesis by (simp add: Let_def)
  next
    case (Inr tp)
    with transport_protocol_ok [of p] have "protocol p \<noteq> Undef" by auto
    with Inr Cons.IH show ?thesis by (simp add: Let_def)
  qed
qed

lemma register_parser_ports_ok:
  "(\<exists>w'. register_parser_ports tg ps w = Inr w') =
     (\<forall>q \<in> set ps. direction q = Both \<or> direction q = Responder \<longrightarrow>
        protocol (pp_port q) \<noteq> Undef)"
proof (induction ps arbitrary: w)
  case Nil
  show ?case by simp
next
  case (Cons p ps)
  show ?case
  proof (cases "direction p \<noteq> Both \<and> direction p \<noteq> Responder")
    case True
    with Cons.IH show ?thesis by simp
  next
    case False
    show ?thesis
    proof (cases "transport_protocol (pp_port p)")
      case (Inl e)
      with transport_protocol_ok [of "pp_port p"] have "protocol (pp_port p) = Undef" by auto
      with Inl False show ?thesis by (auto simp: Let_def)
    next
      case (Inr tp)
      with transport_protocol_ok [of "pp_port p"] have "protocol (pp_port p) \<noteq> Undef" by auto
      with Inr False Cons.IH show ?thesis by (simp add: Let_def)
    qed
  qed
qed

lemma GetAnalyzerTag_ZEEK_DEBUG [simp]: "GetAnalyzerTag (ZEEK_DEBUG m w) n = GetAnalyzerTag w n"
  by (simp add: ZEEK_DEBUG_def)

lemma GetComponentTag_ZEEK_DEBUG [simp]: "GetComponentTag (ZEEK_DEBUG m w) n = GetComponentTag w n"
  by (simp add: ZEEK_DEBUG_def GetComponentTag_def)

lemma init_protocol_analyzer_ok:
  "(\<exists>r. init_protocol_analyzer parsers p w = Inr r) = protocol_ready parsers w p"
proof (cases "pa_type p = 0")
  case True
  then show ?thesis by (simp add: init_protocol_analyzer_def protocol_ready_def)
next
  case set: False
  let ?w1 = "ZEEK_DEBUG (fmt ''Registering %s protocol analyzer %s with Zeek''
                           [ProtoArg (pa_protocol p), Str (pa_name_analyzer p)]) w"
  let ?tg = "GetAnalyzerTag w (pa_name_analyzer p)"
  show ?thesis
  proof (cases "unresolvable parsers (pa_name_parser_orig p) \<or>
                unresolvable parsers (pa_name_parser_resp p)")
    case True
    from init_protocol_analyzer_unresolvable [OF set True, of w]
    have "\<not> (\<exists>r. init_protocol_analyzer parsers p w = Inr r)" by auto
    with True set show ?thesis by (auto simp: protocol_ready_def)
  next
    case res: False
    then have fo: "find_parser parsers (pa_name_analyzer p) (pa_name_parser_orig p) =
        Inr (lookup_parser parsers (pa_name_parser_orig p))"
      and fr: "find_parser parsers (pa_name_analyzer p) (pa_name_parser_resp p) =
        Inr (lookup_parser parsers (pa_name_parser_resp p))"
      by (simp_all add: find_parser_resolvable)
    show ?thesis
    proof (cases "?tg = 0")
      case True
      with set fo fr show ?thesis
        by (simp add: init_protocol_analyzer_def Let_def protocol_ready_def
            reporter_internalError_def)
    next
      case tg: False
      show ?thesis
      proof (cases "register_ports ?tg (pa_ports p) ?w1")
        case (Inl e)
        with register_ports_ok [of ?tg "pa_ports p" ?w1]
        have "\<not> (\<forall>q \<in> set (pa_ports p). protocol q \<noteq> Undef)" by auto
        with set fo fr tg Inl show ?thesis
          by (simp add: init_protocol_analyzer_def Let_def protocol_ready_def)
      next
        case (Inr w2)
        with register_ports_ok [of ?tg "pa_ports p" ?w1]
        have ports: "\<forall>q \<in> set (pa_ports p). protocol q \<noteq> Undef" by auto
        show ?thesis
        proof (cases "lookup_parser parsers (pa_name_parser_resp p)")
          case None
          with set fo fr tg Inr res ports show ?thesis
            by (simp add: init_protocol_analyzer_def Let_def protocol_ready_def)
        next
          case (Some rp)
          show ?thesis
          proof (cases "register_parser_ports ?tg (ports rp) w2")
            case (Inl e)
            with register_parser_ports_ok [of ?tg "ports rp" w2]
            have "\<not> (\<forall>q \<in> set (ports rp). direction q = Both \<or> direction q = Responder \<longrightarrow>
                protocol (pp_port q) \<noteq> Undef)" by auto
            with set fo fr tg Inr Some Inl show ?thesis
              by (simp add: init_protocol_analyzer_def Let_def protocol_ready_def)
          next
            case r3: (Inr w3)
            with register_parser_ports_ok [of ?tg "ports rp" w2]
            have "\<forall>q \<in> set (ports rp). direction q = Both \<or> direction q = Responder \<longrightarrow>
                protocol (pp_port q) \<noteq> Undef" by auto
            with set fo fr tg Inr Some r3 res ports show ?thesis
              by (simp add: init_protocol_analyzer_def Let_def protocol_ready_def)
          qed
        qed
      qed
    qed
  qed
qed

lemma init_protocol_analyzer_resolved:
  assumes "init_protocol_analyzer parsers p w = Inr (p', w')"
  shows "p' = resolved_protocol parsers p"
  using assms
  by (auto simp: init_protocol_analyzer_def Let_def resolved_protocol_def
      reporter_internalError_def
      split: if_splits sum.splits option.splits dest!: find_parser_lookup)

lemma protocol_ready_same:
  "same_tables w w1 \<Longrightarrow> protocol_ready parsers w1 p = protocol_ready parsers w p"
  by (simp add: same_tables_def protocol_ready_def GetAnalyzerTag_def)

lemma file_ready_same:
  "same_tables w w1 \<Longrightarrow> file_ready parsers w1 p = file_ready parsers w p"
  by (simp add: same_tables_def file_ready_def GetComponentTag_def)

lemma init_protocol_analyzers_ok:
  "(\<exists>r. init_protocol_analyzers parsers ps w = Inr r) =
     (\<forall>p \<in> set ps. protocol_ready parsers w p)"
proof (induction ps arbitrary: w)
  case Nil
  show ?case by simp
next
  case (Cons p ps)
  show ?case
  proof (cases "init_protocol_analyzer parsers p w")
    case (Inl e)
    with init_protocol_analyzer_ok [of parsers p w] have "\<not> protocol_ready parsers w p"
      by auto
    with Inl show ?thesis by simp
  next
    case (Inr r)
    obtain p' w1 where r: "r = (p', w1)" by (cases r)
    from Inr init_protocol_analyzer_ok [of parsers p w] have h: "protocol_ready parsers w p"
      by auto
    from Inr r have "same_tables w w1"
      by (auto dest: init_protocol_analyzer_same)
    then have "\<And>q. protocol_ready parsers w1 q = protocol_ready parsers w q"
      by (rule protocol_ready_same)
    with Cons.IH [of w1]
    have "(\<exists>r. init_protocol_analyzers parsers ps w1 = Inr r) =
        (\<forall>p \<in> set ps. protocol_ready parsers w p)"
      by simp
    with Inr r h show ?thesis
      by (auto split: sum.splits)
  qed
qed

lemma init_protocol_analyzers_map:
  "init_protocol_analyzers parsers ps w = Inr (ps', w') \<Longrightarrow>
     ps' = map (resolved_protocol parsers) ps"
proof (induction ps arbitrary: w ps')
  case Nil
  then show ?case by simp
next
  case (Cons p ps)
  then obtain p' w1 qs where h: "init_protocol_analyzer parsers p w = Inr (p', w1)"
    and t: "init_protocol_analyzers parsers ps w1 = Inr (qs, w')" and e: "ps' = p' # qs"
    by (auto split: sum.splits prod.splits)
  from init_protocol_analyzer_resolved [OF h] Cons.IH [OF t] e show ?case by simp
qed

lemma init_file_analyzer_ok:
  "(\<exists>r. init_file_analyzer parsers p w = Inr r) = file_ready parsers w p"
proof (cases "fa_type p = 0")
  case True
  then show ?thesis by (simp add: init_file_analyzer_def file_ready_def)
next
  case set: False
  show ?thesis
  proof (cases "unresolvable parsers (fa_name_parser p)")
    case True
    from init_file_analyzer_unresolvable [OF set True, of w]
    have "\<not> (\<exists>r. init_file_analyzer parsers p w = Inr r)" by auto
    with True set show ?thesis by (auto simp: file_ready_def)
  next
    case False
    then have "find_parser parsers (fa_name_analyzer p) (fa_name_parser p) =
        Inr (lookup_parser parsers (fa_name_parser p))"
      by (simp add: find_parser_resolvable)
    with set False show ?thesis
      by (simp add: init_file_analyzer_def Let_def file_ready_def reporter_internalError_def)
  qed
qed

lemma init_file_analyzer_resolved:
  assumes "init_file_analyzer parsers p w = Inr (p', w')"
  shows "p' = resolved_file parsers p"
  using assms
  by (auto simp: init_file_analyzer_def Let_def resolved_file_def reporter_internalError_def
      split: if_splits sum.splits dest!: find_parser_lookup)

lemma init_file_analyzers_ok:
  "(\<exists>r. init_file_analyzers parsers ps w = Inr r) = (\<forall>p \<in> set ps. file_ready parsers w p)"
proof (induction ps arbitrary: w)
  case Nil
  show ?case by simp
next
  case (Cons p ps)
  show ?case
  proof (cases "init_file_analyzer parsers p w")
    case (Inl e)
    with init_file_analyzer_ok [of parsers p w] have "\<not> file_ready parsers w p"
      by auto
    with Inl show ?thesis by simp
  next
    case (Inr r)
    obtain p' w1 where r: "r = (p', w1)" by (cases r)
    from Inr init_file_analyzer_ok [of parsers p w] have h: "file_ready parsers w p"
      by auto
    from Inr r have "same_tables w w1"
      by (auto dest: init_file_analyzer_same)
    then have "\<And>q. file_ready parsers w1 q = file_ready parsers w q"
      by (rule file_ready_same)
    with Cons.IH [of w1]
    have "(\<exists>r. init_file_analyzers parsers ps w1 = Inr r) =
        (\<forall>p \<in> set ps. file_ready parsers w p)"
      by simp
    with Inr r h show ?thesis
      by (auto split: sum.splits)
  qed
qed

lemma init_file_analyzers_map:
  "init_file_analyzers parsers ps w = Inr (ps', w') \<Longrightarrow> ps' = map (resolved_file parsers) ps"
proof (induction ps arbitrary: w ps')
  case Nil
  then show ?case by simp
next
  case (Cons p ps)
  then obtain p' w1 qs where h: "init_file_analyzer parsers p w = Inr (p', w1)"
    and t: "init_file_analyzers parsers ps w1 = Inr (qs, w')" and e: "ps' = p' # qs"
    by (auto split: sum.splits prod.splits)
  from init_file_analyzer_resolved [OF h] Cons.IH [OF t] e show ?case by simp
qed

lemma init_packet_analyzer_ok:
  "(\<exists>r. init_packet_analyzer parsers p w = Inr r) = packet_ready parsers p"
proof (cases "pk_type p = 0")
  case True
  then show ?thesis by (simp add: init_packet_analyzer_def packet_ready_def)
next
  case set: False
  show ?thesis
  proof (cases "unresolvable parsers (pk_name_parser p)")
    case True
    from init_packet_analyzer_unresolvable [OF set True, of w]
    have "\<not> (\<exists>r. init_packet_analyzer parsers p w = Inr r)" by auto
    with True set show ?thesis by (auto simp: packet_ready_def)
  next
    case False
    then have "find_parser parsers (pk_name_analyzer p) (pk_name_parser p) =
        Inr (lookup_parser parsers (pk_name_parser p))"
      by (simp add: find_parser_resolvable)
    with set False show ?thesis
      by (simp add: init_packet_analyzer_def Let_def packet_ready_def)
  qed
qed

lemma init_packet_analyzer_resolved:
  assumes "init_packet_analyzer parsers p w = Inr (p', w')"
  shows "p' = resolved_packet parsers p"
  using assms
  by (auto simp: init_packet_analyzer_def Let_def resolved_packet_def
      split: if_splits sum.splits dest!: find_parser_lookup)

lemma init_packet_analyzers_ok:
  "(\<exists>r. init_packet_analyzers parsers ps w = Inr r) = (\<forall>p \<in> set ps. packet_ready parsers p)"
proof (induction ps arbitrary: w)
  case Nil
  show ?case by simp
next
  case (Cons p ps)
  show ?case
  proof (cases "init_packet_analyzer parsers p w")
    case (Inl e)
    with init_packet_analyzer_ok [of parsers p w] have "\<not> packet_ready parsers p"
      by auto
    with Inl show ?thesis by simp
  next
    case (Inr r)
    obtain p' w1 where r: "r = (p', w1)" by (cases r)
    from Inr init_packet_analyzer_ok [of parsers p w] have h: "packet_ready parsers p"
      by auto
    with Inr r Cons.IH [of w1] show ?thesis
      by (auto split: sum.splits)
  qed
qed

lemma init_packet_analyzers_map:
  "init_packet_analyzers parsers ps w = Inr (ps', w') \<Longrightarrow>
     ps' = map (resolved_packet parsers) ps"
proof (induction ps arbitrary: w ps')
  case Nil
  then show ?case by simp
next
  case (Cons p ps)
  then obtain p' w1 qs where h: "init_packet_analyzer parsers p w = Inr (p', w1)"
    and t: "init_packet_analyzers parsers ps w1 = Inr (qs, w')" and e: "ps' = p' # qs"
    by (auto split: sum.splits prod.splits)
  from init_packet_analyzer_resolved [OF h] Cons.IH [OF t] e show ?case by simp
qed

lemma fill_in_parsers_map:
  assumes "fill_in_parsers parsers w = Inr w'"
  shows "protocol_analyzers_by_type w' =
           map (resolved_protocol parsers) (protocol_analyzers_by_type w)"
    and "file_analyzers_by_type w' = map (resolved_file parsers) (file_analyzers_by_type w)"
    and "packet_analyzers_by_type w' =
           map (resolved_packet parsers) (packet_analyzers_by_type w)"
    and "analyzer_names w' = analyzer_names w"
    and "file_names w' = file_names w"
proof -
  from assms obtain pas w1 fas w2 pks w3 where
    a: "init_protocol_analyzers parsers (protocol_analyzers_by_type w) w = Inr (pas, w1)"
    and b: "init_file_analyzers parsers (file_analyzers_by_type w1) w1 = Inr (fas, w2)"
    and c: "init_packet_analyzers parsers (packet_analyzers_by_type w2) w2 = Inr (pks, w3)"
    and w': "w' = ZEEK_DEBUG (Fmt ''Done with post-script initialization'' [])
               (w3\<lparr>protocol_analyzers_by_type := pas, file_analyzers_by_type := fas,
                   packet_analyzers_by_type := pks\<rparr>)"
    by (auto simp: fill_in_parsers_def split: sum.splits prod.splits)
  from w' have t: "protocol_analyzers_by_type w' = pas" "file_analyzers_by_type w' = fas"
    "packet_analyzers_by_type w' = pks" "analyzer_names w' = analyzer_names w3"
    "file_names w' = file_names w3"
    by (simp_all add: ZEEK_DEBUG_def)
  note s1 = init_protocol_analyzers_Inr(1) [OF a]
  note s2 = init_file_analyzers_Inr(1) [OF b]
  note s3 = init_packet_analyzers_Inr(1) [OF c]
  from init_protocol_analyzers_map [OF a] t(1)
  show "protocol_analyzers_by_type w' =
      map (resolved_protocol parsers) (protocol_analyzers_by_type w)"
    by simp
  from init_file_analyzers_map [OF b] t(2) s1
  show "file_analyzers_by_type w' = map (resolved_file parsers) (file_analyzers_by_type w)"
    by (simp add: same_tables_def)
  from init_packet_analyzers_map [OF c] t(3) s1 s2
  show "packet_analyzers_by_type w' =
      map (resolved_packet parsers) (packet_analyzers_by_type w)"
    by (simp add: same_tables_def)
  from t(4,5) s1 s2 s3 show "analyzer_names w' = analyzer_names w" "file_names w' = file_names w"
    by (simp_all add: same_tables_def)
qed

lemma fill_in_parsers_ok:
  "(\<exists>w'. fill_in_parsers parsers w = Inr w') = phase2_ready parsers w"
proof (cases "init_protocol_analyzers parsers (protocol_analyzers_by_type w) w")
  case (Inl e)
  with init_protocol_analyzers_ok [of parsers "protocol_analyzers_by_type w" w]
  have "\<not> (\<forall>p \<in> set (protocol_analyzers_by_type w). protocol_ready parsers w p)"
    by auto
  with Inl show ?thesis
    by (auto simp: fill_in_parsers_def phase2_ready_def)
next
  case a: (Inr r1)
  obtain pas w1 where r1: "r1 = (pas, w1)" by (cases r1)
  from a init_protocol_analyzers_ok [of parsers "protocol_analyzers_by_type w" w]
  have pa: "\<forall>p \<in> set (protocol_analyzers_by_type w). protocol_ready parsers w p"
    by auto
  from a r1 have s1: "same_tables w w1"
    by (auto dest: init_protocol_analyzers_Inr(1))
  then have f1: "file_analyzers_by_type w1 = file_analyzers_by_type w"
    and k1: "packet_analyzers_by_type w1 = packet_analyzers_by_type w"
    by (simp_all add: same_tables_def)
  show ?thesis
  proof (cases "init_file_analyzers parsers (file_analyzers_by_type w1) w1")
    case (Inl e)
    with init_file_analyzers_ok [of parsers "file_analyzers_by_type w1" w1]
    have "\<not> (\<forall>p \<in> set (file_analyzers_by_type w). file_ready parsers w p)"
      by (auto simp: f1 file_ready_same [OF s1])
    with Inl a r1 show ?thesis
      by (auto simp: fill_in_parsers_def phase2_ready_def)
  next
    case b: (Inr r2)
    obtain fas w2 where r2: "r2 = (fas, w2)" by (cases r2)
    from b init_file_analyzers_ok [of parsers "file_analyzers_by_type w1" w1]
    have fa: "\<forall>p \<in> set (file_analyzers_by_type w). file_ready parsers w p"
      by (auto simp: f1 file_ready_same [OF s1])
    from b r2 have s2: "same_tables w1 w2"
      by (auto dest: init_file_analyzers_Inr(1))
    then have k2: "packet_analyzers_by_type w2 = packet_analyzers_by_type w"
      by (simp add: same_tables_def k1)
    show ?thesis
    proof (cases "init_packet_analyzers parsers (packet_analyzers_by_type w2) w2")
      case (Inl e)
      with init_packet_analyzers_ok [of parsers "packet_analyzers_by_type w2" w2]
      have "\<not> (\<forall>p \<in> set (packet_analyzers_by_type w). packet_ready parsers p)"
        by (auto simp: k2)
      with Inl a r1 b r2 show ?thesis
        by (auto simp: fill_in_parsers_def phase2_ready_def)
    next
      case c: (Inr r3)
      obtain pks w3 where r3: "r3 = (pks, w3)" by (cases r3)
      from c init_packet_analyzers_ok [of parsers "packet_analyzers_by_type w2" w2]
      have "\<forall>p \<in> set (packet_analyzers_by_type w). packet_ready parsers p"
        by (auto simp: k2)
      with pa fa a r1 b r2 c r3 show ?thesis
        by (simp add: fill_in_parsers_def phase2_ready_def)
    qed
  qed
qed

lemma fill_in_parsers_Inl:
  "fill_in_parsers parsers w = Inl e \<Longrightarrow> \<exists>m. e = InternalError m"
  by (auto simp: fill_in_parsers_def split: sum.splits prod.splits
      dest: init_protocol_analyzers_Inl init_file_analyzers_Inl init_packet_analyzers_Inl)

lemma before_runtime_init_tables:
  "protocol_analyzers_by_type (before_runtime_init w) = protocol_analyzers_by_type w"
  "file_analyzers_by_type (before_runtime_init w) = file_analyzers_by_type w"
  "packet_analyzers_by_type (before_runtime_init w) = packet_analyzers_by_type w"
  "analyzer_names (before_runtime_init w) = analyzer_names w"
  "file_names (before_runtime_init w) = file_names w"
  by (simp_all add: before_runtime_init_def give_events_dummy_type_def ZEEK_DEBUG_def)

lemma names_registered_one_each:
  "analyzer_names registered_one_each ''A'' = Some 1"
  "file_names registered_one_each ''F'' = Some 1"
  by (simp_all add: registered_one_each_def registered_packet_def registered_file_def
      registered_protocol_def stored_protocol_def stored_file_def replaces_file_def
      replaces_protocol_def Let_def AddComponent_def zeekygen_Script_def set_location_def
      makeLocation_def Initialize_analyzer_def Initialize_file_def Initialize_packet_def
      ZEEK_DEBUG_def)

lemma example_phase2_run:
  "\<exists>w'. InitPostScript Inr example_parsers registered_one_each = Inr w' \<and>
        length (protocol_analyzers_by_type w') = 2 \<and>
        pa_type (protocol_analyzers_by_type w' ! 1) = 1 \<and>
        pa_name_parser_orig (protocol_analyzers_by_type w' ! 1) = ''PA'' \<and>
        length (file_analyzers_by_type w') = 2 \<and>
        fa_type (file_analyzers_by_type w' ! 1) = 1 \<and>
        fa_name_parser (file_analyzers_by_type w' ! 1) = ''PF''"
  by (simp add: InitPostScript_def fill_in_parsers_def before_runtime_init_def
      give_events_dummy_type_def ZEEK_DEBUG_def tables_registered_one_each
      init_protocol_analyzer_def init_file_analyzer_def init_packet_analyzer_def
      find_parser_def example_parsers_def GetAnalyzerTag_def GetComponentTag_def
      names_registered_one_each transport_protocol_def RegisterAnalyzerForPort_def
      register_analyzer_for_mime_type_def protocol_descriptor_def file_descriptor_def
      packet_descriptor_def ProtocolAnalyzerInfo_default_def FileAnalyzerInfo_default_def
      PacketAnalyzerInfo_default_def Let_def fmt_def)

lemma example_unresolvable:
  "Inr (before_runtime_init registered_one_each) = Inr (before_runtime_init registered_one_each) \<and>
   has_unresolvable [] (before_runtime_init registered_one_each)"
  by (simp add: has_unresolvable_def unresolvable_def before_runtime_init_def
      give_events_dummy_type_def ZEEK_DEBUG_def tables_registered_one_each
      protocol_descriptor_def)

lemma resolved_fields:
  "pa_type (resolved_protocol parsers p) = pa_type p"
  "pa_name_analyzer (resolved_protocol parsers p) = pa_name_analyzer p"
  "pa_name_parser_orig (resolved_protocol parsers p) = pa_name_parser_orig p"
  "pa_name_parser_resp (resolved_protocol parsers p) = pa_name_parser_resp p"
  "fa_type (resolved_file parsers f) = fa_type f"
  "fa_name_analyzer (resolved_file parsers f) = fa_name_analyzer f"
  "fa_name_parser (resolved_file parsers f) = fa_name_parser f"
  "pk_type (resolved_packet parsers k) = pk_type k"
  "pk_name_analyzer (resolved_packet parsers k) = pk_name_analyzer k"
  "pk_name_parser (resolved_packet parsers k) = pk_name_parser k"
  by (simp_all add: resolved_protocol_def resolved_file_def resolved_packet_def)

lemma example_phase2_ready:
  "phase2_ready example_parsers (before_runtime_init registered_one_each)"
  by (simp add: phase2_ready_def protocol_ready_def file_ready_def packet_ready_def
      before_runtime_init_tables tables_registered_one_each unresolvable_def lookup_parser_def
      example_parsers_def GetAnalyzerTag_def GetComponentTag_def names_registered_one_each
      protocol_descriptor_def file_descriptor_def packet_descriptor_def
      ProtocolAnalyzerInfo_default_def FileAnalyzerInfo_default_def
      PacketAnalyzerInfo_default_def)

lemma example_resolved_tables:
  "map (resolved_protocol example_parsers)
       (protocol_analyzers_by_type (before_runtime_init registered_one_each)) =
     [ProtocolAnalyzerInfo_default,
      (protocol_descriptor initial_world ''A'' TCP [] ''PA'' ''PA'' [] 1)
        \<lparr>pa_parser_orig := Some (example_parsers ! 0),
         pa_parser_resp := Some (example_parsers ! 0)\<rparr>]"
  "map (resolved_file example_parsers)
       (file_analyzers_by_type (before_runtime_init registered_one_each)) =
     [FileAnalyzerInfo_default,
      (file_descriptor config_41 initial_world ''F'' [] ''PF'' [] 1)
        \<lparr>fa_parser := Some (example_parsers ! 1)\<rparr>]"
  "map (resolved_packet example_parsers)
       (packet_analyzers_by_type (before_runtime_init registered_one_each)) =
     [PacketAnalyzerInfo_default,
      (packet_descriptor ''K'' ''PK'' 1)\<lparr>pk_parser := Some (example_parsers ! 2)\<rparr>]"
  by (simp_all add: before_runtime_init_tables tables_registered_one_each
      resolved_protocol_def resolved_file_def resolved_packet_def lookup_parser_def
      example_parsers_def protocol_descriptor_def file_descriptor_def packet_descriptor_def
      ProtocolAnalyzerInfo_default_def FileAnalyzerInfo_default_def
      PacketAnalyzerInfo_default_def)

text \<open>
  Claim C8. Phase 2, once the runtime is initialised, completes exactly when nothing
  stops it at a descriptor, and otherwise ends in a fatal internal error; in particular
  it ends so when some descriptor with a non-zero type declares a non-empty name that no
  runtime parser has. When it completes, each of the three tables is the table the
  runtime initialisation left with every set descriptor's declared names looked up: the
  same number of slots, an unset slot untouched, and in a set descriptor nothing changed
  but the resolved parsers (type and declared names are those registered). So, in every
  descriptor whose type field is non-zero, an empty name has no parser and a non-empty
  name has a parser, the first runtime parser of exactly that name. The lookup
  \<^verbatim>\<open>find_parser\<close> itself returns null for the empty name, fails with an internal error for
  a non-empty name that no runtime parser has, and returns a parser of that name whenever
  some runtime parser has it.
\<close>

theorem phase2_resolves_parsers:
  "(\<forall>w'. InitPostScript rt_init parsers w = Inr w' \<longrightarrow>
      (\<forall>p \<in> set (protocol_analyzers_by_type w'). pa_type p \<noteq> 0 \<longrightarrow>
         resolves parsers (pa_name_parser_orig p) (pa_parser_orig p) \<and>
         resolves parsers (pa_name_parser_resp p) (pa_parser_resp p)) \<and>
      (\<forall>p \<in> set (file_analyzers_by_type w'). fa_type p \<noteq> 0 \<longrightarrow>
         resolves parsers (fa_name_parser p) (fa_parser p)) \<and>
      (\<forall>p \<in> set (packet_analyzers_by_type w'). pk_type p \<noteq> 0 \<longrightarrow>
         resolves parsers (pk_name_parser p) (pk_parser p))) \<and>
   (\<forall>w1. rt_init (before_runtime_init w) = Inr w1 \<and> has_unresolvable parsers w1 \<longrightarrow>
      (\<exists>m. InitPostScript rt_init parsers w = Inl (InternalError m))) \<and>
   find_parser parsers analyzer [] = Inr None \<and>
   (unresolvable parsers declared \<longrightarrow>
      (\<exists>m. find_parser parsers analyzer declared = Inl (InternalError m))) \<and>
   (\<forall>x. find_parser parsers analyzer declared = Inr x \<longrightarrow> resolves parsers declared x) \<and>
   (declared \<noteq> [] \<longrightarrow>
      (\<forall>q \<in> set parsers. name q = declared \<longrightarrow>
         (\<exists>p. find_parser parsers analyzer declared = Inr (Some p) \<and>
              name p = declared \<and> p \<in> set parsers))) \<and>
   (\<forall>w1 w'. rt_init (before_runtime_init w) = Inr w1 \<and>
        InitPostScript rt_init parsers w = Inr w' \<longrightarrow>
      protocol_analyzers_by_type w' =
        map (resolved_protocol parsers) (protocol_analyzers_by_type w1) \<and>
      file_analyzers_by_type w' = map (resolved_file parsers) (file_analyzers_by_type w1) \<and>
      packet_analyzers_by_type w' =
        map (resolved_packet parsers) (packet_analyzers_by_type w1) \<and>
      length (protocol_analyzers_by_type w') = length (protocol_analyzers_by_type w1) \<and>
      length (file_analyzers_by_type w') = length (file_analyzers_by_type w1) \<and>
      length (packet_analyzers_by_type w') = length (packet_analyzers_by_type w1) \<and>
      (\<forall>i < length (protocol_analyzers_by_type w1).
         pa_type (protocol_analyzers_by_type w' ! i) =
           pa_type (protocol_analyzers_by_type w1 ! i) \<and>
         pa_name_parser_orig (protocol_analyzers_by_type w' ! i) =
           pa_name_parser_orig (protocol_analyzers_by_type w1 ! i) \<and>
         pa_name_parser_resp (protocol_analyzers_by_type w' ! i) =
           pa_name_parser_resp (protocol_analyzers_by_type w1 ! i)) \<and>
      (\<forall>i < length (file_analyzers_by_type w1).
         fa_type (file_analyzers_by_type w' ! i) = fa_type (file_analyzers_by_type w1 ! i) \<and>
         fa_name_parser (file_analyzers_by_type w' ! i) =
           fa_name_parser (file_analyzers_by_type w1 ! i)) \<and>
      (\<forall>i < length (packet_analyzers_by_type w1).
         pk_type (packet_analyzers_by_type w' ! i) =
           pk_type (packet_analyzers_by_type w1 ! i) \<and>
         pk_name_parser (packet_analyzers_by_type w' ! i) =
           pk_name_parser (packet_analyzers_by_type w1 ! i))) \<and>
   (\<forall>w1. rt_init (before_runtime_init w) = Inr w1 \<longrightarrow>
      ((\<exists>w'. InitPostScript rt_init parsers w = Inr w') = phase2_ready parsers w1) \<and>
      (\<not> phase2_ready parsers w1 \<longrightarrow>
         (\<exists>m. InitPostScript rt_init parsers w = Inl (InternalError m))))"
proof (intro conjI allI impI ballI)
  fix w'
  assume r: "InitPostScript rt_init parsers w = Inr w'"
  then obtain w1 where f: "fill_in_parsers parsers w1 = Inr w'"
    by (auto simp: InitPostScript_def split: sum.splits)
  {
    fix p
    assume "p \<in> set (protocol_analyzers_by_type w')" and "pa_type p \<noteq> 0"
    with fill_in_parsers_Inr(1) [OF f] have "protocol_resolved parsers p" by blast
    then show "resolves parsers (pa_name_parser_orig p) (pa_parser_orig p)"
      and "resolves parsers (pa_name_parser_resp p) (pa_parser_resp p)"
      by (simp_all add: protocol_resolved_def)
  next
    fix p
    assume "p \<in> set (file_analyzers_by_type w')" and "fa_type p \<noteq> 0"
    with fill_in_parsers_Inr(2) [OF f] have "file_resolved parsers p" by blast
    then show "resolves parsers (fa_name_parser p) (fa_parser p)"
      by (simp add: file_resolved_def)
  next
    fix p
    assume "p \<in> set (packet_analyzers_by_type w')" and "pk_type p \<noteq> 0"
    with fill_in_parsers_Inr(3) [OF f] have "packet_resolved parsers p" by blast
    then show "resolves parsers (pk_name_parser p) (pk_parser p)"
      by (simp add: packet_resolved_def)
  }
next
  fix w1
  assume "rt_init (before_runtime_init w) = Inr w1 \<and> has_unresolvable parsers w1"
  with fill_in_parsers_unresolvable [of parsers w1]
  show "\<exists>m. InitPostScript rt_init parsers w = Inl (InternalError m)"
    by (auto simp: InitPostScript_def)
next
  show "find_parser parsers analyzer [] = Inr None"
    by (simp add: find_parser_def)
next
  assume "unresolvable parsers declared"
  then show "\<exists>m. find_parser parsers analyzer declared = Inl (InternalError m)"
    by (rule find_parser_unresolvable)
next
  fix x
  assume "find_parser parsers analyzer declared = Inr x"
  then show "resolves parsers declared x"
    by (rule find_parser_Inr)
next
  fix q
  assume "declared \<noteq> []" and "q \<in> set parsers" and "name q = declared"
  then show "\<exists>p. find_parser parsers analyzer declared = Inr (Some p) \<and>
      name p = declared \<and> p \<in> set parsers"
    by (simp add: find_parser_complete)
next
  fix w1 w'
  assume "rt_init (before_runtime_init w) = Inr w1 \<and>
      InitPostScript rt_init parsers w = Inr w'"
  then have f: "fill_in_parsers parsers w1 = Inr w'"
    by (auto simp: InitPostScript_def)
  note m = fill_in_parsers_map(1-3) [OF f]
  show "protocol_analyzers_by_type w' =
      map (resolved_protocol parsers) (protocol_analyzers_by_type w1)"
    and "file_analyzers_by_type w' = map (resolved_file parsers) (file_analyzers_by_type w1)"
    and "packet_analyzers_by_type w' =
      map (resolved_packet parsers) (packet_analyzers_by_type w1)"
    by (rule m)+
  show "length (protocol_analyzers_by_type w') = length (protocol_analyzers_by_type w1)"
    and "length (file_analyzers_by_type w') = length (file_analyzers_by_type w1)"
    and "length (packet_analyzers_by_type w') = length (packet_analyzers_by_type w1)"
    by (simp_all add: m)
  {
    fix i
    assume "i < length (protocol_analyzers_by_type w1)"
    then show "pa_type (protocol_analyzers_by_type w' ! i) =
        pa_type (protocol_analyzers_by_type w1 ! i)"
      and "pa_name_parser_orig (protocol_analyzers_by_type w' ! i) =
        pa_name_parser_orig (protocol_analyzers_by_type w1 ! i)"
      and "pa_name_parser_resp (protocol_analyzers_by_type w' ! i) =
        pa_name_parser_resp (protocol_analyzers_by_type w1 ! i)"
      by (simp_all add: m resolved_fields)
  next
    fix i
    assume "i < length (file_analyzers_by_type w1)"
    then show "fa_type (file_analyzers_by_type w' ! i) = fa_type (file_analyzers_by_type w1 ! i)"
      and "fa_name_parser (file_analyzers_by_type w' ! i) =
        fa_name_parser (file_analyzers_by_type w1 ! i)"
      by (simp_all add: m resolved_fields)
  next
    fix i
    assume "i < length (packet_analyzers_by_type w1)"
    then show "pk_type (packet_analyzers_by_type w' ! i) =
        pk_type (packet_analyzers_by_type w1 ! i)"
      and "pk_name_parser (packet_analyzers_by_type w' ! i) =
        pk_name_parser (packet_analyzers_by_type w1 ! i)"
      by (simp_all add: m resolved_fields)
  }
next
  fix w1
  assume r: "rt_init (before_runtime_init w) = Inr w1"
  then have e: "InitPostScript rt_init parsers w = fill_in_parsers parsers w1"
    by (simp add: InitPostScript_def)
  show "(\<exists>w'. InitPostScript rt_init parsers w = Inr w') = phase2_ready parsers w1"
    unfolding e by (rule fill_in_parsers_ok)
  assume n: "\<not> phase2_ready parsers w1"
  show "\<exists>m. InitPostScript rt_init parsers w = Inl (InternalError m)"
  proof (cases "fill_in_parsers parsers w1")
    case (Inl x)
    with fill_in_parsers_Inl [OF Inl] show ?thesis by (auto simp: e)
  next
    case (Inr w')
    with fill_in_parsers_ok [of parsers w1] n show ?thesis by auto
  qed
qed

theorem phase2_resolves_parsers_witness:
  "(\<exists>w1 w2. registerProtocolAnalyzer ''A'' TCP [] ''PA'' ''PA'' [] 1 initial_world = Inr w1 \<and>
      registerFileAnalyzer config_41 ''F'' [] ''PF'' [] 1 w1 = Inr w2 \<and>
      registerPacketAnalyzer ''K'' ''PK'' 1 w2 = Inr registered_one_each) \<and>
   (\<exists>w'. InitPostScript Inr example_parsers registered_one_each = Inr w' \<and>
      protocol_analyzers_by_type w' =
        [ProtocolAnalyzerInfo_default,
         (protocol_descriptor initial_world ''A'' TCP [] ''PA'' ''PA'' [] 1)
           \<lparr>pa_parser_orig := Some (example_parsers ! 0),
            pa_parser_resp := Some (example_parsers ! 0)\<rparr>] \<and>
      file_analyzers_by_type w' =
        [FileAnalyzerInfo_default,
         (file_descriptor config_41 initial_world ''F'' [] ''PF'' [] 1)
           \<lparr>fa_parser := Some (example_parsers ! 1)\<rparr>] \<and>
      packet_analyzers_by_type w' =
        [PacketAnalyzerInfo_default,
         (packet_descriptor ''K'' ''PK'' 1)\<lparr>pk_parser := Some (example_parsers ! 2)\<rparr>] \<and>
      resolves example_parsers ''PA'' (pa_parser_orig (protocol_analyzers_by_type w' ! 1)) \<and>
      pa_parser_orig (protocol_analyzers_by_type w' ! 1) \<noteq> None \<and>
      resolves example_parsers ''PF'' (fa_parser (file_analyzers_by_type w' ! 1)) \<and>
      fa_parser (file_analyzers_by_type w' ! 1) \<noteq> None) \<and>
   (\<exists>m. InitPostScript Inr [] registered_one_each = Inl (InternalError m)) \<and>
   (\<exists>p. find_parser example_parsers ''F'' ''PF'' = Inr (Some p) \<and> name p = ''PF'')"
proof -
  note T = phase2_resolves_parsers [where rt_init = Inr and parsers = example_parsers
      and w = registered_one_each]
  let ?w1 = "before_runtime_init registered_one_each"
  note ok = T [THEN conjunct2, THEN conjunct2, THEN conjunct2, THEN conjunct2,
      THEN conjunct2, THEN conjunct2, THEN conjunct2, rule_format, OF refl, THEN conjunct1]
  from ok example_phase2_ready obtain w' where
    w': "InitPostScript Inr example_parsers registered_one_each = Inr w'"
    by blast
  have both: "Inr ?w1 = Inr ?w1 \<and> InitPostScript Inr example_parsers registered_one_each = Inr w'"
    using w' by simp
  note tab = T [THEN conjunct2, THEN conjunct2, THEN conjunct2, THEN conjunct2,
      THEN conjunct2, THEN conjunct2, THEN conjunct1, rule_format, OF both]
  have t: "protocol_analyzers_by_type w' =
        [ProtocolAnalyzerInfo_default,
         (protocol_descriptor initial_world ''A'' TCP [] ''PA'' ''PA'' [] 1)
           \<lparr>pa_parser_orig := Some (example_parsers ! 0),
            pa_parser_resp := Some (example_parsers ! 0)\<rparr>]"
    "file_analyzers_by_type w' =
        [FileAnalyzerInfo_default,
         (file_descriptor config_41 initial_world ''F'' [] ''PF'' [] 1)
           \<lparr>fa_parser := Some (example_parsers ! 1)\<rparr>]"
    "packet_analyzers_by_type w' =
        [PacketAnalyzerInfo_default,
         (packet_descriptor ''K'' ''PK'' 1)\<lparr>pk_parser := Some (example_parsers ! 2)\<rparr>]"
    using tab by (simp_all add: example_resolved_tables)
  note R = T [THEN conjunct1, rule_format, OF w']
  have "protocol_analyzers_by_type w' ! 1 \<in> set (protocol_analyzers_by_type w')"
    "pa_type (protocol_analyzers_by_type w' ! 1) \<noteq> 0"
    "pa_name_parser_orig (protocol_analyzers_by_type w' ! 1) = ''PA''"
    by (simp_all add: t protocol_descriptor_def)
  with R have rp: "resolves example_parsers ''PA''
      (pa_parser_orig (protocol_analyzers_by_type w' ! 1))"
    by fastforce
  have "file_analyzers_by_type w' ! 1 \<in> set (file_analyzers_by_type w')"
    "fa_type (file_analyzers_by_type w' ! 1) \<noteq> 0"
    "fa_name_parser (file_analyzers_by_type w' ! 1) = ''PF''"
    by (simp_all add: t file_descriptor_def)
  with R have rf: "resolves example_parsers ''PF''
      (fa_parser (file_analyzers_by_type w' ! 1))"
    by fastforce
  from resolves_present [OF rp] resolves_present [OF rf]
  have ne: "pa_parser_orig (protocol_analyzers_by_type w' ! 1) \<noteq> None"
    "fa_parser (file_analyzers_by_type w' ! 1) \<noteq> None"
    by simp_all
  have a: "\<exists>w'. InitPostScript Inr example_parsers registered_one_each = Inr w' \<and>
      protocol_analyzers_by_type w' =
        [ProtocolAnalyzerInfo_default,
         (protocol_descriptor initial_world ''A'' TCP [] ''PA'' ''PA'' [] 1)
           \<lparr>pa_parser_orig := Some (example_parsers ! 0),
            pa_parser_resp := Some (example_parsers ! 0)\<rparr>] \<and>
      file_analyzers_by_type w' =
        [FileAnalyzerInfo_default,
         (file_descriptor config_41 initial_world ''F'' [] ''PF'' [] 1)
           \<lparr>fa_parser := Some (example_parsers ! 1)\<rparr>] \<and>
      packet_analyzers_by_type w' =
        [PacketAnalyzerInfo_default,
         (packet_descriptor ''K'' ''PK'' 1)\<lparr>pk_parser := Some (example_parsers ! 2)\<rparr>] \<and>
      resolves example_parsers ''PA'' (pa_parser_orig (protocol_analyzers_by_type w' ! 1)) \<and>
      pa_parser_orig (protocol_analyzers_by_type w' ! 1) \<noteq> None \<and>
      resolves example_parsers ''PF'' (fa_parser (file_analyzers_by_type w' ! 1)) \<and>
      fa_parser (file_analyzers_by_type w' ! 1) \<noteq> None"
    using w' t rp rf ne by blast
  from phase2_resolves_parsers [where rt_init = Inr and parsers = "[]"
      and w = registered_one_each, THEN conjunct2, THEN conjunct1, rule_format,
      OF example_unresolvable]
  have b: "\<exists>m. InitPostScript Inr [] registered_one_each = Inl (InternalError m)" .
  have q: "example_parsers ! 1 \<in> set example_parsers" "name (example_parsers ! 1) = ''PF''"
    "''PF'' \<noteq> []"
    by (simp_all add: example_parsers_def)
  from phase2_resolves_parsers [where parsers = example_parsers and analyzer = "''F''"
      and declared = "''PF''", THEN conjunct2, THEN conjunct2, THEN conjunct2,
      THEN conjunct2, THEN conjunct2, THEN conjunct1, rule_format, OF q(3) q(1) q(2)]
  have c: "\<exists>p. find_parser example_parsers ''F'' ''PF'' = Inr (Some p) \<and> name p = ''PF''"
    by blast
  from concrete_registrations(1) a b c show ?thesis by blast
qed

section \<open>Parser lookup by tag\<close>

lemma parserFor_in_range:
  "tag < length (protocol_analyzers_by_type w) \<Longrightarrow>
     parserForProtocolAnalyzer w tag is_orig =
       Inr (if is_orig then pa_parser_orig (protocol_analyzers_by_type w ! tag)
            else pa_parser_resp (protocol_analyzers_by_type w ! tag))"
  "tag < length (file_analyzers_by_type w) \<Longrightarrow>
     parserForFileAnalyzer w tag = Inr (fa_parser (file_analyzers_by_type w ! tag))"
  by (simp_all add: parserForProtocolAnalyzer_def parserForFileAnalyzer_def at_def)

lemma parserFor_out_of_range:
  "length (protocol_analyzers_by_type w) \<le> tag \<Longrightarrow>
     parserForProtocolAnalyzer w tag is_orig = Inl OutOfBounds"
  "length (file_analyzers_by_type w) \<le> tag \<Longrightarrow> parserForFileAnalyzer w tag = Inl OutOfBounds"
  by (simp_all add: parserForProtocolAnalyzer_def parserForFileAnalyzer_def at_def)

lemma resolves_empty: "resolves parsers [] x \<Longrightarrow> x = None"
  by (simp add: resolves_def)

lemma names_stored_protocol:
  "analyzer_names (stored_protocol k info t w) = (analyzer_names w)(pa_name_analyzer info \<mapsto> t)"
  "file_names (stored_protocol k info t w) = file_names w"
  by (simp_all add: stored_protocol_def Let_def AddComponent_def zeekygen_Script_def
      set_location_def makeLocation_def Initialize_analyzer_def)

lemma names_registered_protocol:
  assumes "proto = TCP \<or> proto = UDP"
  shows "analyzer_names (registered_protocol nm proto prts po pr r t w) =
           (analyzer_names w)(nm \<mapsto> t)"
    and "file_names (registered_protocol nm proto prts po pr r t w) = file_names w"
  using assms
  by (auto simp: registered_protocol_stages names_stored_protocol
      after_replaces_protocol_state after_replaces_protocol_def info_replaces_protocol
      protocol_info_def replaces_protocol_def Let_def DisableAnalyzer_def ZEEK_DEBUG_def)

lemma registered_B_no_resp_facts:
  "protocol_analyzers_by_type registered_B_no_resp =
     [ProtocolAnalyzerInfo_default,
      protocol_descriptor initial_world ''A'' TCP [] ''PA'' ''PA'' [] 1,
      protocol_descriptor registered_one_each ''B'' UDP [] ''PA'' [] [] 2]"
  "file_analyzers_by_type registered_B_no_resp = file_analyzers_by_type registered_one_each"
  "packet_analyzers_by_type registered_B_no_resp = packet_analyzers_by_type registered_one_each"
  "analyzer_names registered_B_no_resp = (analyzer_names registered_one_each)(''B'' \<mapsto> 2)"
  "file_names registered_B_no_resp = file_names registered_one_each"
  by (simp_all add: registered_B_no_resp_def table_registered_protocol
      registered_protocol_other_tables names_registered_protocol
      tables_registered_one_each resize_def numeral_2_eq_2 numeral_3_eq_3)

lemma example_phase2_run_B:
  "\<exists>w'. InitPostScript Inr example_parsers registered_B_no_resp = Inr w' \<and>
        length (protocol_analyzers_by_type w') = 3 \<and>
        pa_type (protocol_analyzers_by_type w' ! 2) = 2 \<and>
        pa_name_parser_resp (protocol_analyzers_by_type w' ! 2) = [] \<and>
        pa_parser_orig (protocol_analyzers_by_type w' ! 2) = Some (example_parsers ! 0)"
  by (simp add: InitPostScript_def fill_in_parsers_def before_runtime_init_def
      give_events_dummy_type_def ZEEK_DEBUG_def registered_B_no_resp_facts
      tables_registered_one_each
      init_protocol_analyzer_def init_file_analyzer_def init_packet_analyzer_def
      find_parser_def example_parsers_def GetAnalyzerTag_def GetComponentTag_def
      names_registered_one_each transport_protocol_def RegisterAnalyzerForPort_def
      register_analyzer_for_mime_type_def protocol_descriptor_def file_descriptor_def
      packet_descriptor_def ProtocolAnalyzerInfo_default_def FileAnalyzerInfo_default_def
      PacketAnalyzerInfo_default_def Let_def fmt_def)

text \<open>
  Claim C10. \<^verbatim>\<open>parserForProtocolAnalyzer\<close> and \<^verbatim>\<open>parserForFileAnalyzer\<close> index the table with
  the tag's numeric id, with no check of the bounds or of the sentinel. For an id within
  the table they return the resolved parser stored in that slot, whatever the slot's type
  field is (the originator- or the responder-side one according to \<open>is_orig\<close>); for an id
  at or beyond the size of the table the read has no defined result. The stored parser is
  null for a descriptor that has just been registered, and after phase 2 for a set
  descriptor whose declared name is empty.
\<close>

theorem parserFor_reads_slot_unchecked:
  "(tag < length (protocol_analyzers_by_type w) \<longrightarrow>
      parserForProtocolAnalyzer w tag is_orig =
        Inr (if is_orig then pa_parser_orig (protocol_analyzers_by_type w ! tag)
             else pa_parser_resp (protocol_analyzers_by_type w ! tag))) \<and>
   (length (protocol_analyzers_by_type w) \<le> tag \<longrightarrow>
      parserForProtocolAnalyzer w tag is_orig = Inl OutOfBounds) \<and>
   (tag < length (file_analyzers_by_type w) \<longrightarrow>
      parserForFileAnalyzer w tag = Inr (fa_parser (file_analyzers_by_type w ! tag))) \<and>
   (length (file_analyzers_by_type w) \<le> tag \<longrightarrow>
      parserForFileAnalyzer w tag = Inl OutOfBounds) \<and>
   (t < 4294967295 \<and> (proto = TCP \<or> proto = UDP) \<longrightarrow>
      (\<exists>w'. registerProtocolAnalyzer nm proto prts po pr r t w = Inr w' \<and>
         parserForProtocolAnalyzer w' t is_orig = Inr None)) \<and>
   (t < 4294967295 \<longrightarrow>
      (\<exists>w'. registerFileAnalyzer cfg nm mts prs r t w = Inr w' \<and>
         parserForFileAnalyzer w' t = Inr None)) \<and>
   (\<forall>w'. InitPostScript rt_init parsers w = Inr w' \<longrightarrow>
      (tag < length (protocol_analyzers_by_type w') \<and>
       pa_type (protocol_analyzers_by_type w' ! tag) \<noteq> 0 \<and>
       (if is_orig then pa_name_parser_orig (protocol_analyzers_by_type w' ! tag) = []
        else pa_name_parser_resp (protocol_analyzers_by_type w' ! tag) = []) \<longrightarrow>
         parserForProtocolAnalyzer w' tag is_orig = Inr None) \<and>
      (tag < length (file_analyzers_by_type w') \<and>
       fa_type (file_analyzers_by_type w' ! tag) \<noteq> 0 \<and>
       fa_name_parser (file_analyzers_by_type w' ! tag) = [] \<longrightarrow>
         parserForFileAnalyzer w' tag = Inr None))"
proof (intro conjI impI allI)
  assume "tag < length (protocol_analyzers_by_type w)"
  then show "parserForProtocolAnalyzer w tag is_orig =
        Inr (if is_orig then pa_parser_orig (protocol_analyzers_by_type w ! tag)
             else pa_parser_resp (protocol_analyzers_by_type w ! tag))"
    by (rule parserFor_in_range)
next
  assume "length (protocol_analyzers_by_type w) \<le> tag"
  then show "parserForProtocolAnalyzer w tag is_orig = Inl OutOfBounds"
    by (rule parserFor_out_of_range)
next
  assume "tag < length (file_analyzers_by_type w)"
  then show "parserForFileAnalyzer w tag = Inr (fa_parser (file_analyzers_by_type w ! tag))"
    by (rule parserFor_in_range)
next
  assume "length (file_analyzers_by_type w) \<le> tag"
  then show "parserForFileAnalyzer w tag = Inl OutOfBounds"
    by (rule parserFor_out_of_range)
next
  assume "t < 4294967295 \<and> (proto = TCP \<or> proto = UDP)"
  then have t: "t < 4294967295" and p: "proto = TCP \<or> proto = UDP"
    by simp_all
  have "parserForProtocolAnalyzer (registered_protocol nm proto prts po pr r t w) t is_orig =
        Inr None"
    by (simp add: parserFor_in_range table_registered_protocol [OF p] length_resize
        protocol_descriptor_def)
  with t show "\<exists>w'. registerProtocolAnalyzer nm proto prts po pr r t w = Inr w' \<and>
      parserForProtocolAnalyzer w' t is_orig = Inr None"
    by (simp add: registerProtocolAnalyzer_eq)
next
  assume t: "t < 4294967295"
  have "parserForFileAnalyzer (registered_file cfg nm mts prs r t w) t = Inr None"
    by (simp add: parserFor_in_range table_registered_file length_resize
        file_descriptor_def)
  with t show "\<exists>w'. registerFileAnalyzer cfg nm mts prs r t w = Inr w' \<and>
      parserForFileAnalyzer w' t = Inr None"
    by (simp add: registerFileAnalyzer_eq)
next
  fix w'
  assume r: "InitPostScript rt_init parsers w = Inr w'"
    and h: "tag < length (protocol_analyzers_by_type w') \<and>
       pa_type (protocol_analyzers_by_type w' ! tag) \<noteq> 0 \<and>
       (if is_orig then pa_name_parser_orig (protocol_analyzers_by_type w' ! tag) = []
        else pa_name_parser_resp (protocol_analyzers_by_type w' ! tag) = [])"
  from r obtain w1 where f: "fill_in_parsers parsers w1 = Inr w'"
    by (auto simp: InitPostScript_def split: sum.splits)
  from h have "protocol_analyzers_by_type w' ! tag \<in> set (protocol_analyzers_by_type w')"
    by simp
  with fill_in_parsers_Inr(1) [OF f] h
  have "protocol_resolved parsers (protocol_analyzers_by_type w' ! tag)"
    by blast
  with h show "parserForProtocolAnalyzer w' tag is_orig = Inr None"
    by (cases is_orig) (auto simp: parserFor_in_range protocol_resolved_def dest: resolves_empty)
next
  fix w'
  assume r: "InitPostScript rt_init parsers w = Inr w'"
    and h: "tag < length (file_analyzers_by_type w') \<and>
       fa_type (file_analyzers_by_type w' ! tag) \<noteq> 0 \<and>
       fa_name_parser (file_analyzers_by_type w' ! tag) = []"
  from r obtain w1 where f: "fill_in_parsers parsers w1 = Inr w'"
    by (auto simp: InitPostScript_def split: sum.splits)
  from h have "file_analyzers_by_type w' ! tag \<in> set (file_analyzers_by_type w')"
    by simp
  with fill_in_parsers_Inr(2) [OF f] h
  have "file_resolved parsers (file_analyzers_by_type w' ! tag)"
    by blast
  with h show "parserForFileAnalyzer w' tag = Inr None"
    by (auto simp: parserFor_in_range file_resolved_def dest: resolves_empty)
qed

theorem parserFor_reads_slot_unchecked_witness:
  "parserForProtocolAnalyzer registered_one_each 1 True = Inr None \<and>
   parserForProtocolAnalyzer registered_one_each 0 False = Inr None \<and>
   parserForProtocolAnalyzer registered_one_each 2 True = Inl OutOfBounds \<and>
   parserForFileAnalyzer registered_one_each 1 = Inr None \<and>
   parserForFileAnalyzer registered_one_each 2 = Inl OutOfBounds \<and>
   registerProtocolAnalyzer ''B'' UDP [] ''PA'' [] [] 2 registered_one_each =
     Inr registered_B_no_resp \<and>
   parserForProtocolAnalyzer registered_B_no_resp 2 True = Inr None \<and>
   (\<exists>w'. registerFileAnalyzer config_41 ''G'' [] ''PG'' [] 2 registered_one_each = Inr w' \<and>
      parserForFileAnalyzer w' 2 = Inr None) \<and>
   (\<exists>w'. InitPostScript Inr example_parsers registered_B_no_resp = Inr w' \<and>
      parserForProtocolAnalyzer w' 2 False = Inr None \<and>
      parserForProtocolAnalyzer w' 2 True = Inr (Some (example_parsers ! 0)))"
proof -
  have len: "length (protocol_analyzers_by_type registered_one_each) = 2"
    "length (file_analyzers_by_type registered_one_each) = 2"
    by (simp_all add: tables_registered_one_each)
  note T = parserFor_reads_slot_unchecked
  from T [where w = registered_one_each and tag = 1 and is_orig = True] len
  have a: "parserForProtocolAnalyzer registered_one_each 1 True = Inr None"
    "parserForFileAnalyzer registered_one_each 1 = Inr None"
    by (simp_all add: tables_registered_one_each protocol_descriptor_def file_descriptor_def)
  from T [where w = registered_one_each and tag = 0 and is_orig = False] len
  have b: "parserForProtocolAnalyzer registered_one_each 0 False = Inr None"
    by (simp add: tables_registered_one_each ProtocolAnalyzerInfo_default_def)
  from T [where w = registered_one_each and tag = 2 and is_orig = True] len
  have c: "parserForProtocolAnalyzer registered_one_each 2 True = Inl OutOfBounds"
    "parserForFileAnalyzer registered_one_each 2 = Inl OutOfBounds"
    by simp_all
  have t: "(2::nat) < 4294967295 \<and> (UDP = TCP \<or> UDP = UDP)" "(2::nat) < 4294967295"
    by simp_all
  note reg = concrete_registrations(8)
  from T [where w = registered_one_each and proto = UDP and nm = "''B''" and prts = "[]"
      and po = "''PA''" and pr = "[]" and r = "[]" and t = 2 and is_orig = True,
      THEN conjunct2, THEN conjunct2, THEN conjunct2, THEN conjunct2, THEN conjunct1,
      THEN mp, OF t(1)]
  have d: "parserForProtocolAnalyzer registered_B_no_resp 2 True = Inr None"
    by (simp add: reg)
  note g = T [where w = registered_one_each and cfg = config_41 and nm = "''G''"
      and mts = "[]" and prs = "''PG''" and r = "[]" and t = 2,
      THEN conjunct2, THEN conjunct2, THEN conjunct2, THEN conjunct2, THEN conjunct2,
      THEN conjunct1, THEN mp, OF t(2)]
  from example_phase2_run_B obtain w' where
    w': "InitPostScript Inr example_parsers registered_B_no_resp = Inr w'"
    and p: "length (protocol_analyzers_by_type w') = 3"
      "pa_type (protocol_analyzers_by_type w' ! 2) = 2"
      "pa_name_parser_resp (protocol_analyzers_by_type w' ! 2) = []"
      "pa_parser_orig (protocol_analyzers_by_type w' ! 2) = Some (example_parsers ! 0)"
    by blast
  from T [where w = registered_B_no_resp and rt_init = Inr and parsers = example_parsers
      and tag = 2 and is_orig = False, THEN conjunct2, THEN conjunct2, THEN conjunct2,
      THEN conjunct2, THEN conjunct2, THEN conjunct2, rule_format, OF w', THEN conjunct1]
    p
  have e: "parserForProtocolAnalyzer w' 2 False = Inr None"
    by simp
  from T [where w = w' and tag = 2 and is_orig = True] p
  have f: "parserForProtocolAnalyzer w' 2 True = Inr (Some (example_parsers ! 0))"
    by simp
  from a b c reg d g w' e f show ?thesis by blast
qed

end
